theory Spec2Isabelle
  imports Complex_Main
begin

section \<open>Numbers and vectors\<close>

text \<open>
  The program is JavaScript; every number is an IEEE double. The embedding takes the
  numbers as \<^typ>\<open>real\<close>: rounding, overflow to Infinity and NaN are not represented, and
  a JavaScript expression is read as the real-number expression it denotes, with
  the source's order of operations kept. Where the source divides, the divisor is
  shown to be non-zero at every input a theorem below is used at.

  \<open>THREE.Vector3\<close> is the vector class of the three.js library (not part of the
  repository). Its methods are modelled by their documented semantics:
  \<open>length\<close> is the Euclidean norm, \<open>multiplyScalar\<close>, \<open>add\<close> and \<open>sub\<close> act
  componentwise, \<open>divideScalar s\<close> is \<open>multiplyScalar (1 / s)\<close> and \<open>normalize\<close> is
  \<open>divideScalar (length () || 1)\<close>. In this value-level model \<open>clone\<close> is the identity.
\<close>

datatype vec = Vec (vx: real) (vy: real) (vz: real)

definition add :: "vec \<Rightarrow> vec \<Rightarrow> vec" where
  "add a b = Vec (vx a + vx b) (vy a + vy b) (vz a + vz b)"

definition sub :: "vec \<Rightarrow> vec \<Rightarrow> vec" where
  "sub a b = Vec (vx a - vx b) (vy a - vy b) (vz a - vz b)"

definition multiplyScalar :: "vec \<Rightarrow> real \<Rightarrow> vec" where
  "multiplyScalar a s = Vec (vx a * s) (vy a * s) (vz a * s)"

definition length_v :: "vec \<Rightarrow> real" where
  "length_v a = sqrt (vx a * vx a + vy a * vy a + vz a * vz a)"

text \<open>JavaScript \<open>x || d\<close> on numbers: \<open>d\<close> when \<open>x\<close> is \<open>0\<close> (or NaN, not represented).\<close>

definition js_or :: "real \<Rightarrow> real \<Rightarrow> real" where
  "js_or x d = (if x = 0 then d else x)"

definition divideScalar :: "vec \<Rightarrow> real \<Rightarrow> vec" where
  "divideScalar a s = multiplyScalar a (1 / s)"

definition normalize_v :: "vec \<Rightarrow> vec" where
  "normalize_v a = divideScalar a (js_or (length_v a) 1)"

section \<open>Constants (src/main.js 22-31, src/src/app.js 25-30)\<close>

definition G :: real where "G = 6.67430 / 10 ^ 11"
definition earthMass :: real where "earthMass = 5.972 * 10 ^ 24"
definition earthRadiusMeters :: real where "earthRadiusMeters = 6371000"
definition SCENE_SCALE :: real where "SCENE_SCALE = 10 ^ 6"
definition earthRadius :: real where "earthRadius = 6371 / 1000"
definition gravityStrength :: real where "gravityStrength = 0.02"

section \<open>Atmosphere and acceleration of the Realistic model (src/main.js 323-333)\<close>

definition rho0 :: real where "rho0 = 1.225"
definition H :: real where "H = 8000"
definition Cd :: real where "Cd = 1.0"

text \<open>
  The density is the expression \<open>Math.max(0, rho0 * Math.exp(-h/H))\<close> inside \<open>accel\<close>,
  as a function of the altitude \<open>h = rmag - earthRadiusMeters\<close>.
\<close>

definition rho :: "real \<Rightarrow> real" where
  "rho h = max 0 (rho0 * exp (- h / H))"

text \<open>\<open>accel\<close> of \<open>animate\<close> (src/main.js 323-333); \<open>area\<close> and \<open>mass\<close> are the meteor's.\<close>

definition accel :: "real \<Rightarrow> real \<Rightarrow> vec \<Rightarrow> vec \<Rightarrow> vec" where
  "accel area mass p vlocal =
     (let rmag = length_v p;
          g = multiplyScalar p (- G * earthMass / (rmag * rmag * rmag));
          h = rmag - earthRadiusMeters;
          vMag = max (1 / 10 ^ 6) (length_v vlocal);
          drag = multiplyScalar vlocal (- 0.5 * rho h * vMag * Cd * area / mass)
      in add g drag)"

section \<open>Projectiles and spawning\<close>

text \<open>
  A live meteor is the object pushed on \<open>meteors\<close> by the spawn functions. The record
  keeps the fields the simulation reads or writes; \<open>position\<close> is \<open>mesh.position\<close> and
  \<open>opacity\<close> is \<open>mesh.material.opacity\<close>. The mesh geometry, the label and the
  orientation quaternion are presentation only and are left out. \<open>ttl\<close> is
  \<open>None\<close> for a meteor pushed without a \<open>ttl\<close> property (\<open>undefined\<close>).
\<close>

record meteor =
  position :: vec
  velocity :: vec
  physVelocity :: vec
  active :: bool
  mass :: real
  area :: real
  size_m :: real
  ttl :: "real option"
  fading :: bool
  opacity :: real
  angularVelocity :: "vec option"

text \<open>
  The part of the program state the simulation uses: the globals of src/main.js,
  the fields of \<open>App\<close> in src/src/app.js. \<open>marker_position\<close> and \<open>marker_visible\<close>
  are \<open>predictedImpactMarker.position\<close> and \<open>.visible\<close>.
\<close>

record world =
  meteors :: "meteor list"
  impactCount :: nat
  simSpeed :: real
  realistic :: bool
  camera_position :: vec
  cursor_position :: vec
  marker_position :: vec
  marker_visible :: bool

text \<open>
  \<open>shootMeteor\<close> of src/main.js (241-273). \<open>speed\<close> is
  \<open>parseFloat(speedSlider.value)\<close>; the diameter is the constant \<open>0.5\<close>. The function
  has no check of its inputs, no \<open>throw\<close> and no return value. The fields \<open>ttl\<close>,
  \<open>fading\<close>, \<open>opacity\<close> and \<open>angularVelocity\<close> are not set or read by src/main.js.
\<close>

definition shootMeteor :: "real \<Rightarrow> world \<Rightarrow> world" where
  "shootMeteor speed w =
     (let size = 0.5;
          dir = normalize_v (sub (cursor_position w) (camera_position w));
          density = 3000;
          volume = (4 / 3) * pi * (size / 2) ^ 3;
          mass = density * volume;
          area = pi * (size / 2) ^ 2;
          physVelocity = multiplyScalar dir (speed * SCENE_SCALE)
      in w\<lparr>meteors := meteors w @
           [\<lparr>position = camera_position w, velocity = multiplyScalar dir speed,
             physVelocity = physVelocity, active = True, mass = mass, area = area,
             size_m = size, ttl = None, fading = False, opacity = 1,
             angularVelocity = None\<rparr>]\<rparr>)"

text \<open>
  \<open>App.shootMeteor\<close> of src/src/app.js (428-468). \<open>speed\<close> and \<open>size\<close> are the parsed
  values of the \<open>speed\<close> and \<open>meteorSize\<close> inputs, \<open>rnd\<close> holds the three
  \<open>Math.random()\<close> draws of the tumble. Again there is no check of \<open>speed\<close> or \<open>size\<close>
  and no error path.
\<close>

definition app_shootMeteor :: "real \<Rightarrow> real \<Rightarrow> vec \<Rightarrow> world \<Rightarrow> world" where
  "app_shootMeteor speed sz rnd w =
     (let size = sz;
          meteor_position = camera_position w;
          dir0 = normalize_v (sub (cursor_position w) (camera_position w));
          dir = (if marker_visible w
                 then normalize_v (sub (marker_position w) meteor_position) else dir0);
          density = 3000;
          volume = (4 / 3) * pi * (size / 2) ^ 3;
          mass = density * volume;
          area = pi * (size / 2) ^ 2;
          physVelocity = multiplyScalar dir (speed * SCENE_SCALE);
          sceneVelocity = multiplyScalar dir (speed * 0.6);
          angVel = multiplyScalar
                     (Vec ((vx rnd - 0.5) * 2) ((vy rnd - 0.5) * 2) ((vz rnd - 0.5) * 2)) 0.6
      in w\<lparr>meteors := meteors w @
           [\<lparr>position = meteor_position, velocity = sceneVelocity,
             physVelocity = physVelocity, active = True, mass = mass, area = area,
             size_m = size, ttl = Some 800, fading = False, opacity = 1.0,
             angularVelocity = Some angVel\<rparr>]\<rparr>)"

section \<open>Integrators of the live simulation\<close>

text \<open>
  The Realistic branch of \<open>animate\<close> in src/main.js (315-364): the hand-written
  Runge-Kutta stages on \<open>posMeters\<close> and \<open>meteor.physVelocity\<close>, \<open>dt = 0.02 * simSpeed\<close>.
  The emissive heating that follows is presentation only.
\<close>

definition animate_rk4 :: "real \<Rightarrow> real \<Rightarrow> real \<Rightarrow> vec \<times> vec \<Rightarrow> vec \<times> vec" where
  "animate_rk4 ar ms dt s =
     (let posMeters = fst s; vel = snd s;
          k1v = multiplyScalar (accel ar ms posMeters vel) dt;
          k1x = multiplyScalar vel dt;
          p2 = add posMeters (multiplyScalar k1x 0.5);
          v2 = add vel (multiplyScalar k1v 0.5);
          k2v = multiplyScalar (accel ar ms p2 v2) dt;
          k2x = multiplyScalar v2 dt;
          p3 = add posMeters (multiplyScalar k2x 0.5);
          v3 = add vel (multiplyScalar k2v 0.5);
          k3v = multiplyScalar (accel ar ms p3 v3) dt;
          k3x = multiplyScalar v3 dt;
          p4 = add posMeters k3x;
          v4 = add vel k3v;
          k4v = multiplyScalar (accel ar ms p4 v4) dt;
          k4x = multiplyScalar v4 dt;
          dx = multiplyScalar
                 (add (add (add k1x (multiplyScalar k2x 2)) (multiplyScalar k3x 2)) k4x) (1 / 6);
          dv = multiplyScalar
                 (add (add (add k1v (multiplyScalar k2v 2)) (multiplyScalar k3v 2)) k4v) (1 / 6)
      in (add posMeters dx, add vel dv))"

definition realistic_step :: "real \<Rightarrow> meteor \<Rightarrow> meteor" where
  "realistic_step ss m =
     (let posMeters = multiplyScalar (position m) SCENE_SCALE;
          dt = 0.02 * ss;
          s' = animate_rk4 (area m) (mass m) dt (posMeters, physVelocity m)
      in m\<lparr>position := multiplyScalar (fst s') (1 / SCENE_SCALE), physVelocity := snd s'\<rparr>)"

text \<open>
  The Realistic branch of \<open>App.animate\<close> in src/src/app.js (978-989), whose comment
  reads "semi-implicit Euler gravity approximation (faster)": gravity only.
\<close>

definition app_realistic_euler :: "real \<Rightarrow> vec \<times> vec \<Rightarrow> vec \<times> vec" where
  "app_realistic_euler dtInt s =
     (let posMeters = fst s;
          rmag = length_v posMeters;
          g = multiplyScalar posMeters (- G * earthMass / (rmag * rmag * rmag));
          physVelocity' = add (snd s) (multiplyScalar g dtInt);
          posMeters' = add posMeters (multiplyScalar physVelocity' dtInt)
      in (posMeters', physVelocity'))"

definition app_realistic_step :: "real \<Rightarrow> meteor \<Rightarrow> meteor" where
  "app_realistic_step ss m =
     (let posMeters = multiplyScalar (position m) SCENE_SCALE;
          dtInt = 0.02 * ss;
          s' = app_realistic_euler dtInt (posMeters, physVelocity m)
      in m\<lparr>position := multiplyScalar (fst s') (1 / SCENE_SCALE), physVelocity := snd s'\<rparr>)"

text \<open>
  The Arcade branch, the same text in src/main.js (375-380) and src/src/app.js
  (990-994); \<open>r\<close> is \<open>pos.length()\<close> read at the start of the tick.
\<close>

definition arcade_euler :: "real \<Rightarrow> vec \<times> vec \<Rightarrow> vec \<times> vec" where
  "arcade_euler ss s =
     (let pos = fst s;
          r = length_v pos;
          gravityAccel = multiplyScalar (normalize_v pos) (- gravityStrength / (r * r));
          velocity' = add (snd s) (multiplyScalar gravityAccel ss);
          pos' = add pos (multiplyScalar velocity' ss)
      in (pos', velocity'))"

definition arcade_step :: "real \<Rightarrow> meteor \<Rightarrow> meteor" where
  "arcade_step ss m =
     (let s' = arcade_euler ss (position m, velocity m)
      in m\<lparr>position := fst s', velocity := snd s'\<rparr>)"

section \<open>Impact energy\<close>

text \<open>
  The energy computation at impact (src/main.js 398-404, src/src/app.js 1014-1019).
  A property that may be missing on the meteor object is an \<open>option\<close>: the source
  tests \<open>meteor.physVelocity\<close> and \<open>meteor.velocity\<close> for presence. \<open>meteor.mass || 1\<close>
  replaces a zero mass by \<open>1\<close>.
\<close>

definition speedAtImpact :: "vec option \<Rightarrow> vec option \<Rightarrow> real" where
  "speedAtImpact pv_opt v_opt =
     (case pv_opt of
        Some pv \<Rightarrow> length_v pv
      | None \<Rightarrow> (case v_opt of Some v \<Rightarrow> length_v v * SCENE_SCALE | None \<Rightarrow> 0))"

definition ke :: "real \<Rightarrow> real \<Rightarrow> real" where
  "ke ms speed = 0.5 * js_or ms 1 * speed * speed"

definition keTons :: "real \<Rightarrow> real" where
  "keTons k = k / (4.184 * 10 ^ 9)"

text \<open>
  What one impact reports: the point handed to \<open>createImpact\<close>, the local
  \<open>speedAtImpact\<close>, and the two numbers \<open>ke\<close> and \<open>keTons\<close> written to the
  \<open>impactEnergy\<close> element.
\<close>

record impact =
  point :: vec
  impactSpeed :: real
  kineticEnergyJoules :: real
  tntEquivalentKilotons :: real

definition resolve_impact :: "meteor \<Rightarrow> impact" where
  "resolve_impact m =
     (let speed = speedAtImpact (Some (physVelocity m)) (Some (velocity m));
          k = ke (mass m) speed
      in \<lparr>point = position m, impactSpeed = speed, kineticEnergyJoules = k,
          tntEquivalentKilotons = keTons k\<rparr>)"

section \<open>One tick of one meteor\<close>

text \<open>
  The body of \<open>meteors.forEach\<close> in \<open>animate\<close> of src/main.js (310-407). The impact
  test uses \<open>r\<close>, the distance read before the integration step; the point and the
  velocities of the impact are those after the step.
\<close>

definition animate_meteor :: "bool \<Rightarrow> real \<Rightarrow> meteor \<Rightarrow> meteor \<times> impact option" where
  "animate_meteor rl ss m =
     (if \<not> active m then (m, None)
      else
        let r = length_v (position m);
            m1 = (if rl then realistic_step ss m else arcade_step ss m)
        in if r < earthRadius + 0.2
           then (m1\<lparr>active := False\<rparr>, Some (resolve_impact m1))
           else (m1, None))"

text \<open>
  The body of \<open>this.meteors.forEach\<close> in \<open>App.animate\<close> of src/src/app.js (961-1021).
  \<open>dt\<close> is the frame time in seconds scaled by \<open>simSpeed\<close> (line 932). The tumble
  damps \<open>angularVelocity\<close>; the rotation of the mesh is presentation only.
\<close>

definition tumble :: "real \<Rightarrow> meteor \<Rightarrow> meteor" where
  "tumble dt m =
     (case angularVelocity m of
        None \<Rightarrow> m
      | Some w \<Rightarrow>
          let av = multiplyScalar w dt; ax = length_v av
          in if ax > 0 then m\<lparr>angularVelocity := Some (multiplyScalar w 0.998)\<rparr> else m)"

definition ttl_fade :: "real \<Rightarrow> meteor \<Rightarrow> meteor" where
  "ttl_fade dt m =
     (let t = (case ttl m of None \<Rightarrow> 8.0 | Some t0 \<Rightarrow> t0 - dt);
          m1 = m\<lparr>ttl := Some t\<rparr>;
          m2 = (if t \<le> 0 then m1\<lparr>fading := True\<rparr> else m1)
      in if fading m2
         then
           let opac = max 0 (js_or (opacity m2) 1 - 0.5 * dt);
               m3 = m2\<lparr>opacity := opac\<rparr>
           in if opac \<le> 0 then m3\<lparr>active := False\<rparr> else m3
         else m2)"

definition app_animate_meteor ::
  "bool \<Rightarrow> real \<Rightarrow> real \<Rightarrow> meteor \<Rightarrow> meteor \<times> impact option" where
  "app_animate_meteor rl ss dt m =
     (if \<not> active m then (m, None)
      else
        let r = length_v (position m);
            m0 = tumble dt m;
            m1 = (if rl then app_realistic_step ss m0
                  else arcade_step ss m0);
            m2 = ttl_fade dt m1
        in if r < earthRadius + 0.2
           then (m2\<lparr>active := False\<rparr>, Some (resolve_impact m2))
           else (m2, None))"

section \<open>Scenarios and the wording of the claims\<close>

text \<open>
  The aiming scenario of the specification: the camera at \<open>(0, 0, 15)\<close> looking at the
  origin, the cursor on the plane five units in front of it, launch speed \<open>0.05\<close>.
\<close>

definition scenario_world :: world where
  "scenario_world =
     \<lparr>meteors = [], impactCount = 0, simSpeed = 1, realistic = False,
      camera_position = Vec 0 0 15, cursor_position = Vec 0 0 10,
      marker_position = Vec 0 0 0, marker_visible = False\<rparr>"

text \<open>
  Three meteors of that scenario, found later at \<open>(0, 0, 6.5)\<close>, inside the impact
  radius \<open>earthRadius + 0.2 = 6.571\<close>: one fired by \<open>shootMeteor\<close> of src/main.js, the
  same one with the scene velocity an Arcade flight has given it (the Arcade branch
  integrates \<open>velocity\<close> and leaves \<open>physVelocity\<close> as launched), and one fired by
  \<open>App.shootMeteor\<close> with the diameter \<open>-1\<close>.
\<close>

definition rock_meteor :: meteor where
  "rock_meteor =
     (last (meteors (shootMeteor 0.05 scenario_world)))\<lparr>position := Vec 0 0 6.5\<rparr>"

definition flown_meteor :: meteor where
  "flown_meteor =
     (last (meteors (shootMeteor 0.05 scenario_world)))
       \<lparr>position := Vec 0 0 6.5, velocity := Vec 0 0 (- 0.09)\<rparr>"

definition negative_meteor :: meteor where
  "negative_meteor =
     (last (meteors (app_shootMeteor 0.05 (- 1) (Vec 0.5 0.5 0.5) scenario_world)))
       \<lparr>position := Vec 0 0 6.5\<rparr>"

text \<open>
  The speed claim C6 asks for: the magnitude of the velocity that is authoritative
  for the active model, the display velocity being rescaled to SI.
\<close>

definition authoritative_speed :: "bool \<Rightarrow> meteor \<Rightarrow> real" where
  "authoritative_speed rl m =
     (if rl then length_v (physVelocity m) else length_v (velocity m) * SCENE_SCALE)"

section \<open>The Realistic integrator in the words of the specification\<close>

text \<open>
  The classical Runge-Kutta step of order four for \<open>y' = f y\<close> on pairs (position,
  velocity): four evaluations of \<open>f\<close>, combined with the weights \<open>1/6, 2/6, 2/6, 1/6\<close>.
\<close>

definition padd :: "vec \<times> vec \<Rightarrow> vec \<times> vec \<Rightarrow> vec \<times> vec" where
  "padd y k = (add (fst y) (fst k), add (snd y) (snd k))"

definition pscale :: "real \<Rightarrow> vec \<times> vec \<Rightarrow> vec \<times> vec" where
  "pscale c k = (multiplyScalar (fst k) c, multiplyScalar (snd k) c)"

definition rk4 :: "(vec \<times> vec \<Rightarrow> vec \<times> vec) \<Rightarrow> real \<Rightarrow> vec \<times> vec \<Rightarrow> vec \<times> vec" where
  "rk4 f dt y =
     (let k1 = f y;
          k2 = f (padd y (pscale (dt / 2) k1));
          k3 = f (padd y (pscale (dt / 2) k2));
          k4 = f (padd y (pscale dt k3))
      in padd y (padd (padd (padd (pscale (dt * (1 / 6)) k1) (pscale (dt * (2 / 6)) k2))
                   (pscale (dt * (2 / 6)) k3)) (pscale (dt * (1 / 6)) k4)))"

text \<open>The semi-implicit Euler step: the velocity first, the position with the new velocity.\<close>

definition semi_implicit_euler ::
  "(vec \<Rightarrow> vec) \<Rightarrow> real \<Rightarrow> vec \<times> vec \<Rightarrow> vec \<times> vec" where
  "semi_implicit_euler a dt y =
     (let v' = add (snd y) (multiplyScalar (a (fst y)) dt)
      in (add (fst y) (multiplyScalar v' dt), v'))"

text \<open>The derivative of the coupled system with \<open>accel\<close> of src/main.js.\<close>

definition deriv :: "real \<Rightarrow> real \<Rightarrow> vec \<times> vec \<Rightarrow> vec \<times> vec" where
  "deriv ar ms y = (snd y, accel ar ms (fst y) (snd y))"

text \<open>
  The derivative as C1 and sections 4.2 and 4.3 of the specification word it:
  \<open>gravitationalAcceleration x = -G*M/|x|^3 * x\<close>, the density with the altitude
  clamped at \<open>0\<close>, and the drag \<open>-0.5 * rho(altitude x) * |v| * Cd * crossSection / mass * v\<close>.
\<close>

definition gravitationalAcceleration :: "vec \<Rightarrow> vec" where
  "gravitationalAcceleration x = multiplyScalar x (- G * earthMass / length_v x ^ 3)"

definition atmosphericDensity :: "real \<Rightarrow> real" where
  "atmosphericDensity h = (if 0 \<le> h then rho0 * exp (- h / H) else rho0)"

definition dragAcceleration :: "real \<Rightarrow> real \<Rightarrow> vec \<Rightarrow> vec \<Rightarrow> vec" where
  "dragAcceleration ar ms x v =
     multiplyScalar v
       (- 0.5 * atmosphericDensity (length_v x - earthRadiusMeters) * length_v v * Cd * ar / ms)"

definition claimed_deriv :: "real \<Rightarrow> real \<Rightarrow> vec \<times> vec \<Rightarrow> vec \<times> vec" where
  "claimed_deriv ar ms y =
     (snd y, add (gravitationalAcceleration (fst y)) (dragAcceleration ar ms (fst y) (snd y)))"

definition claimed_realistic_step :: "real \<Rightarrow> meteor \<Rightarrow> meteor" where
  "claimed_realistic_step ss m =
     (let y' = rk4 (claimed_deriv (area m) (mass m)) (0.02 * ss)
                 (multiplyScalar (position m) SCENE_SCALE, physVelocity m)
      in m\<lparr>position := multiplyScalar (fst y') (1 / SCENE_SCALE), physVelocity := snd y'\<rparr>)"

text \<open>
  The meteor fired by \<open>shootMeteor\<close> of the scenario with the launch speed \<open>0\<close>: at
  rest at \<open>(0, 0, 15)\<close>.
\<close>

definition still_meteor :: meteor where
  "still_meteor = last (meteors (shootMeteor 0 scenario_world))"

section \<open>The Ballistic Predictor\<close>

text \<open>
  The loop shared by the three prediction loops of the source,
  \<open>for(let i=0;i<steps;i++){ step; if(hit){ hitPos = ...; break; } if(escaped) break; }\<close>.
  The result is the number of integration steps performed and the state at the hit,
  if any; the first argument of type \<open>nat\<close> is the number of iterations left.
\<close>

fun predict_loop ::
  "('s \<Rightarrow> 's) \<Rightarrow> ('s \<Rightarrow> bool) \<Rightarrow> ('s \<Rightarrow> bool) \<Rightarrow> nat \<Rightarrow> 's \<Rightarrow> nat \<times> 's option" where
  "predict_loop step hit esc 0 s = (0, None)"
| "predict_loop step hit esc (Suc n) s =
     (let s' = step s
      in if hit s' then (1, Some s')
         else if esc s' then (1, None)
         else (case predict_loop step hit esc n s' of (k, r) \<Rightarrow> (Suc k, r)))"

text \<open>
  \<open>accel\<close> of \<open>updatePredictedImpact\<close> (src/main.js 442-452), whose drag line ends
  with the comment "area/mass omitted for prediction simplification".
\<close>

definition accel_pred :: "vec \<Rightarrow> vec \<Rightarrow> vec" where
  "accel_pred p vv =
     (let rmag = length_v p;
          g = multiplyScalar p (- G * earthMass / (rmag * rmag * rmag));
          h = rmag - earthRadiusMeters;
          vmag = max (1 / 10 ^ 6) (length_v vv);
          drag = multiplyScalar vv (- 0.5 * rho h * vmag * Cd * 1.0 / 1.0)
      in add g drag)"

text \<open>The body of the Realistic prediction loop up to \<open>vM.add(dv)\<close> (src/main.js 454-476).\<close>

definition predict_rk4 :: "real \<Rightarrow> vec \<times> vec \<Rightarrow> vec \<times> vec" where
  "predict_rk4 dt s =
     (let pM = fst s; vM = snd s;
          k1v = multiplyScalar (accel_pred pM vM) dt;
          k1x = multiplyScalar vM dt;
          p2 = add pM (multiplyScalar k1x 0.5);
          v2 = add vM (multiplyScalar k1v 0.5);
          k2v = multiplyScalar (accel_pred p2 v2) dt;
          k2x = multiplyScalar v2 dt;
          p3 = add pM (multiplyScalar k2x 0.5);
          v3 = add vM (multiplyScalar k2v 0.5);
          k3v = multiplyScalar (accel_pred p3 v3) dt;
          k3x = multiplyScalar v3 dt;
          p4 = add pM k3x;
          v4 = add vM k3v;
          k4v = multiplyScalar (accel_pred p4 v4) dt;
          k4x = multiplyScalar v4 dt;
          dx = multiplyScalar
                 (add (add (add k1x (multiplyScalar k2x 2)) (multiplyScalar k3x 2)) k4x) (1 / 6);
          dv = multiplyScalar
                 (add (add (add k1v (multiplyScalar k2v 2)) (multiplyScalar k3v 2)) k4v) (1 / 6)
      in (add pM dx, add vM dv))"

text \<open>
  The acceleration of the Arcade model, the expression
  \<open>p.clone().normalize().multiplyScalar(-gravityStrength/(p.length()*p.length()))\<close>
  written out four times in the Arcade prediction loop (src/main.js 488-511), and the
  body of that loop up to \<open>v.add(dv)\<close> (487-520).
\<close>

definition arcade_gravity :: "vec \<Rightarrow> vec" where
  "arcade_gravity p =
     multiplyScalar (normalize_v p) (- gravityStrength / (length_v p * length_v p))"

definition predict_arcade_rk4 :: "real \<Rightarrow> vec \<times> vec \<Rightarrow> vec \<times> vec" where
  "predict_arcade_rk4 dt s =
     (let pos = fst s; v = snd s;
          accel = arcade_gravity pos;
          k1v = multiplyScalar accel dt;
          k1x = multiplyScalar v dt;
          p2 = add pos (multiplyScalar k1x 0.5);
          v2 = add v (multiplyScalar k1v 0.5);
          a2 = arcade_gravity p2;
          k2v = multiplyScalar a2 dt;
          k2x = multiplyScalar v2 dt;
          p3 = add pos (multiplyScalar k2x 0.5);
          v3 = add v (multiplyScalar k2v 0.5);
          a3 = arcade_gravity p3;
          k3v = multiplyScalar a3 dt;
          k3x = multiplyScalar v3 dt;
          p4 = add pos k3x;
          v4 = add v k3v;
          a4 = arcade_gravity p4;
          k4v = multiplyScalar a4 dt;
          k4x = multiplyScalar v4 dt;
          dx = multiplyScalar
                 (add (add (add k1x (multiplyScalar k2x 2)) (multiplyScalar k3x 2)) k4x) (1 / 6);
          dv = multiplyScalar
                 (add (add (add k1v (multiplyScalar k2v 2)) (multiplyScalar k3v 2)) k4v) (1 / 6)
      in (add pos dx, add v dv))"

text \<open>
  The two loops of \<open>updatePredictedImpact\<close> in src/main.js (434-526), from the
  launch state (\<open>origin\<close>, \<open>vel\<close>) in scene units: the steps performed and \<open>hitPos\<close>.
\<close>

definition realistic_hit :: "vec \<times> vec \<Rightarrow> bool" where
  "realistic_hit s = (length_v (fst s) / SCENE_SCALE < earthRadius + 0.2)"

definition realistic_escaped :: "vec \<times> vec \<Rightarrow> bool" where
  "realistic_escaped s = (length_v (fst s) / SCENE_SCALE > 10 ^ 6)"

definition arcade_hit :: "vec \<times> vec \<Rightarrow> bool" where
  "arcade_hit s = (length_v (fst s) < earthRadius + 0.2)"

definition arcade_escaped :: "vec \<times> vec \<Rightarrow> bool" where
  "arcade_escaped s = (length_v (fst s) > 10 ^ 4)"

definition predict_realistic :: "real \<Rightarrow> vec \<Rightarrow> vec \<Rightarrow> nat \<times> vec option" where
  "predict_realistic ss origin vel =
     (let originM = multiplyScalar origin SCENE_SCALE;
          velM = multiplyScalar vel SCENE_SCALE;
          dt = 0.02 * ss;
          steps = 2000;
          r = predict_loop (predict_rk4 dt) realistic_hit realistic_escaped steps (originM, velM)
      in (fst r, map_option (\<lambda>s. multiplyScalar (fst s) (1 / SCENE_SCALE)) (snd r)))"

definition predict_arcade :: "real \<Rightarrow> vec \<Rightarrow> vec \<Rightarrow> nat \<times> vec option" where
  "predict_arcade ss origin vel =
     (let dt = 0.02 * ss;
          steps = 2000;
          r = predict_loop (predict_arcade_rk4 dt) arcade_hit arcade_escaped steps (origin, vel)
      in (fst r, map_option fst (snd r)))"

text \<open>
  \<open>updatePredictedImpact\<close> of src/main.js (425-533). \<open>speed\<close> is the parsed value of
  the \<open>speed\<close> input. \<open>predict\<close> is the function up to the final \<open>if(hitPos)\<close>, which
  writes the result to the marker.
\<close>

definition predict :: "real \<Rightarrow> world \<Rightarrow> nat \<times> vec option" where
  "predict speed w =
     (let origin = camera_position w;
          dir = normalize_v (sub (cursor_position w) (camera_position w));
          vel = multiplyScalar dir speed
      in if realistic w then predict_realistic (simSpeed w) origin vel
         else predict_arcade (simSpeed w) origin vel)"

definition updatePredictedImpact :: "real \<Rightarrow> world \<Rightarrow> world" where
  "updatePredictedImpact speed w =
     (case snd (predict speed w) of
        Some hitPos \<Rightarrow> w\<lparr>marker_position := hitPos, marker_visible := True\<rparr>
      | None \<Rightarrow> w\<lparr>marker_visible := False\<rparr>)"

text \<open>
  \<open>App.updatePredictedImpact\<close> of src/src/app.js (1119-1138): one loop in scene
  units, whatever the model; its body up to \<open>pos.add(...)\<close> is \<open>app_predict_euler\<close>.
\<close>

definition app_predict_euler :: "real \<Rightarrow> vec \<times> vec \<Rightarrow> vec \<times> vec" where
  "app_predict_euler dt s =
     (let pos = fst s;
          r = length_v pos;
          accel = multiplyScalar (normalize_v pos) (- gravityStrength / (r * r));
          v' = add (snd s) (multiplyScalar accel dt);
          pos' = add pos (multiplyScalar v' dt)
      in (pos', v'))"

definition app_predict :: "real \<Rightarrow> world \<Rightarrow> nat \<times> vec option" where
  "app_predict speed w =
     (let origin = camera_position w;
          dir = normalize_v (sub (cursor_position w) (camera_position w));
          v = multiplyScalar dir speed;
          dt = 0.02 * simSpeed w;
          steps = 2000;
          r = predict_loop (app_predict_euler dt) arcade_hit arcade_escaped steps (origin, v)
      in (fst r, map_option fst (snd r)))"

definition app_updatePredictedImpact :: "real \<Rightarrow> world \<Rightarrow> world" where
  "app_updatePredictedImpact speed w =
     (case snd (app_predict speed w) of
        Some hitPos \<Rightarrow> w\<lparr>marker_position := hitPos, marker_visible := True\<rparr>
      | None \<Rightarrow> w\<lparr>marker_visible := False\<rparr>)"

text \<open>The derivatives of the prediction loops, for the comparison with \<open>rk4\<close>.\<close>

definition pred_deriv :: "vec \<times> vec \<Rightarrow> vec \<times> vec" where
  "pred_deriv y = (snd y, accel_pred (fst y) (snd y))"

definition arcade_deriv :: "vec \<times> vec \<Rightarrow> vec \<times> vec" where
  "arcade_deriv y = (snd y, arcade_gravity (fst y))"

text \<open>A meteor whose \<open>area\<close> equals its \<open>mass\<close>, the ratio the predictor assumes.\<close>

definition unit_meteor :: meteor where
  "unit_meteor = rock_meteor\<lparr>mass := 1, area := 1\<rparr>"

section \<open>The contract of the predictor, in the words of C2\<close>

text \<open>
  The hypothetical launch state (origin, velocity) in scene units, and the state of
  the prediction loop after \<open>k\<close> integration steps from it: of src/main.js
  (\<open>predicted\<close>, in metres under the Realistic model) and of src/src/app.js
  (\<open>app_predicted\<close>).
\<close>

definition launch :: "real \<Rightarrow> world \<Rightarrow> vec \<times> vec" where
  "launch speed w =
     (camera_position w,
      multiplyScalar (normalize_v (sub (cursor_position w) (camera_position w))) speed)"

definition predicted :: "real \<Rightarrow> world \<Rightarrow> nat \<Rightarrow> vec \<times> vec" where
  "predicted speed w k =
     (if realistic w
      then (predict_rk4 (0.02 * simSpeed w) ^^ k)
             (multiplyScalar (fst (launch speed w)) SCENE_SCALE,
              multiplyScalar (snd (launch speed w)) SCENE_SCALE)
      else (predict_arcade_rk4 (0.02 * simSpeed w) ^^ k) (launch speed w))"

definition app_predicted :: "real \<Rightarrow> world \<Rightarrow> nat \<Rightarrow> vec \<times> vec" where
  "app_predicted speed w k = (app_predict_euler (0.02 * simSpeed w) ^^ k) (launch speed w)"

definition within_body :: "bool \<Rightarrow> vec \<times> vec \<Rightarrow> bool" where
  "within_body rl s = (if rl then realistic_hit s else arcade_hit s)"

definition beyond_escape :: "bool \<Rightarrow> vec \<times> vec \<Rightarrow> bool" where
  "beyond_escape rl s = (if rl then realistic_escaped s else arcade_escaped s)"

definition scene_position :: "bool \<Rightarrow> vec \<times> vec \<Rightarrow> vec" where
  "scene_position rl s = (if rl then multiplyScalar (fst s) (1 / SCENE_SCALE) else fst s)"

text \<open>
  The contract for a call that returns \<open>r = (steps performed, result)\<close> along the
  states \<open>st 1, st 2, ...\<close>: between one and \<open>2000\<close> steps are performed; no step
  before the last is within the body or beyond the escape distance; the result is an
  impact point exactly when the last step performed is within the body, and then it
  is the position of that step; equivalently, exactly when some step performed is
  within the body; a last step beyond the escape distance and not within the body
  gives no impact, and so does an exhausted budget with neither; the call stops
  before \<open>2000\<close> steps only on one of the two conditions.
\<close>

definition prediction_contract ::
  "nat \<times> vec option \<Rightarrow> (nat \<Rightarrow> vec \<times> vec) \<Rightarrow> (vec \<times> vec \<Rightarrow> bool) \<Rightarrow> (vec \<times> vec \<Rightarrow> bool) \<Rightarrow>
   (vec \<times> vec \<Rightarrow> vec) \<Rightarrow> bool" where
  "prediction_contract r st hit esc out \<longleftrightarrow>
     1 \<le> fst r \<and> fst r \<le> 2000 \<and>
     (\<forall>j\<in>{1..<fst r}. \<not> hit (st j) \<and> \<not> esc (st j)) \<and>
     (\<forall>p. snd r = Some p \<longleftrightarrow> hit (st (fst r)) \<and> p = out (st (fst r))) \<and>
     (snd r \<noteq> None \<longleftrightarrow> (\<exists>k\<in>{1..fst r}. hit (st k))) \<and>
     (\<not> hit (st (fst r)) \<and> esc (st (fst r)) \<longrightarrow> snd r = None) \<and>
     (fst r = 2000 \<and> \<not> hit (st 2000) \<and> \<not> esc (st 2000) \<longrightarrow> snd r = None) \<and>
     (fst r < 2000 \<longrightarrow> hit (st (fst r)) \<or> esc (st (fst r)))"

section \<open>Arcade flight\<close>

text \<open>
  \<open>Vector3.dot\<close> of three.js, and the meteor after \<open>i\<close> Arcade ticks without
  impact: \<open>i\<close> applications of the Arcade step.
\<close>

definition dot :: "vec \<Rightarrow> vec \<Rightarrow> real" where
  "dot a b = vx a * vx b + vy a * vy b + vz a * vz b"

definition arcade_flight :: "real \<Rightarrow> meteor \<Rightarrow> nat \<Rightarrow> meteor" where
  "arcade_flight ss m i = (arcade_step ss ^^ i) m"

section \<open>A run of ticks and the lifecycle\<close>

text \<open>
  A run of \<open>App.animate\<close> on one meteor: one tick per element of the list, each with
  the model flag, \<open>simSpeed\<close> and the scaled frame time \<open>dt\<close> of that frame, and the
  impacts reported on the way. (A meteor that is no longer active is skipped by the
  tick and dropped from \<open>meteors\<close> by the filter at the end of \<open>animate\<close>.)
\<close>

fun app_ticks :: "(bool \<times> real \<times> real) list \<Rightarrow> meteor \<Rightarrow> meteor \<times> impact list" where
  "app_ticks [] m = (m, [])"
| "app_ticks ((rl, ss, dt) # ts) m =
     (let r = app_animate_meteor rl ss dt m;
          r' = app_ticks ts (fst r)
      in (fst r', (case snd r of None \<Rightarrow> [] | Some e \<Rightarrow> [e]) @ snd r'))"

text \<open>
  The lifecycle states of the specification, read off the flags of the meteor
  object: \<open>Removed\<close> is \<open>active = false\<close>, \<open>Fading\<close> is \<open>fading = true\<close>.
\<close>

datatype lifecycle = Flying | Fading | Removed

definition lifecycleState :: "meteor \<Rightarrow> lifecycle" where
  "lifecycleState m = (if \<not> active m then Removed else if fading m then Fading else Flying)"

text \<open>
  The simulated seconds of a run, and the simulated seconds spent fading when the
  time to live at the start is \<open>tau\<close>: the time of the ticks at whose end the time to
  live has run out.
\<close>

definition tick_dt :: "bool \<times> real \<times> real \<Rightarrow> real" where
  "tick_dt t = snd (snd t)"

definition elapsed :: "(bool \<times> real \<times> real) list \<Rightarrow> real" where
  "elapsed ts = sum_list (map tick_dt ts)"

fun fade_time :: "real \<Rightarrow> (bool \<times> real \<times> real) list \<Rightarrow> real" where
  "fade_time tau [] = 0"
| "fade_time tau (t # ts) =
     (if tau - tick_dt t \<le> 0 then tick_dt t else 0) + fade_time (tau - tick_dt t) ts"

text \<open>
  The scenario of C8: the rock fired by \<open>App.shootMeteor\<close> from \<open>(0, 0, 15)\<close>, with the
  time to live \<open>1.0\<close>; Arcade ticks of half a second and of two seconds.
\<close>

definition ttl_meteor :: meteor where
  "ttl_meteor =
     (last (meteors (app_shootMeteor 0.05 0.5 (Vec 0.5 0.5 0.5) scenario_world)))
       \<lparr>ttl := Some 1\<rparr>"

definition half_tick :: "bool \<times> real \<times> real" where
  "half_tick = (False, 1, 0.5)"

definition long_tick :: "bool \<times> real \<times> real" where
  "long_tick = (False, 1, 2)"

section \<open>The predictor on shared vectors\<close>

text \<open>
  The vectors of the program are three.js \<open>Vector3\<close> objects, which are mutable and
  shared by reference: \<open>clone()\<close> allocates a new vector; \<open>copy\<close>, \<open>add\<close>, \<open>sub\<close>,
  \<open>multiplyScalar\<close> and \<open>normalize\<close> overwrite the vector they are called on and
  return it. For the question which vectors \<open>updatePredictedImpact\<close> writes, the
  function is embedded a second time over an explicit store: a vector is a
  reference, the store maps references to values, and \<open>fresh\<close> is the next unused
  reference. Nothing is ever freed.
\<close>

type_synonym ref = nat

record store =
  cells :: "ref \<Rightarrow> vec"
  fresh :: ref

definition v3_clone :: "ref \<Rightarrow> store \<Rightarrow> ref \<times> store" where
  "v3_clone a h = (fresh h, \<lparr>cells = (cells h)(fresh h := cells h a), fresh = Suc (fresh h)\<rparr>)"

definition v3_copy :: "ref \<Rightarrow> ref \<Rightarrow> store \<Rightarrow> store" where
  "v3_copy a b h = h\<lparr>cells := (cells h)(a := cells h b)\<rparr>"

definition v3_add :: "ref \<Rightarrow> ref \<Rightarrow> store \<Rightarrow> store" where
  "v3_add a b h = h\<lparr>cells := (cells h)(a := add (cells h a) (cells h b))\<rparr>"

definition v3_sub :: "ref \<Rightarrow> ref \<Rightarrow> store \<Rightarrow> store" where
  "v3_sub a b h = h\<lparr>cells := (cells h)(a := sub (cells h a) (cells h b))\<rparr>"

definition v3_multiplyScalar :: "ref \<Rightarrow> real \<Rightarrow> store \<Rightarrow> store" where
  "v3_multiplyScalar a s h = h\<lparr>cells := (cells h)(a := multiplyScalar (cells h a) s)\<rparr>"

definition v3_normalize :: "ref \<Rightarrow> store \<Rightarrow> store" where
  "v3_normalize a h = h\<lparr>cells := (cells h)(a := normalize_v (cells h a))\<rparr>"

definition v3_length :: "ref \<Rightarrow> store \<Rightarrow> real" where
  "v3_length a h = length_v (cells h a)"

text \<open>
  Three chains the source repeats: \<open>a.clone().multiplyScalar(c)\<close>,
  \<open>p.clone().add(k.clone().multiplyScalar(c))\<close> and \<open>p.clone().add(k)\<close>.
\<close>

definition clone_scaled :: "ref \<Rightarrow> real \<Rightarrow> store \<Rightarrow> ref \<times> store" where
  "clone_scaled a c h0 = (let (r, h1) = v3_clone a h0 in (r, v3_multiplyScalar r c h1))"

definition clone_plus_scaled :: "ref \<Rightarrow> ref \<Rightarrow> real \<Rightarrow> store \<Rightarrow> ref \<times> store" where
  "clone_plus_scaled p k c h0 =
     (let (q, h1) = v3_clone p h0;
          (t, h2) = clone_scaled k c h1
      in (q, v3_add q t h2))"

definition clone_plus :: "ref \<Rightarrow> ref \<Rightarrow> store \<Rightarrow> ref \<times> store" where
  "clone_plus p k h0 = (let (q, h1) = v3_clone p h0 in (q, v3_add q k h1))"

text \<open>
  \<open>accel\<close> of the Realistic prediction loop (src/main.js 442-452) and the Arcade
  acceleration (488), which returns the vector it allocates. The second argument of
  \<open>arcade_accel_store\<close> is not used; it gives the two the same type.
\<close>

definition accel_store :: "ref \<Rightarrow> ref \<Rightarrow> store \<Rightarrow> ref \<times> store" where
  "accel_store p vv h0 =
     (let rmag = v3_length p h0;
          (g, h1) = clone_scaled p (- G * earthMass / (rmag * rmag * rmag)) h0;
          h = rmag - earthRadiusMeters;
          vmag = max (1 / 10 ^ 6) (v3_length vv h1);
          (drag, h2) = clone_scaled vv (- 0.5 * rho h * vmag * Cd * 1.0 / 1.0) h1
      in (g, v3_add g drag h2))"

definition arcade_accel_store :: "ref \<Rightarrow> ref \<Rightarrow> store \<Rightarrow> ref \<times> store" where
  "arcade_accel_store p vv h0 =
     (let (g, h1) = v3_clone p h0;
          h2 = v3_normalize g h1
      in (g, v3_multiplyScalar g (- gravityStrength / (v3_length p h2 * v3_length p h2)) h2))"

text \<open>
  The body of the two RK4 loops (src/main.js 454-476 and 487-520), in the order of
  the source: the increments \<open>k1v\<close>, \<open>k1x\<close> at the state itself (\<open>rk4_first\<close>); at
  \<open>p2\<close>, \<open>v2\<close> and at \<open>p3\<close>, \<open>v3\<close>, half an increment on (\<open>rk4_half\<close>); at \<open>p4\<close>, \<open>v4\<close>,
  a whole increment on (\<open>rk4_full\<close>); \<open>dx\<close> and \<open>dv\<close> (\<open>rk4_combine\<close>); and the two
  writes \<open>pM.add(dx); vM.add(dv)\<close>, the only ones to vectors that exist before the
  body starts.
\<close>

definition rk4_first ::
  "(ref \<Rightarrow> ref \<Rightarrow> store \<Rightarrow> ref \<times> store) \<Rightarrow> real \<Rightarrow> ref \<Rightarrow> ref \<Rightarrow> store \<Rightarrow> (ref \<times> ref) \<times> store" where
  "rk4_first acc dt p v h0 =
     (let (a1, h1) = acc p v h0;
          (k1v, h2) = clone_scaled a1 dt h1;
          (k1x, h3) = clone_scaled v dt h2
      in ((k1x, k1v), h3))"

definition rk4_half ::
  "(ref \<Rightarrow> ref \<Rightarrow> store \<Rightarrow> ref \<times> store) \<Rightarrow> real \<Rightarrow> ref \<Rightarrow> ref \<Rightarrow> ref \<times> ref \<Rightarrow> store \<Rightarrow>
   (ref \<times> ref) \<times> store" where
  "rk4_half acc dt p v k h0 =
     (let (p2, h1) = clone_plus_scaled p (fst k) 0.5 h0;
          (v2, h2) = clone_plus_scaled v (snd k) 0.5 h1
      in rk4_first acc dt p2 v2 h2)"

definition rk4_full ::
  "(ref \<Rightarrow> ref \<Rightarrow> store \<Rightarrow> ref \<times> store) \<Rightarrow> real \<Rightarrow> ref \<Rightarrow> ref \<Rightarrow> ref \<times> ref \<Rightarrow> store \<Rightarrow>
   (ref \<times> ref) \<times> store" where
  "rk4_full acc dt p v k h0 =
     (let (p4, h1) = clone_plus p (fst k) h0;
          (v4, h2) = clone_plus v (snd k) h1
      in rk4_first acc dt p4 v4 h2)"

definition rk4_combine :: "ref \<Rightarrow> ref \<Rightarrow> ref \<Rightarrow> ref \<Rightarrow> store \<Rightarrow> ref \<times> store" where
  "rk4_combine k1 k2 k3 k4 h0 =
     (let (d, h1) = v3_clone k1 h0;
          (t, h2) = clone_scaled k2 2 h1;
          h3 = v3_add d t h2;
          (u, h4) = clone_scaled k3 2 h3;
          h5 = v3_add d u h4;
          h6 = v3_add d k4 h5
      in (d, v3_multiplyScalar d (1 / 6) h6))"

definition rk4_body ::
  "(ref \<Rightarrow> ref \<Rightarrow> store \<Rightarrow> ref \<times> store) \<Rightarrow> real \<Rightarrow> ref \<Rightarrow> ref \<Rightarrow> store \<Rightarrow> store" where
  "rk4_body acc dt p v h0 =
     (let (k1, h1) = rk4_first acc dt p v h0;
          (k2, h2) = rk4_half acc dt p v k1 h1;
          (k3, h3) = rk4_half acc dt p v k2 h2;
          (k4, h4) = rk4_full acc dt p v k3 h3;
          (dx, h5) = rk4_combine (fst k1) (fst k2) (fst k3) (fst k4) h4;
          (dv, h6) = rk4_combine (snd k1) (snd k2) (snd k3) (snd k4) h5;
          h7 = v3_add p dx h6
      in v3_add v dv h7)"

text \<open>
  The body of the loop of \<open>App.updatePredictedImpact\<close> (src/src/app.js 1130-1133).
\<close>

definition app_predict_body :: "real \<Rightarrow> ref \<Rightarrow> ref \<Rightarrow> store \<Rightarrow> store" where
  "app_predict_body dt pos v h0 =
     (let r = v3_length pos h0;
          (accel, h1) = v3_clone pos h0;
          h2 = v3_normalize accel h1;
          h3 = v3_multiplyScalar accel (- gravityStrength / (r * r)) h2;
          h4 = v3_multiplyScalar accel dt h3;
          h5 = v3_add v accel h4;
          (t, h6) = clone_scaled v dt h5
      in v3_add pos t h6)"

text \<open>
  The loop itself, on the store: \<open>hit\<close> and \<open>esc\<close> are the two tests, \<open>mk\<close> allocates
  \<open>hitPos\<close>.
\<close>

fun predict_loop_store ::
  "(store \<Rightarrow> store) \<Rightarrow> (store \<Rightarrow> bool) \<Rightarrow> (store \<Rightarrow> bool) \<Rightarrow> (store \<Rightarrow> ref \<times> store) \<Rightarrow>
   nat \<Rightarrow> store \<Rightarrow> ref option \<times> store" where
  "predict_loop_store body hit esc mk 0 h = (None, h)"
| "predict_loop_store body hit esc mk (Suc n) h =
     (let h' = body h
      in if hit h' then (case mk h' of (r, h'') \<Rightarrow> (Some r, h''))
         else if esc h' then (None, h')
         else predict_loop_store body hit esc mk n h')"

text \<open>
  A meteor as an object: its vectors are references, its other fields are values.
  The scene holds the store and the objects the predictor can reach: the camera
  position, the cursor position, the position of \<open>predictedImpactMarker\<close>, its
  \<open>visible\<close> flag, and the list of meteors.
\<close>

record meteor_obj =
  position_ref :: ref
  velocity_ref :: ref
  physVelocity_ref :: ref
  angularVelocity_ref :: "ref option"
  obj_active :: bool
  obj_mass :: real
  obj_area :: real
  obj_size :: real
  obj_ttl :: "real option"
  obj_fading :: bool
  obj_opacity :: real

record scene =
  heap :: store
  live :: "meteor_obj list"
  impacts :: nat
  sim_speed :: real
  is_realistic :: bool
  camera_ref :: ref
  cursor_ref :: ref
  marker_ref :: ref
  marker_shown :: bool

text \<open>
  \<open>updatePredictedImpact\<close> of src/main.js (425-533) and of src/src/app.js
  (1119-1138) on the scene. In the first, \<open>vel\<close> is the vector \<open>dir\<close> itself, scaled in
  place; in the second, \<open>v\<close> is. \<open>write_marker\<close> is the final \<open>if(hitPos)\<close> of both.
\<close>

definition predict_realistic_store :: "real \<Rightarrow> ref \<Rightarrow> ref \<Rightarrow> store \<Rightarrow> ref option \<times> store" where
  "predict_realistic_store ss origin v h0 =
     (let (originM, h1) = clone_scaled origin SCENE_SCALE h0;
          (velM, h2) = clone_scaled v SCENE_SCALE h1;
          (pM, h3) = v3_clone originM h2;
          (vM, h4) = v3_clone velM h3;
          dt = 0.02 * ss;
          steps = 2000
      in predict_loop_store (rk4_body accel_store dt pM vM)
           (\<lambda>h. v3_length pM h / SCENE_SCALE < earthRadius + 0.2)
           (\<lambda>h. v3_length pM h / SCENE_SCALE > 10 ^ 6)
           (clone_scaled pM (1 / SCENE_SCALE)) steps h4)"

definition predict_arcade_store :: "real \<Rightarrow> ref \<Rightarrow> ref \<Rightarrow> store \<Rightarrow> ref option \<times> store" where
  "predict_arcade_store ss pos v h0 =
     (let dt = 0.02 * ss;
          steps = 2000
      in predict_loop_store (rk4_body arcade_accel_store dt pos v)
           (\<lambda>h. v3_length pos h < earthRadius + 0.2)
           (\<lambda>h. v3_length pos h > 10 ^ 4)
           (v3_clone pos) steps h0)"

definition predict_store :: "real \<Rightarrow> scene \<Rightarrow> ref option \<times> store" where
  "predict_store speed sc =
     (let (origin, h1) = v3_clone (camera_ref sc) (heap sc);
          (dir, h2) = v3_clone (cursor_ref sc) h1;
          h3 = v3_sub dir (camera_ref sc) h2;
          h4 = v3_normalize dir h3;
          h5 = v3_multiplyScalar dir speed h4;
          vel = dir;
          (pos, h6) = v3_clone origin h5;
          (v, h7) = v3_clone vel h6
      in if is_realistic sc then predict_realistic_store (sim_speed sc) origin v h7
         else predict_arcade_store (sim_speed sc) pos v h7)"

definition write_marker :: "ref option \<times> store \<Rightarrow> scene \<Rightarrow> scene" where
  "write_marker r sc =
     (case r of
        (Some hitPos, h) \<Rightarrow> sc\<lparr>heap := v3_copy (marker_ref sc) hitPos h, marker_shown := True\<rparr>
      | (None, h) \<Rightarrow> sc\<lparr>heap := h, marker_shown := False\<rparr>)"

definition updatePredictedImpact_store :: "real \<Rightarrow> scene \<Rightarrow> scene" where
  "updatePredictedImpact_store speed sc = write_marker (predict_store speed sc) sc"

definition app_predict_store :: "real \<Rightarrow> scene \<Rightarrow> ref option \<times> store" where
  "app_predict_store speed sc =
     (let (origin, h1) = v3_clone (camera_ref sc) (heap sc);
          (dir, h2) = v3_clone (cursor_ref sc) h1;
          h3 = v3_sub dir (camera_ref sc) h2;
          h4 = v3_normalize dir h3;
          (pos, h5) = v3_clone origin h4;
          h6 = v3_multiplyScalar dir speed h5;
          v = dir;
          dt = 0.02 * sim_speed sc;
          steps = 2000
      in predict_loop_store (app_predict_body dt pos v)
           (\<lambda>h. v3_length pos h < earthRadius + 0.2)
           (\<lambda>h. v3_length pos h > 10 ^ 4)
           (v3_clone pos) steps h6)"

definition app_updatePredictedImpact_store :: "real \<Rightarrow> scene \<Rightarrow> scene" where
  "app_updatePredictedImpact_store speed sc = write_marker (app_predict_store speed sc) sc"

text \<open>
  What a scene denotes: the value of a meteor, the state \<open>world\<close> of the sections
  above, and the PredictionResult, the position of the marker if it is shown.
\<close>

definition meteor_of :: "store \<Rightarrow> meteor_obj \<Rightarrow> meteor" where
  "meteor_of h m =
     \<lparr>position = cells h (position_ref m), velocity = cells h (velocity_ref m),
      physVelocity = cells h (physVelocity_ref m), active = obj_active m, mass = obj_mass m,
      area = obj_area m, size_m = obj_size m, ttl = obj_ttl m, fading = obj_fading m,
      opacity = obj_opacity m, angularVelocity = map_option (cells h) (angularVelocity_ref m)\<rparr>"

definition meteor_refs :: "meteor_obj \<Rightarrow> ref set" where
  "meteor_refs m =
     {position_ref m, velocity_ref m, physVelocity_ref m} \<union> set_option (angularVelocity_ref m)"

definition world_of :: "scene \<Rightarrow> world" where
  "world_of sc =
     \<lparr>meteors = map (meteor_of (heap sc)) (live sc), impactCount = impacts sc,
      simSpeed = sim_speed sc, realistic = is_realistic sc,
      camera_position = cells (heap sc) (camera_ref sc),
      cursor_position = cells (heap sc) (cursor_ref sc),
      marker_position = cells (heap sc) (marker_ref sc), marker_visible = marker_shown sc\<rparr>"

definition prediction_result :: "scene \<Rightarrow> vec option" where
  "prediction_result sc = (if marker_shown sc then Some (cells (heap sc) (marker_ref sc)) else None)"

text \<open>
  The inputs of a prediction, in the words of C3: the origin, the aim direction, the
  model and the simulation speed (the launch speed is an argument).
\<close>

definition aim_direction :: "scene \<Rightarrow> vec" where
  "aim_direction sc =
     normalize_v (sub (cells (heap sc) (cursor_ref sc)) (cells (heap sc) (camera_ref sc)))"

definition same_inputs :: "scene \<Rightarrow> scene \<Rightarrow> bool" where
  "same_inputs sc sc' \<longleftrightarrow>
     cells (heap sc) (camera_ref sc) = cells (heap sc') (camera_ref sc') \<and>
     aim_direction sc = aim_direction sc' \<and>
     is_realistic sc = is_realistic sc' \<and> sim_speed sc = sim_speed sc'"

text \<open>
  What the store operations compute: \<open>acc_ok acc f\<close> says that \<open>acc\<close> returns a new
  vector holding \<open>f\<close> of its arguments and writes no vector that existed before;
  \<open>produces h r x y\<close> says the same of a stage that returns two new vectors.
  \<open>rk4_values\<close> is the common shape of \<open>predict_rk4\<close> and \<open>predict_arcade_rk4\<close>.
\<close>

definition acc_ok :: "(ref \<Rightarrow> ref \<Rightarrow> store \<Rightarrow> ref \<times> store) \<Rightarrow> (vec \<Rightarrow> vec \<Rightarrow> vec) \<Rightarrow> bool" where
  "acc_ok acc f \<longleftrightarrow>
     (\<forall>p v h. p < fresh h \<longrightarrow> v < fresh h \<longrightarrow>
        fresh h \<le> fst (acc p v h) \<and> fst (acc p v h) < fresh (snd (acc p v h)) \<and>
        cells (snd (acc p v h)) (fst (acc p v h)) = f (cells h p) (cells h v) \<and>
        (\<forall>a<fresh h. cells (snd (acc p v h)) a = cells h a))"

definition produces :: "store \<Rightarrow> (ref \<times> ref) \<times> store \<Rightarrow> vec \<Rightarrow> vec \<Rightarrow> bool" where
  "produces h r x y \<longleftrightarrow>
     fresh h \<le> fst (fst r) \<and> fst (fst r) < fresh (snd r) \<and>
     fresh h \<le> snd (fst r) \<and> snd (fst r) < fresh (snd r) \<and>
     cells (snd r) (fst (fst r)) = x \<and> cells (snd r) (snd (fst r)) = y \<and>
     (\<forall>a<fresh h. cells (snd r) a = cells h a)"

definition rk4_values :: "(vec \<Rightarrow> vec \<Rightarrow> vec) \<Rightarrow> real \<Rightarrow> vec \<times> vec \<Rightarrow> vec \<times> vec" where
  "rk4_values f dt s =
     (let pM = fst s; vM = snd s;
          k1v = multiplyScalar (f pM vM) dt;
          k1x = multiplyScalar vM dt;
          p2 = add pM (multiplyScalar k1x 0.5);
          v2 = add vM (multiplyScalar k1v 0.5);
          k2v = multiplyScalar (f p2 v2) dt;
          k2x = multiplyScalar v2 dt;
          p3 = add pM (multiplyScalar k2x 0.5);
          v3 = add vM (multiplyScalar k2v 0.5);
          k3v = multiplyScalar (f p3 v3) dt;
          k3x = multiplyScalar v3 dt;
          p4 = add pM k3x;
          v4 = add vM k3v;
          k4v = multiplyScalar (f p4 v4) dt;
          k4x = multiplyScalar v4 dt;
          dx = multiplyScalar
                 (add (add (add k1x (multiplyScalar k2x 2)) (multiplyScalar k3x 2)) k4x) (1 / 6);
          dv = multiplyScalar
                 (add (add (add k1v (multiplyScalar k2v 2)) (multiplyScalar k3v 2)) k4v) (1 / 6)
      in (add pM dx, add vM dv))"

text \<open>
  Two scenes with the same inputs: one with a meteor in flight and the marker
  hidden, one without meteors, laid out differently in the store, with the marker
  shown and the cursor at another point of the same line of aim.
\<close>

definition rock_obj :: meteor_obj where
  "rock_obj =
     \<lparr>position_ref = 3, velocity_ref = 4, physVelocity_ref = 5, angularVelocity_ref = None,
      obj_active = True, obj_mass = 196.35, obj_area = 0.19635, obj_size = 0.5,
      obj_ttl = None, obj_fading = False, obj_opacity = 1\<rparr>"

definition rock_scene :: scene where
  "rock_scene =
     \<lparr>heap = \<lparr>cells = (\<lambda>a. Vec 0 0 0)
                 (0 := Vec 0 0 15, 1 := Vec 0 0 10, 3 := Vec 0 0 12, 4 := Vec 0 0 (- 0.03),
                  5 := Vec 0 0 (- 30000)),
              fresh = 6\<rparr>,
      live = [rock_obj], impacts = 0, sim_speed = 1, is_realistic = False,
      camera_ref = 0, cursor_ref = 1, marker_ref = 2, marker_shown = False\<rparr>"

definition empty_scene :: scene where
  "empty_scene =
     \<lparr>heap = \<lparr>cells = (\<lambda>a. Vec 1 1 1)(1 := Vec 0 0 15, 2 := Vec 0 0 5), fresh = 3\<rparr>,
      live = [], impacts = 7, sim_speed = 1, is_realistic = False,
      camera_ref = 1, cursor_ref = 2, marker_ref = 0, marker_shown = True\<rparr>"

section \<open>Atmospheric density\<close>

lemma rho_exp: "rho h = rho0 * exp (- h / H)"
  by (simp add: rho_def rho0_def max_def)

text \<open>
  C7, as stated, fails below the surface: the altitude is not clamped before the
  exponential, so at \<open>h = -8000\<close> the density is \<open>rho0 * exp 1\<close>, not \<open>rho0\<close>.
\<close>

theorem rho_below_surface_counterexample: "rho (- 8000) \<noteq> rho0"
proof -
  have "exp (1::real) \<noteq> 1"
    using exp_gt_one [of "1::real"] by simp
  then show ?thesis
    by (simp add: rho_exp H_def rho0_def)
qed

text \<open>
  C7 (amended): for every altitude, negative ones included, the density is
  \<open>rho0 * exp (- altitude / H)\<close>; it is never negative; the altitude is not clamped,
  so below the surface the density is strictly greater than \<open>rho0\<close>.
\<close>

theorem rho_unclamped:
  "rho h = rho0 * exp (- h / H) \<and> 0 \<le> rho h \<and> (h < 0 \<longrightarrow> rho0 < rho h)"
proof -
  have "h < 0 \<Longrightarrow> 1 < exp (- h / H)"
    by (simp add: H_def)
  then show ?thesis
    by (auto simp: rho_exp rho0_def)
qed

theorem rho_unclamped_witness:
  "rho (- 8000) = rho0 * exp 1 \<and> rho0 < rho (- 8000)"
  using rho_unclamped [of "- 8000"] by (simp add: H_def)

section \<open>Fields that the steps leave alone\<close>

lemma length_v_axis: "length_v (Vec 0 0 z) = \<bar>z\<bar>"
  by (simp add: length_v_def)

lemma tumble_fields:
  "position (tumble dt m) = position m" "velocity (tumble dt m) = velocity m"
  "physVelocity (tumble dt m) = physVelocity m" "mass (tumble dt m) = mass m"
  "active (tumble dt m) = active m" "ttl (tumble dt m) = ttl m"
  "fading (tumble dt m) = fading m" "opacity (tumble dt m) = opacity m"
  "area (tumble dt m) = area m"
  by (simp_all add: tumble_def Let_def split: option.splits)

lemma ttl_fade_fields:
  "position (ttl_fade dt m) = position m" "velocity (ttl_fade dt m) = velocity m"
  "physVelocity (ttl_fade dt m) = physVelocity m" "mass (ttl_fade dt m) = mass m"
  "area (ttl_fade dt m) = area m"
  by (simp_all add: ttl_fade_def Let_def)

lemma arcade_step_fields:
  "physVelocity (arcade_step ss m) = physVelocity m" "mass (arcade_step ss m) = mass m"
  "active (arcade_step ss m) = active m" "ttl (arcade_step ss m) = ttl m"
  "fading (arcade_step ss m) = fading m" "opacity (arcade_step ss m) = opacity m"
  "area (arcade_step ss m) = area m"
  by (simp_all add: arcade_step_def Let_def)

lemma realistic_step_fields:
  "velocity (realistic_step ss m) = velocity m" "mass (realistic_step ss m) = mass m"
  "active (realistic_step ss m) = active m" "ttl (realistic_step ss m) = ttl m"
  "fading (realistic_step ss m) = fading m" "opacity (realistic_step ss m) = opacity m"
  "area (realistic_step ss m) = area m"
  by (simp_all add: realistic_step_def Let_def)

lemma app_realistic_step_fields:
  "velocity (app_realistic_step ss m) = velocity m" "mass (app_realistic_step ss m) = mass m"
  "active (app_realistic_step ss m) = active m" "ttl (app_realistic_step ss m) = ttl m"
  "fading (app_realistic_step ss m) = fading m" "opacity (app_realistic_step ss m) = opacity m"
  "area (app_realistic_step ss m) = area m"
  by (simp_all add: app_realistic_step_def Let_def)

section \<open>The scenarios, evaluated\<close>

lemma shoot_scenario:
  "shootMeteor 0.05 scenario_world =
     scenario_world\<lparr>meteors :=
       [\<lparr>position = Vec 0 0 15, velocity = Vec 0 0 (- 0.05),
         physVelocity = Vec 0 0 (- 50000), active = True,
         mass = 62.5 * pi, area = pi / 16, size_m = 0.5, ttl = None,
         fading = False, opacity = 1, angularVelocity = None\<rparr>]\<rparr>"
  by (simp add: shootMeteor_def scenario_world_def Let_def normalize_v_def divideScalar_def
      multiplyScalar_def sub_def js_or_def SCENE_SCALE_def power3_eq_cube power2_eq_square
      length_v_axis)

lemma app_shoot_scenario:
  "app_shootMeteor 0.05 sz (Vec 0.5 0.5 0.5) scenario_world =
     scenario_world\<lparr>meteors :=
       [\<lparr>position = Vec 0 0 15, velocity = Vec 0 0 (- 0.03),
         physVelocity = Vec 0 0 (- 50000), active = True,
         mass = 500 * pi * sz ^ 3, area = pi * (sz / 2) ^ 2, size_m = sz, ttl = Some 800,
         fading = False, opacity = 1, angularVelocity = Some (Vec 0 0 0)\<rparr>]\<rparr>"
  by (simp add: app_shootMeteor_def scenario_world_def Let_def normalize_v_def divideScalar_def
      multiplyScalar_def sub_def js_or_def SCENE_SCALE_def power3_eq_cube length_v_axis)

lemma rock_meteor_eq:
  "rock_meteor = \<lparr>position = Vec 0 0 6.5, velocity = Vec 0 0 (- 0.05),
         physVelocity = Vec 0 0 (- 50000), active = True,
         mass = 62.5 * pi, area = pi / 16, size_m = 0.5, ttl = None,
         fading = False, opacity = 1, angularVelocity = None\<rparr>"
  unfolding rock_meteor_def shoot_scenario by simp

lemma flown_meteor_eq:
  "flown_meteor = \<lparr>position = Vec 0 0 6.5, velocity = Vec 0 0 (- 0.09),
         physVelocity = Vec 0 0 (- 50000), active = True,
         mass = 62.5 * pi, area = pi / 16, size_m = 0.5, ttl = None,
         fading = False, opacity = 1, angularVelocity = None\<rparr>"
  unfolding flown_meteor_def shoot_scenario by simp

lemma negative_meteor_eq:
  "negative_meteor = \<lparr>position = Vec 0 0 6.5, velocity = Vec 0 0 (- 0.03),
         physVelocity = Vec 0 0 (- 50000), active = True,
         mass = - (500 * pi), area = pi / 4, size_m = - 1, ttl = Some 800,
         fading = False, opacity = 1, angularVelocity = Some (Vec 0 0 0)\<rparr>"
  unfolding negative_meteor_def app_shoot_scenario by (simp add: power2_eq_square)

section \<open>Spawning\<close>

text \<open>
  C10, as stated, fails: \<open>App.shootMeteor\<close> called with the diameter \<open>-1\<close> pushes a
  meteor on the live set.
\<close>

theorem spawn_negative_diameter_counterexample:
  "meteors (app_shootMeteor 0.05 (- 1) (Vec 0.5 0.5 0.5) scenario_world) \<noteq>
     meteors scenario_world"
  by (subst app_shoot_scenario) (simp add: scenario_world_def)

text \<open>
  C10 (amended): the spawn functions do not validate their inputs and have no error
  path. Every call of \<open>App.shootMeteor\<close>, whatever the diameter and the speed,
  appends exactly one active meteor of that diameter to the live set, its mass
  \<open>3000 * (4/3) * pi * (size/2)^3\<close> taking the sign of the diameter; every call of
  \<open>shootMeteor\<close> of src/main.js appends one active meteor of diameter \<open>0.5\<close>.
\<close>

theorem spawn_unvalidated:
  "(\<exists>m. meteors (app_shootMeteor speed sz rnd w) = meteors w @ [m] \<and> size_m m = sz \<and>
        active m \<and> mass m = 3000 * ((4 / 3) * pi * (sz / 2) ^ 3)) \<and>
   (\<exists>m. meteors (shootMeteor speed w) = meteors w @ [m] \<and> size_m m = 0.5 \<and> active m)"
  by (simp add: app_shootMeteor_def shootMeteor_def Let_def)

section \<open>Impact energy\<close>

lemma ke_nonneg: "0 \<le> ms \<Longrightarrow> 0 \<le> ke ms s"
  by (auto simp: ke_def js_or_def mult.assoc intro!: mult_nonneg_nonneg)

lemma resolve_impact_fields:
  "tntEquivalentKilotons (resolve_impact m) =
     kineticEnergyJoules (resolve_impact m) / (4.184 * 10 ^ 9)"
  "kineticEnergyJoules (resolve_impact m) = ke (mass m) (length_v (physVelocity m))"
  "impactSpeed (resolve_impact m) = length_v (physVelocity m)"
  "point (resolve_impact m) = position m"
  by (simp_all add: resolve_impact_def Let_def keTons_def speedAtImpact_def)

lemma animate_meteor_impact:
  assumes "animate_meteor rl ss m = (m', Some ev)"
  shows "ev = resolve_impact (if rl then realistic_step ss m else arcade_step ss m)"
    and "length_v (position m) < earthRadius + 0.2" and "active m"
  using assms by (auto simp: animate_meteor_def Let_def split: if_splits)

lemma app_animate_meteor_impact:
  assumes "app_animate_meteor rl ss dt m = (m', Some ev)"
  shows "ev = resolve_impact (ttl_fade dt (if rl then app_realistic_step ss (tumble dt m)
                                        else arcade_step ss (tumble dt m)))"
    and "length_v (position m) < earthRadius + 0.2" and "active m"
  using assms by (auto simp: app_animate_meteor_def Let_def split: if_splits)

lemma animate_meteor_physVelocity:
  assumes "animate_meteor rl ss m = (m', Some ev)"
  shows "impactSpeed ev = length_v (physVelocity m')"
    and "\<not> rl \<Longrightarrow> physVelocity m' = physVelocity m"
  using assms
  by (auto simp: animate_meteor_def Let_def resolve_impact_fields arcade_step_fields
      split: if_splits)

lemma app_animate_meteor_physVelocity:
  assumes "app_animate_meteor rl ss dt m = (m', Some ev)"
  shows "impactSpeed ev = length_v (physVelocity m')"
    and "\<not> rl \<Longrightarrow> physVelocity m' = physVelocity m"
  using assms
  by (auto simp: app_animate_meteor_def Let_def resolve_impact_fields arcade_step_fields
      ttl_fade_fields tumble_fields split: if_splits)

text \<open>
  C5, as stated, fails in its first half: the meteor that \<open>App.shootMeteor\<close> creates
  for the diameter \<open>-1\<close> has the mass \<open>-500 * pi\<close>, and its impact reports the kinetic
  energy \<open>-6.25e11 * pi\<close> joules.
\<close>

theorem negative_energy_counterexample:
  "map_option kineticEnergyJoules (snd (app_animate_meteor False 1 0.016 negative_meteor))
     = Some (- (625000000000 * pi)) \<and> - (625000000000 * pi) < (0::real)"
  unfolding negative_meteor_eq
  by (simp add: app_animate_meteor_def Let_def length_v_axis earthRadius_def
      resolve_impact_fields ttl_fade_fields arcade_step_fields tumble_fields ke_def js_or_def)

text \<open>
  C5 (amended): for every impact, in src/main.js and in src/src/app.js, the reported
  TNT equivalent is the reported kinetic energy divided by \<open>4.184e9\<close>, and the kinetic
  energy is non-negative whenever the meteor's mass is non-negative, which it is for
  every meteor spawned with a non-negative diameter.
\<close>

theorem impact_energy:
  "(animate_meteor rl ss m = (m', Some ev) \<longrightarrow>
      tntEquivalentKilotons ev = kineticEnergyJoules ev / (4.184 * 10 ^ 9) \<and>
      (0 \<le> mass m \<longrightarrow> 0 \<le> kineticEnergyJoules ev)) \<and>
   (app_animate_meteor rl ss dt m = (m', Some ev) \<longrightarrow>
      tntEquivalentKilotons ev = kineticEnergyJoules ev / (4.184 * 10 ^ 9) \<and>
      (0 \<le> mass m \<longrightarrow> 0 \<le> kineticEnergyJoules ev)) \<and>
   (0 \<le> sz \<longrightarrow> 0 \<le> mass (last (meteors (app_shootMeteor speed sz rnd w))))"
proof (intro conjI impI)
  assume a: "animate_meteor rl ss m = (m', Some ev)"
  show "tntEquivalentKilotons ev = kineticEnergyJoules ev / (4.184 * 10 ^ 9)"
    unfolding animate_meteor_impact(1) [OF a] by (rule resolve_impact_fields(1))
  show "0 \<le> kineticEnergyJoules ev" if "0 \<le> mass m"
    unfolding animate_meteor_impact(1) [OF a] resolve_impact_fields(2)
    using that by (auto intro!: ke_nonneg simp: realistic_step_fields arcade_step_fields)
next
  assume a: "app_animate_meteor rl ss dt m = (m', Some ev)"
  show "tntEquivalentKilotons ev = kineticEnergyJoules ev / (4.184 * 10 ^ 9)"
    unfolding app_animate_meteor_impact(1) [OF a] by (rule resolve_impact_fields(1))
  show "0 \<le> kineticEnergyJoules ev" if "0 \<le> mass m"
    unfolding app_animate_meteor_impact(1) [OF a] resolve_impact_fields(2)
    using that
    by (auto intro!: ke_nonneg
        simp: ttl_fade_fields app_realistic_step_fields arcade_step_fields tumble_fields)
next
  assume "0 \<le> sz"
  then show "0 \<le> mass (last (meteors (app_shootMeteor speed sz rnd w)))"
    by (simp add: app_shootMeteor_def Let_def)
qed

text \<open>
  Witness for C5 (amended): the rock of the scenario, of mass \<open>62.5 * pi\<close>, impacts in
  both programs with a non-negative energy.
\<close>

theorem impact_energy_witness:
  "0 \<le> mass rock_meteor \<and>
   animate_meteor False 1 rock_meteor =
     ((arcade_step 1 rock_meteor)\<lparr>active := False\<rparr>,
      Some (resolve_impact (arcade_step 1 rock_meteor))) \<and>
   0 \<le> kineticEnergyJoules (resolve_impact (arcade_step 1 rock_meteor)) \<and>
   app_animate_meteor False 1 0.016 rock_meteor =
     ((ttl_fade 0.016 (arcade_step 1 (tumble 0.016 rock_meteor)))\<lparr>active := False\<rparr>,
      Some (resolve_impact (ttl_fade 0.016 (arcade_step 1 (tumble 0.016 rock_meteor))))) \<and>
   0 \<le> kineticEnergyJoules
         (resolve_impact (ttl_fade 0.016 (arcade_step 1 (tumble 0.016 rock_meteor)))) \<and>
   0 \<le> mass (last (meteors (app_shootMeteor 0.05 0.5 (Vec 0.5 0.5 0.5) scenario_world)))"
proof -
  have m: "0 \<le> mass rock_meteor" "active rock_meteor"
    "length_v (position rock_meteor) < earthRadius + 0.2"
    unfolding rock_meteor_eq by (simp_all add: length_v_axis earthRadius_def)
  have a: "animate_meteor False 1 rock_meteor =
     ((arcade_step 1 rock_meteor)\<lparr>active := False\<rparr>,
      Some (resolve_impact (arcade_step 1 rock_meteor)))"
    using m by (simp add: animate_meteor_def Let_def)
  have b: "app_animate_meteor False 1 0.016 rock_meteor =
     ((ttl_fade 0.016 (arcade_step 1 (tumble 0.016 rock_meteor)))\<lparr>active := False\<rparr>,
      Some (resolve_impact (ttl_fade 0.016 (arcade_step 1 (tumble 0.016 rock_meteor)))))"
    using m by (simp add: app_animate_meteor_def Let_def)
  show ?thesis
    using m(1) a b
      impact_energy [where rl = False and ss = 1 and m = rock_meteor
        and m' = "(arcade_step 1 rock_meteor)\<lparr>active := False\<rparr>"
        and ev = "resolve_impact (arcade_step 1 rock_meteor)"]
      impact_energy [where rl = False and ss = 1 and m = rock_meteor and dt = "0.016"
        and m' = "(ttl_fade 0.016 (arcade_step 1 (tumble 0.016 rock_meteor)))
                    \<lparr>active := False\<rparr>"
        and ev = "resolve_impact (ttl_fade 0.016 (arcade_step 1 (tumble 0.016 rock_meteor)))"
        and sz = "0.5" and speed = "0.05" and rnd = "Vec 0.5 0.5 0.5" and w = scenario_world]
    by simp
qed

section \<open>The speed used at impact\<close>

text \<open>
  C6, as stated, fails for the Arcade model: at the impact of the flown meteor the
  speed used is \<open>50000\<close>, the length of \<open>physVelocity\<close> as launched, while the display
  velocity rescaled to SI is above \<open>90000\<close>.
\<close>

theorem arcade_impact_speed_counterexample:
  "map_option impactSpeed (snd (animate_meteor False 1 flown_meteor)) \<noteq>
     Some (authoritative_speed False (fst (animate_meteor False 1 flown_meteor)))"
proof -
  have "animate_meteor False 1 flown_meteor =
     ((arcade_step 1 flown_meteor)\<lparr>active := False\<rparr>,
      Some (resolve_impact (arcade_step 1 flown_meteor)))"
    unfolding flown_meteor_eq
    by (simp add: animate_meteor_def Let_def length_v_axis earthRadius_def)
  moreover have "impactSpeed (resolve_impact (arcade_step 1 flown_meteor)) = 50000"
    unfolding flown_meteor_eq
    by (simp add: resolve_impact_fields arcade_step_fields length_v_axis)
  moreover have "length_v (velocity (arcade_step 1 flown_meteor)) * SCENE_SCALE > 90000"
    unfolding flown_meteor_eq
    by (simp add: arcade_step_def arcade_euler_def Let_def length_v_axis normalize_v_def
        divideScalar_def multiplyScalar_def add_def js_or_def gravityStrength_def
        SCENE_SCALE_def)
  ultimately show ?thesis
    by (simp add: authoritative_speed_def)
qed

text \<open>
  C6 (amended): for every impact, in both programs and under both models, the speed
  used for the kinetic energy is the magnitude of \<open>physVelocity\<close>, the SI velocity,
  which every spawned meteor has; the choice is made by the presence of the field,
  not by the active model. Under the Realistic model this is the integrated SI
  velocity; under the Arcade model \<open>physVelocity\<close> is never integrated and is still
  the launch velocity. The display velocity times \<open>SCENE_SCALE\<close> is used only for a
  meteor object without \<open>physVelocity\<close>.
\<close>

theorem impact_speed_is_physVelocity:
  "(animate_meteor rl ss m = (m', Some ev) \<longrightarrow>
      impactSpeed ev = length_v (physVelocity m') \<and>
      (\<not> rl \<longrightarrow> physVelocity m' = physVelocity m)) \<and>
   (app_animate_meteor rl ss dt m = (m', Some ev) \<longrightarrow>
      impactSpeed ev = length_v (physVelocity m') \<and>
      (\<not> rl \<longrightarrow> physVelocity m' = physVelocity m)) \<and>
   speedAtImpact (Some pv) vo = length_v pv \<and>
   speedAtImpact None (Some v) = length_v v * SCENE_SCALE"
  using animate_meteor_physVelocity [of rl ss m m' ev]
    app_animate_meteor_physVelocity [of rl ss dt m m' ev]
  by (cases rl) (auto simp: speedAtImpact_def)

text \<open>
  Witness for C6 (amended): the Arcade impact of the flown meteor, in both programs,
  uses the speed \<open>50000\<close>.
\<close>

theorem impact_speed_is_physVelocity_witness:
  "animate_meteor False 1 flown_meteor =
     ((arcade_step 1 flown_meteor)\<lparr>active := False\<rparr>,
      Some (resolve_impact (arcade_step 1 flown_meteor))) \<and>
   impactSpeed (resolve_impact (arcade_step 1 flown_meteor)) = 50000 \<and>
   app_animate_meteor False 1 0.016 flown_meteor =
     ((ttl_fade 0.016 (arcade_step 1 (tumble 0.016 flown_meteor)))\<lparr>active := False\<rparr>,
      Some (resolve_impact (ttl_fade 0.016 (arcade_step 1 (tumble 0.016 flown_meteor))))) \<and>
   impactSpeed (resolve_impact (ttl_fade 0.016 (arcade_step 1 (tumble 0.016 flown_meteor))))
     = 50000"
proof -
  have m: "active flown_meteor" "length_v (position flown_meteor) < earthRadius + 0.2"
    "length_v (physVelocity flown_meteor) = 50000"
    unfolding flown_meteor_eq by (simp_all add: length_v_axis earthRadius_def)
  have a: "animate_meteor False 1 flown_meteor =
     ((arcade_step 1 flown_meteor)\<lparr>active := False\<rparr>,
      Some (resolve_impact (arcade_step 1 flown_meteor)))"
    using m by (simp add: animate_meteor_def Let_def)
  have b: "app_animate_meteor False 1 0.016 flown_meteor =
     ((ttl_fade 0.016 (arcade_step 1 (tumble 0.016 flown_meteor)))\<lparr>active := False\<rparr>,
      Some (resolve_impact (ttl_fade 0.016 (arcade_step 1 (tumble 0.016 flown_meteor)))))"
    using m by (simp add: app_animate_meteor_def Let_def)
  show ?thesis
    using m(3) a b
      impact_speed_is_physVelocity [where rl = False and ss = 1 and m = flown_meteor
        and m' = "(arcade_step 1 flown_meteor)\<lparr>active := False\<rparr>"
        and ev = "resolve_impact (arcade_step 1 flown_meteor)"]
      impact_speed_is_physVelocity [where rl = False and ss = 1 and m = flown_meteor
        and dt = "0.016"
        and m' = "(ttl_fade 0.016 (arcade_step 1 (tumble 0.016 flown_meteor)))
                    \<lparr>active := False\<rparr>"
        and ev = "resolve_impact (ttl_fade 0.016 (arcade_step 1 (tumble 0.016 flown_meteor)))"]
    by simp
qed

section \<open>The Realistic integrators\<close>

lemma vec_eq_iff: "a = b \<longleftrightarrow> vx a = vx b \<and> vy a = vy b \<and> vz a = vz b"
  by (cases a; cases b) auto

lemma vec_sel [simp]:
  "vx (add a b) = vx a + vx b" "vy (add a b) = vy a + vy b" "vz (add a b) = vz a + vz b"
  "vx (multiplyScalar a s) = vx a * s" "vy (multiplyScalar a s) = vy a * s" "vz (multiplyScalar a s) = vz a * s"
  by (simp_all add: add_def multiplyScalar_def)

lemma animate_rk4_is_rk4: "animate_rk4 ar ms dt s = rk4 (deriv ar ms) dt s"
proof -
  obtain p v where s: "s = (p, v)" by (cases s)
  define a1 where "a1 = accel ar ms p v"
  define p2 where "p2 = add p (multiplyScalar v (dt / 2))"
  define v2 where "v2 = add v (multiplyScalar a1 (dt / 2))"
  define a2 where "a2 = accel ar ms p2 v2"
  define p3 where "p3 = add p (multiplyScalar v2 (dt / 2))"
  define v3 where "v3 = add v (multiplyScalar a2 (dt / 2))"
  define a3 where "a3 = accel ar ms p3 v3"
  define p4 where "p4 = add p (multiplyScalar v3 dt)"
  define v4 where "v4 = add v (multiplyScalar a3 dt)"
  define a4 where "a4 = accel ar ms p4 v4"
  have e2: "add p (multiplyScalar (multiplyScalar v dt) 0.5) = p2"
    "add v (multiplyScalar (multiplyScalar a1 dt) 0.5) = v2"
    by (simp_all add: p2_def v2_def vec_eq_iff)
  have e3: "add p (multiplyScalar (multiplyScalar v2 dt) 0.5) = p3"
    "add v (multiplyScalar (multiplyScalar a2 dt) 0.5) = v3"
    by (simp_all add: p3_def v3_def vec_eq_iff)
  have lhs: "animate_rk4 ar ms dt s =
    (add p (multiplyScalar (add (add (add (multiplyScalar v dt) (multiplyScalar (multiplyScalar v2 dt) 2))
        (multiplyScalar (multiplyScalar v3 dt) 2)) (multiplyScalar v4 dt)) (1 / 6)),
     add v (multiplyScalar (add (add (add (multiplyScalar a1 dt) (multiplyScalar (multiplyScalar a2 dt) 2))
        (multiplyScalar (multiplyScalar a3 dt) 2)) (multiplyScalar a4 dt)) (1 / 6)))"
    unfolding animate_rk4_def Let_def s fst_conv snd_conv
    unfolding a1_def [symmetric] e2 a2_def [symmetric] e3 a3_def [symmetric]
      p4_def [symmetric] v4_def [symmetric] a4_def [symmetric] ..
  have k1: "deriv ar ms (p, v) = (v, a1)" by (simp add: deriv_def a1_def)
  have k2: "deriv ar ms (padd (p, v) (pscale (dt / 2) (v, a1))) = (v2, a2)"
    by (simp add: deriv_def padd_def pscale_def a2_def p2_def v2_def)
  have k3: "deriv ar ms (padd (p, v) (pscale (dt / 2) (v2, a2))) = (v3, a3)"
    by (simp add: deriv_def padd_def pscale_def a3_def p3_def v3_def)
  have k4: "deriv ar ms (padd (p, v) (pscale dt (v3, a3))) = (v4, a4)"
    by (simp add: deriv_def padd_def pscale_def a4_def p4_def v4_def)
  have rhs: "rk4 (deriv ar ms) dt s =
     padd (p, v) (padd (padd (padd (pscale (dt * (1 / 6)) (v, a1)) (pscale (dt * (2 / 6)) (v2, a2)))
                   (pscale (dt * (2 / 6)) (v3, a3))) (pscale (dt * (1 / 6)) (v4, a4)))"
    unfolding rk4_def Let_def s k1 k2 k3 k4 ..
  show ?thesis
    unfolding lhs rhs by (simp add: padd_def pscale_def vec_eq_iff algebra_simps)
qed

lemma rk4_axis:
  assumes f: "\<And>z w. f (Vec 0 0 z, Vec 0 0 w) = (Vec 0 0 w, Vec 0 0 (a z w))"
  shows "rk4 f dt (Vec 0 0 z, Vec 0 0 w) =
     (let a1 = a z w;
          z2 = z + w * (dt / 2); w2 = w + a1 * (dt / 2); a2 = a z2 w2;
          z3 = z + w2 * (dt / 2); w3 = w + a2 * (dt / 2); a3 = a z3 w3;
          z4 = z + w3 * dt; w4 = w + a3 * dt; a4 = a z4 w4
      in (Vec 0 0 (z + (w * (dt * (1 / 6)) + w2 * (dt * (2 / 6)) + w3 * (dt * (2 / 6))
                    + w4 * (dt * (1 / 6)))),
          Vec 0 0 (w + (a1 * (dt * (1 / 6)) + a2 * (dt * (2 / 6)) + a3 * (dt * (2 / 6))
                    + a4 * (dt * (1 / 6))))))"
proof -
  have step: "padd (Vec 0 0 z, Vec 0 0 w) (pscale c (Vec 0 0 u, Vec 0 0 b))
      = (Vec 0 0 (z + u * c), Vec 0 0 (w + b * c))" for c u b
    by (simp add: padd_def pscale_def add_def multiplyScalar_def)
  show ?thesis
    unfolding rk4_def Let_def f step
    by (simp add: padd_def pscale_def add_def multiplyScalar_def)
qed

lemma claimed_axis:
  "claimed_deriv ar ms (Vec 0 0 z, Vec 0 0 w) =
     (Vec 0 0 w,
      Vec 0 0 (z * (- G * earthMass / \<bar>z\<bar> ^ 3) +
               w * (- 0.5 * atmosphericDensity (\<bar>z\<bar> - earthRadiusMeters) * \<bar>w\<bar> * Cd * ar / ms)))"
  by (simp add: claimed_deriv_def gravitationalAcceleration_def dragAcceleration_def
      length_v_axis add_def multiplyScalar_def)

lemma atmosphericDensity_bounds: "0 \<le> atmosphericDensity h" "atmosphericDensity h \<le> 1.225"
  by (simp_all add: atmosphericDensity_def rho0_def H_def)

lemma rho_is_atmosphericDensity: "0 \<le> h \<Longrightarrow> rho h = atmosphericDensity h"
  by (simp add: rho_exp atmosphericDensity_def)

lemma deriv_is_claimed:
  assumes "1 / 10 ^ 6 \<le> length_v (snd y)" "earthRadiusMeters \<le> length_v (fst y)"
  shows "deriv ar ms y = claimed_deriv ar ms y"
  using assms
  by (simp add: deriv_def claimed_deriv_def accel_def Let_def gravitationalAcceleration_def
      dragAcceleration_def rho_is_atmosphericDensity max_def power3_eq_cube)

lemma app_realistic_euler_is_semi_implicit:
  "app_realistic_euler dt y = semi_implicit_euler gravitationalAcceleration dt y"
  by (simp add: app_realistic_euler_def semi_implicit_euler_def Let_def
      gravitationalAcceleration_def power3_eq_cube)

lemma rk4_falls_less:
  fixes a1 a2 a3 dt z0 :: real
  assumes "a1 \<le> a2" "4 * a1 < a3" "0 < dt"
  shows "z0 + (0 + a1 * dt) * dt <
     z0 + (0 * (dt * (1 / 6)) + (0 + a1 * (dt / 2)) * (dt * (2 / 6))
           + (0 + a2 * (dt / 2)) * (dt * (2 / 6)) + (0 + a3 * dt) * (dt * (1 / 6)))"
proof -
  have "6 * a1 < a1 + a2 + a3" using assms by simp
  then have "6 * a1 * (dt * dt) < (a1 + a2 + a3) * (dt * dt)"
    using assms(3) by simp
  then show ?thesis by (simp add: algebra_simps)
qed

lemma axis_drag:
  fixes r w :: real
  assumes "0 \<le> r" "w \<le> 0"
  shows "w * (- 0.5 * r * \<bar>w\<bar> * Cd * (pi / 16) / (62.5 * pi)) = r * (w * w) / 2000"
  using assms by (simp add: Cd_def abs_if)

lemma axis_gravity:
  fixes z :: real
  assumes "0 < z"
  shows "z * (- G * earthMass / \<bar>z\<bar> ^ 3) = - (G * earthMass) / (z * z)"
  using assms by (simp add: power3_eq_cube)

lemma GM_value: "G * earthMass = 398589196000000"
  by (simp add: G_def earthMass_def)

lemma still_meteor_eq:
  "still_meteor = \<lparr>position = Vec 0 0 15, velocity = Vec 0 0 0,
         physVelocity = Vec 0 0 0, active = True,
         mass = 62.5 * pi, area = pi / 16, size_m = 0.5, ttl = None,
         fading = False, opacity = 1, angularVelocity = None\<rparr>"
  by (simp add: still_meteor_def shootMeteor_def scenario_world_def Let_def normalize_v_def divideScalar_def
      multiplyScalar_def sub_def js_or_def SCENE_SCALE_def power3_eq_cube power2_eq_square
      length_v_axis)

text \<open>
  C1, as stated, fails for \<open>App.animate\<close>: for the meteor at rest at \<open>(0, 0, 15)\<close>,
  of diameter \<open>0.5\<close>, the Realistic step of src/src/app.js is not the Runge-Kutta
  step of the coupled system with drag. In one tick of \<open>0.02\<close> seconds the Euler step
  falls by \<open>a * dt^2\<close>, the Runge-Kutta step by about half of that.
\<close>

theorem app_realistic_not_rk4_counterexample:
  "app_realistic_step 1 still_meteor \<noteq> claimed_realistic_step 1 still_meteor"
proof
  assume eq: "app_realistic_step 1 still_meteor = claimed_realistic_step 1 still_meteor"
  define z0 :: real where "z0 = 15000000"
  define dt :: real where "dt = 0.02"
  define A where "A = (\<lambda>z w. z * (- G * earthMass / \<bar>z\<bar> ^ 3) +
      w * (- 0.5 * atmosphericDensity (\<bar>z\<bar> - earthRadiusMeters) * \<bar>w\<bar> * Cd * (pi / 16)
           / (62.5 * pi)))"
  define a1 where "a1 = A z0 0"
  define w2 where "w2 = 0 + a1 * (dt / 2)"
  define a2 where "a2 = A (z0 + 0 * (dt / 2)) w2"
  define z3 where "z3 = z0 + w2 * (dt / 2)"
  define w3 where "w3 = 0 + a2 * (dt / 2)"
  define a3 where "a3 = A z3 w3"
  have dt_pos: "0 < dt" by (simp add: dt_def)
  have a1v: "a1 = - (G * earthMass) / (z0 * z0)"
    unfolding a1_def A_def by (simp add: axis_gravity z0_def)
  have a1b: "- 2 < a1" "a1 < - 1"
    unfolding a1v GM_value z0_def by simp_all
  have w2b: "- 1 \<le> w2" "w2 \<le> 0"
    using a1b by (simp_all add: w2_def dt_def)
  define r2 where "r2 = atmosphericDensity (\<bar>z0 + 0 * (dt / 2)\<bar> - earthRadiusMeters)"
  have r2b: "0 \<le> r2" "r2 \<le> 2"
    using atmosphericDensity_bounds [of "\<bar>z0 + 0 * (dt / 2)\<bar> - earthRadiusMeters"]
    by (simp_all add: r2_def)
  have a2v: "a2 = a1 + r2 * (w2 * w2) / 2000"
    unfolding a2_def A_def a1v r2_def [symmetric]
    by (simp only: axis_drag [OF r2b(1) w2b(2)]) (simp add: axis_gravity z0_def)
  have w2sq: "0 \<le> w2 * w2" "w2 * w2 \<le> 1"
    using w2b mult_mono [of "- w2" 1 "- w2" 1] by simp_all
  have d2: "0 \<le> r2 * (w2 * w2)" "r2 * (w2 * w2) \<le> 2"
    using r2b w2sq mult_mono [of r2 2 "w2 * w2" 1] by simp_all
  have a12: "a1 \<le> a2" "a2 \<le> 0"
    using d2 a1b by (simp_all add: a2v)
  have w3b: "w3 \<le> 0"
    using a12 dt_pos by (simp add: w3_def mult_nonpos_nonneg)
  have z3b: "z0 - 1 \<le> z3"
    using w2b by (simp add: z3_def dt_def)
  then have z3pos: "0 < z3" by (simp add: z0_def)
  define r3 where "r3 = atmosphericDensity (\<bar>z3\<bar> - earthRadiusMeters)"
  have r3b: "0 \<le> r3"
    using atmosphericDensity_bounds(1) by (simp add: r3_def)
  have a3v: "a3 = - (G * earthMass) / (z3 * z3) + r3 * (w3 * w3) / 2000"
    unfolding a3_def A_def r3_def [symmetric]
    by (simp only: axis_drag [OF r3b w3b] axis_gravity [OF z3pos])
  have "z0 * z0 < 4 * ((z0 - 1) * (z0 - 1))" by (simp add: z0_def)
  also have "\<dots> \<le> 4 * (z3 * z3)"
    using z3b mult_mono [of "z0 - 1" z3 "z0 - 1" z3] by (simp add: z0_def)
  finally have zz: "z0 * z0 < 4 * (z3 * z3)" .
  have "G * earthMass / (z3 * z3) < 4 * (G * earthMass / (z0 * z0))"
    using zz z3pos by (simp add: GM_value z0_def field_simps)
  then have "4 * a1 < - (G * earthMass) / (z3 * z3)"
    by (simp add: a1v)
  moreover have "0 \<le> r3 * (w3 * w3)"
    using r3b by simp
  ultimately have a13: "4 * a1 < a3"
    by (simp add: a3v)
  have less: "z0 + (0 + a1 * dt) * dt <
     z0 + (0 * (dt * (1 / 6)) + (0 + a1 * (dt / 2)) * (dt * (2 / 6))
           + (0 + a2 * (dt / 2)) * (dt * (2 / 6)) + (0 + a3 * dt) * (dt * (1 / 6)))"
    by (rule rk4_falls_less [OF a12(1) a13 dt_pos])
  have L: "vz (position (app_realistic_step 1 still_meteor)) =
      (z0 + (0 + a1 * dt) * dt) * (1 / SCENE_SCALE)"
    unfolding still_meteor_eq a1_def A_def
    by (simp add: app_realistic_step_def app_realistic_euler_def Let_def length_v_axis
        multiplyScalar_def add_def SCENE_SCALE_def z0_def dt_def power3_eq_cube)
  define Y where "Y = rk4 (claimed_deriv (pi / 16) (62.5 * pi)) dt (Vec 0 0 z0, Vec 0 0 0)"
  have ax: "claimed_deriv (pi / 16) (62.5 * pi) (Vec 0 0 z, Vec 0 0 w) =
      (Vec 0 0 w, Vec 0 0 (A z w))" for z w
    unfolding A_def by (rule claimed_axis)
  have Y1: "fst Y = Vec 0 0 (z0 + (0 * (dt * (1 / 6)) + w2 * (dt * (2 / 6))
           + w3 * (dt * (2 / 6)) + (0 + a3 * dt) * (dt * (1 / 6))))"
    unfolding Y_def rk4_axis [of _ A, OF ax] Let_def fst_conv a1_def [symmetric]
      w2_def [symmetric] a2_def [symmetric] z3_def [symmetric] w3_def [symmetric]
      a3_def [symmetric] ..
  have R0: "position (claimed_realistic_step 1 still_meteor) =
      multiplyScalar (fst Y) (1 / SCENE_SCALE)"
    unfolding Y_def
    by (simp add: still_meteor_eq claimed_realistic_step_def Let_def multiplyScalar_def
        SCENE_SCALE_def z0_def dt_def)
  have R: "vz (position (claimed_realistic_step 1 still_meteor)) =
      (z0 + (0 * (dt * (1 / 6)) + (0 + a1 * (dt / 2)) * (dt * (2 / 6))
           + (0 + a2 * (dt / 2)) * (dt * (2 / 6)) + (0 + a3 * dt) * (dt * (1 / 6))))
        * (1 / SCENE_SCALE)"
    unfolding R0 Y1 w2_def w3_def by (simp only: vec_sel vec.sel)
  from eq have "vz (position (app_realistic_step 1 still_meteor)) =
     vz (position (claimed_realistic_step 1 still_meteor))" by simp
  then show False
    using less unfolding L R by (simp add: SCENE_SCALE_def)
qed

text \<open>
  C1 (amended): in src/main.js every Realistic step advances (position in metres,
  \<open>physVelocity\<close>) by one classical RK4 step, \<open>dt = 0.02 * simSpeed\<close>, of
  \<open>dx/dt = v\<close>, \<open>dv/dt = accel (x, v)\<close>, with the weights \<open>1/6, 2/6, 2/6, 1/6\<close>; \<open>accel\<close>
  is gravity plus the drag \<open>-0.5 * rho * max(1e-6, |v|) * Cd * area / mass * v\<close>, which
  is the drag of the claim whenever \<open>|v| \<ge> 1e-6\<close> and the position is not below the
  surface. In src/src/app.js the Realistic step is one semi-implicit Euler step of
  gravity alone, with the same \<open>dt\<close> and no drag.
\<close>

theorem realistic_integrators:
  "realistic_step ss m =
     m\<lparr>position := multiplyScalar
          (fst (rk4 (deriv (area m) (mass m)) (0.02 * ss)
                 (multiplyScalar (position m) SCENE_SCALE, physVelocity m))) (1 / SCENE_SCALE),
       physVelocity :=
          snd (rk4 (deriv (area m) (mass m)) (0.02 * ss)
                 (multiplyScalar (position m) SCENE_SCALE, physVelocity m))\<rparr> \<and>
   (1 / 10 ^ 6 \<le> length_v (snd y) \<and> earthRadiusMeters \<le> length_v (fst y) \<longrightarrow>
      deriv ar ms y = claimed_deriv ar ms y) \<and>
   app_realistic_step ss m =
     m\<lparr>position := multiplyScalar
          (fst (semi_implicit_euler gravitationalAcceleration (0.02 * ss)
                 (multiplyScalar (position m) SCENE_SCALE, physVelocity m))) (1 / SCENE_SCALE),
       physVelocity :=
          snd (semi_implicit_euler gravitationalAcceleration (0.02 * ss)
                 (multiplyScalar (position m) SCENE_SCALE, physVelocity m))\<rparr>"
  by (simp add: realistic_step_def app_realistic_step_def Let_def animate_rk4_is_rk4
      app_realistic_euler_is_semi_implicit deriv_is_claimed)

text \<open>
  Witness for C1 (amended): at \<open>(0, 0, 1.5e7)\<close> metres with the velocity
  \<open>(0, 0, -50000)\<close> the derivative of the code is that of the claim.
\<close>

theorem realistic_integrators_witness:
  "1 / 10 ^ 6 \<le> length_v (Vec 0 0 (- 50000)) \<and>
   earthRadiusMeters \<le> length_v (Vec 0 0 15000000) \<and>
   deriv (pi / 16) (62.5 * pi) (Vec 0 0 15000000, Vec 0 0 (- 50000)) =
     claimed_deriv (pi / 16) (62.5 * pi) (Vec 0 0 15000000, Vec 0 0 (- 50000))"
  using realistic_integrators [where y = "(Vec 0 0 15000000, Vec 0 0 (- 50000))"
      and ar = "pi / 16" and ms = "62.5 * pi"]
  by (simp add: length_v_axis earthRadiusMeters_def)

section \<open>The integrators of the predictor\<close>

lemma accel_pred_is_accel: "accel_pred p v = accel 1 1 p v"
  by (simp add: accel_pred_def accel_def)

lemma accel_unit_ratio:
  assumes "ar = ms" "ms \<noteq> 0"
  shows "accel ar ms p v = accel_pred p v"
  using assms by (simp add: accel_pred_def accel_def)

lemma animate_rk4_unit_ratio:
  assumes "ar = ms" "ms \<noteq> 0"
  shows "animate_rk4 ar ms dt s = predict_rk4 dt s"
  unfolding predict_rk4_def animate_rk4_def accel_unit_ratio [OF assms] ..

lemma predict_arcade_rk4_is_rk4: "predict_arcade_rk4 dt = rk4 arcade_deriv dt"
proof
  fix s :: "vec \<times> vec"
  obtain p v where s: "s = (p, v)" by (cases s)
  define a1 where "a1 = arcade_gravity p"
  define p2 where "p2 = add p (multiplyScalar v (dt / 2))"
  define v2 where "v2 = add v (multiplyScalar a1 (dt / 2))"
  define a2 where "a2 = arcade_gravity p2"
  define p3 where "p3 = add p (multiplyScalar v2 (dt / 2))"
  define v3 where "v3 = add v (multiplyScalar a2 (dt / 2))"
  define a3 where "a3 = arcade_gravity p3"
  define p4 where "p4 = add p (multiplyScalar v3 dt)"
  define v4 where "v4 = add v (multiplyScalar a3 dt)"
  define a4 where "a4 = arcade_gravity p4"
  have e2: "add p (multiplyScalar (multiplyScalar v dt) 0.5) = p2"
    "add v (multiplyScalar (multiplyScalar a1 dt) 0.5) = v2"
    by (simp_all add: p2_def v2_def vec_eq_iff)
  have e3: "add p (multiplyScalar (multiplyScalar v2 dt) 0.5) = p3"
    "add v (multiplyScalar (multiplyScalar a2 dt) 0.5) = v3"
    by (simp_all add: p3_def v3_def vec_eq_iff)
  have lhs: "predict_arcade_rk4 dt s =
    (add p (multiplyScalar (add (add (add (multiplyScalar v dt)
        (multiplyScalar (multiplyScalar v2 dt) 2))
        (multiplyScalar (multiplyScalar v3 dt) 2)) (multiplyScalar v4 dt)) (1 / 6)),
     add v (multiplyScalar (add (add (add (multiplyScalar a1 dt)
        (multiplyScalar (multiplyScalar a2 dt) 2))
        (multiplyScalar (multiplyScalar a3 dt) 2)) (multiplyScalar a4 dt)) (1 / 6)))"
    unfolding predict_arcade_rk4_def Let_def s fst_conv snd_conv
    unfolding a1_def [symmetric] e2 a2_def [symmetric] e3 a3_def [symmetric]
      p4_def [symmetric] v4_def [symmetric] a4_def [symmetric] ..
  have k1: "arcade_deriv (p, v) = (v, a1)" by (simp add: arcade_deriv_def a1_def)
  have k2: "arcade_deriv (padd (p, v) (pscale (dt / 2) (v, a1))) = (v2, a2)"
    by (simp add: arcade_deriv_def padd_def pscale_def a2_def p2_def v2_def)
  have k3: "arcade_deriv (padd (p, v) (pscale (dt / 2) (v2, a2))) = (v3, a3)"
    by (simp add: arcade_deriv_def padd_def pscale_def a3_def p3_def v3_def)
  have k4: "arcade_deriv (padd (p, v) (pscale dt (v3, a3))) = (v4, a4)"
    by (simp add: arcade_deriv_def padd_def pscale_def a4_def p4_def v4_def)
  have rhs: "rk4 arcade_deriv dt s =
     padd (p, v) (padd (padd (padd (pscale (dt * (1 / 6)) (v, a1))
                   (pscale (dt * (2 / 6)) (v2, a2)))
                   (pscale (dt * (2 / 6)) (v3, a3))) (pscale (dt * (1 / 6)) (v4, a4)))"
    unfolding rk4_def Let_def s k1 k2 k3 k4 ..
  show "predict_arcade_rk4 dt s = rk4 arcade_deriv dt s"
    unfolding lhs rhs by (simp add: padd_def pscale_def vec_eq_iff algebra_simps)
qed

lemma arcade_euler_is_semi_implicit:
  "arcade_euler ss s = semi_implicit_euler arcade_gravity ss s"
  by (simp add: arcade_euler_def semi_implicit_euler_def arcade_gravity_def Let_def)

lemma app_predict_euler_is_semi_implicit:
  "app_predict_euler dt s = semi_implicit_euler arcade_gravity dt s"
  by (simp add: app_predict_euler_def semi_implicit_euler_def arcade_gravity_def Let_def)

lemma arcade_axis:
  "arcade_deriv (Vec 0 0 z, Vec 0 0 w) =
     (Vec 0 0 w, Vec 0 0 (z / (if \<bar>z\<bar> = 0 then 1 else \<bar>z\<bar>) * (- gravityStrength / (\<bar>z\<bar> * \<bar>z\<bar>))))"
  by (simp add: arcade_deriv_def arcade_gravity_def normalize_v_def divideScalar_def
      multiplyScalar_def length_v_axis js_or_def)

lemma pred_deriv_is_deriv: "pred_deriv = deriv 1 1"
  by (rule ext) (simp add: pred_deriv_def deriv_def accel_pred_is_accel)

lemma predict_rk4_is_rk4: "predict_rk4 dt = rk4 pred_deriv dt"
  by (rule ext)
    (simp add: animate_rk4_unit_ratio [of 1 1, symmetric] animate_rk4_is_rk4
      pred_deriv_is_deriv)

text \<open>
  The density at the altitude \<open>229\<close> km, \<open>1.225 * exp (- 28.625)\<close>, is above \<open>1e-14\<close>.
\<close>

lemma exp_upper_29: "exp (28.625::real) \<le> 3 ^ 29"
proof -
  have "exp (28.625::real) \<le> exp (of_nat 29 * 1)" by simp
  also have "\<dots> = exp 1 ^ 29" by (rule exp_of_nat_mult)
  also have "\<dots> \<le> 3 ^ 29" by (rule power_mono [OF exp_le]) simp
  finally show ?thesis .
qed

lemma rho_low_altitude: "1 / 10 ^ 14 < rho (6600000 - earthRadiusMeters)"
proof -
  have "rho (6600000 - earthRadiusMeters) = 1.225 * exp (- 28.625)"
    by (simp add: rho_exp rho0_def H_def earthRadiusMeters_def)
  also have "\<dots> = 1.225 * inverse (exp 28.625)"
    by (simp only: exp_minus)
  finally have e: "rho (6600000 - earthRadiusMeters) = 1.225 / exp 28.625"
    by (simp only: divide_inverse)
  have "(1::real) / 10 ^ 14 < 1.225 / 3 ^ 29" by simp
  also have "\<dots> \<le> 1.225 / exp 28.625"
    by (rule divide_left_mono [OF exp_upper_29]) simp_all
  finally show ?thesis unfolding e .
qed

text \<open>
  C4, as stated, fails for both models in src/main.js. Realistic: at \<open>(0, 0, 6.6e6)\<close> m,
  \<open>229\<close> km above the surface, with the velocity \<open>(0, 0, -20000)\<close> m/s, the acceleration
  of the predictor is not that of the live simulation for the \<open>0.5\<close> m rock, whose
  \<open>area / mass\<close> is \<open>1/1000\<close>: the predictor's drag is a thousand times the live one, and
  the two accelerations are more than \<open>1e-6\<close> apart, of about \<open>9.15\<close> m/s/s. Arcade: from
  \<open>(0, 0, 15)\<close> with the velocity \<open>(0, 0, -0.05)\<close> and \<open>simSpeed = 1\<close> one live tick moves
  the meteor below \<open>z = 14.96\<close>, one predictor step leaves it above.
\<close>

theorem predictor_differs_counterexample:
  "pred_deriv (Vec 0 0 6600000, Vec 0 0 (- 20000)) \<noteq>
     deriv (pi / 16) (62.5 * pi) (Vec 0 0 6600000, Vec 0 0 (- 20000)) \<and>
   vz (snd (pred_deriv (Vec 0 0 6600000, Vec 0 0 (- 20000)))) >
     vz (snd (deriv (pi / 16) (62.5 * pi) (Vec 0 0 6600000, Vec 0 0 (- 20000)))) + 1 / 10 ^ 6 \<and>
   predict_arcade_rk4 (0.02 * 1) (Vec 0 0 15, Vec 0 0 (- 0.05)) \<noteq>
     arcade_euler 1 (Vec 0 0 15, Vec 0 0 (- 0.05))"
proof -
  define r where "r = rho (6600000 - earthRadiusMeters)"
  have r: "1 / 10 ^ 14 < r" unfolding r_def by (rule rho_low_altitude)
  have p: "vz (snd (pred_deriv (Vec 0 0 6600000, Vec 0 0 (- 20000)))) =
      6600000 * (- G * earthMass / (6600000 * 6600000 * 6600000)) + r * 200000000"
    by (simp add: pred_deriv_def accel_pred_def Let_def length_v_axis Cd_def r_def
        multiplyScalar_def add_def)
  have l: "vz (snd (deriv (pi / 16) (62.5 * pi) (Vec 0 0 6600000, Vec 0 0 (- 20000)))) =
      6600000 * (- G * earthMass / (6600000 * 6600000 * 6600000)) + r * 200000"
    by (simp add: deriv_def accel_def Let_def length_v_axis Cd_def r_def
        multiplyScalar_def add_def)
  have g: "vz (snd (pred_deriv (Vec 0 0 6600000, Vec 0 0 (- 20000)))) >
     vz (snd (deriv (pi / 16) (62.5 * pi) (Vec 0 0 6600000, Vec 0 0 (- 20000)))) + 1 / 10 ^ 6"
    unfolding p l using r by simp
  then have d: "pred_deriv (Vec 0 0 6600000, Vec 0 0 (- 20000)) \<noteq>
     deriv (pi / 16) (62.5 * pi) (Vec 0 0 6600000, Vec 0 0 (- 20000))"
    by auto
  have "vz (fst (arcade_euler 1 (Vec 0 0 15, Vec 0 0 (- 0.05)))) < 14.96"
    by (simp add: arcade_euler_def Let_def length_v_axis normalize_v_def divideScalar_def
        multiplyScalar_def js_or_def gravityStrength_def)
  moreover have "vz (fst (predict_arcade_rk4 (0.02 * 1) (Vec 0 0 15, Vec 0 0 (- 0.05)))) > 14.96"
    unfolding predict_arcade_rk4_is_rk4 rk4_axis [of arcade_deriv, OF arcade_axis]
    by (simp add: Let_def gravityStrength_def)
  ultimately have a: "predict_arcade_rk4 (0.02 * 1) (Vec 0 0 15, Vec 0 0 (- 0.05)) \<noteq>
     arcade_euler 1 (Vec 0 0 15, Vec 0 0 (- 0.05))"
    by auto
  from d g a show ?thesis by simp
qed

text \<open>
  C4 (amended): in src/main.js, for the Realistic model the predictor steps with the
  same RK4 scheme, the same \<open>dt = 0.02 * simSpeed\<close> and the same gravity and drag law
  as the live simulation, but with \<open>area / mass\<close> fixed to \<open>1\<close> in the drag term: its
  step is the live step exactly for a projectile whose \<open>area\<close> equals its \<open>mass\<close>.
  For the Arcade model the predictor integrates the same inverse-square
  acceleration as the live simulation, but by RK4 with \<open>dt = 0.02 * simSpeed\<close>, where
  the live simulation takes one semi-implicit Euler step of size \<open>simSpeed\<close>. The
  predictor of src/src/app.js takes semi-implicit Euler steps of that acceleration.
\<close>

theorem predictor_integrators:
  "(area m = mass m \<and> mass m \<noteq> 0 \<longrightarrow>
      realistic_step ss m =
        m\<lparr>position := multiplyScalar
             (fst (predict_rk4 (0.02 * ss)
                    (multiplyScalar (position m) SCENE_SCALE, physVelocity m)))
             (1 / SCENE_SCALE),
          physVelocity :=
             snd (predict_rk4 (0.02 * ss)
                    (multiplyScalar (position m) SCENE_SCALE, physVelocity m))\<rparr>) \<and>
   accel_pred p v = accel 1 1 p v \<and>
   predict_realistic ss origin vel =
     (let r = predict_loop (rk4 pred_deriv (0.02 * ss)) realistic_hit realistic_escaped 2000
                (multiplyScalar origin SCENE_SCALE, multiplyScalar vel SCENE_SCALE)
      in (fst r, map_option (\<lambda>s. multiplyScalar (fst s) (1 / SCENE_SCALE)) (snd r))) \<and>
   predict_arcade ss origin vel =
     (let r = predict_loop (rk4 arcade_deriv (0.02 * ss)) arcade_hit arcade_escaped 2000
                (origin, vel)
      in (fst r, map_option fst (snd r))) \<and>
   arcade_step ss m =
     m\<lparr>position := fst (semi_implicit_euler arcade_gravity ss (position m, velocity m)),
       velocity := snd (semi_implicit_euler arcade_gravity ss (position m, velocity m))\<rparr> \<and>
   app_predict_euler dt s = semi_implicit_euler arcade_gravity dt s"
proof (intro conjI impI)
  assume "area m = mass m \<and> mass m \<noteq> 0"
  then show "realistic_step ss m =
        m\<lparr>position := multiplyScalar
             (fst (predict_rk4 (0.02 * ss)
                    (multiplyScalar (position m) SCENE_SCALE, physVelocity m)))
             (1 / SCENE_SCALE),
          physVelocity :=
             snd (predict_rk4 (0.02 * ss)
                    (multiplyScalar (position m) SCENE_SCALE, physVelocity m))\<rparr>"
    by (simp add: realistic_step_def Let_def animate_rk4_unit_ratio)
qed (simp_all add: accel_pred_is_accel predict_realistic_def predict_rk4_is_rk4
    predict_arcade_def predict_arcade_rk4_is_rk4 arcade_step_def Let_def
    arcade_euler_is_semi_implicit app_predict_euler_is_semi_implicit)

text \<open>Witness for C4 (amended): a meteor with \<open>area = mass = 1\<close>.\<close>

theorem predictor_integrators_witness:
  "area unit_meteor = mass unit_meteor \<and> mass unit_meteor \<noteq> 0 \<and>
   realistic_step 1 unit_meteor =
     unit_meteor\<lparr>position := multiplyScalar
             (fst (predict_rk4 (0.02 * 1)
                    (multiplyScalar (position unit_meteor) SCENE_SCALE,
                     physVelocity unit_meteor)))
             (1 / SCENE_SCALE),
          physVelocity :=
             snd (predict_rk4 (0.02 * 1)
                    (multiplyScalar (position unit_meteor) SCENE_SCALE,
                     physVelocity unit_meteor))\<rparr>"
  using predictor_integrators [where m = unit_meteor and ss = 1]
  by (simp add: unit_meteor_def)

section \<open>The prediction loop\<close>

lemma predict_loop_Suc:
  "predict_loop step hit esc (Suc n) s =
     (if hit (step s) then (1, Some (step s))
      else if esc (step s) then (1, None)
      else (Suc (fst (predict_loop step hit esc n (step s))),
            snd (predict_loop step hit esc n (step s))))"
  by (simp add: Let_def split: prod.splits)

lemma predict_loop_steps_le: "fst (predict_loop step hit esc n s) \<le> n"
proof (induction n arbitrary: s)
  case 0
  then show ?case by simp
next
  case (Suc n)
  from Suc [of "step s"] show ?case
    by (simp only: predict_loop_Suc) simp
qed

lemma predict_loop_steps_pos: "0 < n \<Longrightarrow> 1 \<le> fst (predict_loop step hit esc n s)"
  by (cases n) (simp_all only: predict_loop_Suc, simp_all)

lemma predict_loop_quiet:
  "1 \<le> j \<Longrightarrow> j < fst (predict_loop step hit esc n s) \<Longrightarrow>
     \<not> hit ((step ^^ j) s) \<and> \<not> esc ((step ^^ j) s)"
proof (induction n arbitrary: s j)
  case 0
  then show ?case by simp
next
  case (Suc n)
  show ?case
  proof (cases "hit (step s) \<or> esc (step s)")
    case True
    with Suc.prems show ?thesis
      by (simp only: predict_loop_Suc) (auto split: if_splits)
  next
    case False
    then have r: "fst (predict_loop step hit esc (Suc n) s) =
        Suc (fst (predict_loop step hit esc n (step s)))"
      by (simp only: predict_loop_Suc) simp
    show ?thesis
    proof (cases j)
      case 0
      with Suc.prems show ?thesis by simp
    next
      case j: (Suc i)
      show ?thesis
      proof (cases i)
        case 0
        with j False show ?thesis by simp
      next
        case (Suc i')
        then have "1 \<le> i" by simp
        moreover have "i < fst (predict_loop step hit esc n (step s))"
          using Suc.prems(2) r j by simp
        ultimately have "\<not> hit ((step ^^ i) (step s)) \<and> \<not> esc ((step ^^ i) (step s))"
          by (rule Suc.IH)
        then show ?thesis
          by (simp add: j funpow_swap1)
      qed
    qed
  qed
qed

lemma predict_loop_Some:
  "snd (predict_loop step hit esc n s) = Some s' \<longleftrightarrow>
     1 \<le> fst (predict_loop step hit esc n s) \<and>
     hit ((step ^^ fst (predict_loop step hit esc n s)) s) \<and>
     s' = (step ^^ fst (predict_loop step hit esc n s)) s"
proof (induction n arbitrary: s)
  case 0
  then show ?case by simp
next
  case (Suc n)
  show ?case
  proof (cases "hit (step s) \<or> esc (step s)")
    case True
    then show ?thesis
      by (simp only: predict_loop_Suc) auto
  next
    case False
    then have r: "predict_loop step hit esc (Suc n) s =
        (Suc (fst (predict_loop step hit esc n (step s))),
         snd (predict_loop step hit esc n (step s)))"
      by (simp only: predict_loop_Suc) simp
    define k where "k = fst (predict_loop step hit esc n (step s))"
    have none: "k = 0 \<Longrightarrow> snd (predict_loop step hit esc n (step s)) = None"
      unfolding k_def by (cases n) (simp_all only: predict_loop_Suc, simp_all split: if_splits)
    show ?thesis
    proof (cases k)
      case 0
      with none False show ?thesis
        unfolding r fst_conv snd_conv k_def [symmetric] by simp
    next
      case (Suc k')
      then show ?thesis
        unfolding r fst_conv snd_conv
        using Suc.IH [of "step s"] by (auto simp: funpow_swap1 k_def)
    qed
  qed
qed

lemma predict_loop_early:
  "fst (predict_loop step hit esc n s) < n \<Longrightarrow>
     hit ((step ^^ fst (predict_loop step hit esc n s)) s) \<or>
     esc ((step ^^ fst (predict_loop step hit esc n s)) s)"
proof (induction n arbitrary: s)
  case 0
  then show ?case by simp
next
  case (Suc n)
  show ?case
  proof (cases "hit (step s) \<or> esc (step s)")
    case True
    then show ?thesis
      by (simp only: predict_loop_Suc) auto
  next
    case False
    then have r: "fst (predict_loop step hit esc (Suc n) s) =
        Suc (fst (predict_loop step hit esc n (step s)))"
      by (simp only: predict_loop_Suc) simp
    with Suc.prems have "fst (predict_loop step hit esc n (step s)) < n" by simp
    then have "hit ((step ^^ fst (predict_loop step hit esc n (step s))) (step s)) \<or>
      esc ((step ^^ fst (predict_loop step hit esc n (step s))) (step s))"
      by (rule Suc.IH)
    then show ?thesis
      unfolding r by (simp add: funpow_swap1 del: predict_loop.simps)
  qed
qed

lemma predict_loop_first_hit:
  "0 < n \<Longrightarrow> hit (step s) \<Longrightarrow> predict_loop step hit esc n s = (1, Some (step s))"
  by (cases n) (simp_all add: Let_def)

lemma predict_loop_contract:
  "prediction_contract
     (fst (predict_loop step hit esc 2000 s), map_option out (snd (predict_loop step hit esc 2000 s)))
     (\<lambda>k. (step ^^ k) s) hit esc out"
proof -
  define r where "r = predict_loop step hit esc 2000 s"
  define n where "n = fst r"
  have n1: "1 \<le> n" and n2: "n \<le> 2000"
    using predict_loop_steps_pos [of 2000 step hit esc s]
      predict_loop_steps_le [of step hit esc 2000 s]
    by (simp_all add: n_def r_def)
  have quiet: "\<not> hit ((step ^^ j) s) \<and> \<not> esc ((step ^^ j) s)" if "1 \<le> j" "j < n" for j
    using predict_loop_quiet [of j step hit esc 2000 s] that by (simp add: n_def r_def)
  have some: "snd r = Some s' \<longleftrightarrow> hit ((step ^^ n) s) \<and> s' = (step ^^ n) s" for s'
    using predict_loop_Some [of step hit esc 2000 s s'] n1 by (simp add: n_def r_def)
  have early: "n < 2000 \<Longrightarrow> hit ((step ^^ n) s) \<or> esc ((step ^^ n) s)"
    using predict_loop_early [of step hit esc 2000 s] by (simp add: n_def r_def)
  have res: "map_option out (snd r) = Some p \<longleftrightarrow> hit ((step ^^ n) s) \<and> p = out ((step ^^ n) s)"
    for p
  proof (cases "snd r")
    case None
    with some [of "(step ^^ n) s"] have "\<not> hit ((step ^^ n) s)" by simp
    with None show ?thesis by simp
  next
    case (Some x)
    with some [of x] have "hit ((step ^^ n) s)" "x = (step ^^ n) s" by simp_all
    with Some show ?thesis by auto
  qed
  have ex: "(\<exists>k\<in>{1..n}. hit ((step ^^ k) s)) \<longleftrightarrow> hit ((step ^^ n) s)"
  proof
    assume "\<exists>k\<in>{1..n}. hit ((step ^^ k) s)"
    then obtain k where k: "1 \<le> k" "k \<le> n" "hit ((step ^^ k) s)" by auto
    with quiet [of k] have "k = n" by (cases "k < n") auto
    with k show "hit ((step ^^ n) s)" by simp
  next
    assume "hit ((step ^^ n) s)"
    with n1 show "\<exists>k\<in>{1..n}. hit ((step ^^ k) s)" by auto
  qed
  have nn: "map_option out (snd r) \<noteq> None \<longleftrightarrow> hit ((step ^^ n) s)"
  proof (cases "snd r")
    case None
    with some [of "(step ^^ n) s"] show ?thesis by simp
  next
    case (Some x)
    with some [of x] show ?thesis by simp
  qed
  show ?thesis
    unfolding prediction_contract_def r_def [symmetric] fst_conv snd_conv n_def [symmetric]
    using n1 n2 quiet res ex nn early by auto
qed

lemma arcade_selectors:
  "within_body False = arcade_hit" "beyond_escape False = arcade_escaped"
  "scene_position False = fst"
  by (rule ext, simp add: within_body_def beyond_escape_def scene_position_def)+

lemma contract_first_step:
  assumes c: "prediction_contract r st hit esc out" and h: "hit (st 1)"
  shows "r = (1, Some (out (st 1)))"
proof -
  have "fst r = 1"
  proof (rule ccontr)
    assume "fst r \<noteq> 1"
    with c have "1 \<in> {1..<fst r}" by (auto simp: prediction_contract_def)
    with c have "\<not> hit (st 1)" unfolding prediction_contract_def by blast
    with h show False by simp
  qed
  moreover from c h \<open>fst r = 1\<close> have "snd r = Some (out (st 1))"
    unfolding prediction_contract_def by simp
  ultimately show ?thesis by (cases r) simp
qed

lemma launch_scenario: "launch 425 scenario_world = (Vec 0 0 15, Vec 0 0 (- 425))"
  by (simp add: launch_def scenario_world_def normalize_v_def divideScalar_def
      multiplyScalar_def sub_def js_or_def length_v_axis)

text \<open>
  C2: every call of the predictor, of src/main.js under either model and of
  src/src/app.js, performs at most \<open>2000\<close> integration steps and returns an impact
  point if and only if some step it performs brings the predicted position within
  \<open>earthRadius + 0.2\<close> of the centre; a step beyond the escape distance, or the budget
  exhausted with neither condition met, gives the "no impact" result.
\<close>

theorem predictor_contract:
  "prediction_contract (predict speed w) (predicted speed w)
     (within_body (realistic w)) (beyond_escape (realistic w)) (scene_position (realistic w)) \<and>
   prediction_contract (app_predict speed w) (app_predicted speed w)
     arcade_hit arcade_escaped fst"
proof
  show "prediction_contract (predict speed w) (predicted speed w)
     (within_body (realistic w)) (beyond_escape (realistic w)) (scene_position (realistic w))"
  proof (cases "realistic w")
    case True
    have p: "predicted speed w = (\<lambda>k. (predict_rk4 (0.02 * simSpeed w) ^^ k)
             (multiplyScalar (fst (launch speed w)) SCENE_SCALE,
              multiplyScalar (snd (launch speed w)) SCENE_SCALE))"
      by (rule ext) (simp add: predicted_def True)
    have h: "within_body True = realistic_hit" "beyond_escape True = realistic_escaped"
      "scene_position True = (\<lambda>s. multiplyScalar (fst s) (1 / SCENE_SCALE))"
      by (rule ext, simp add: within_body_def beyond_escape_def scene_position_def)+
    show ?thesis
      unfolding True h p
      using predict_loop_contract [of "predict_rk4 (0.02 * simSpeed w)" realistic_hit
          realistic_escaped "(multiplyScalar (fst (launch speed w)) SCENE_SCALE,
              multiplyScalar (snd (launch speed w)) SCENE_SCALE)"
          "\<lambda>s. multiplyScalar (fst s) (1 / SCENE_SCALE)"]
      by (simp add: predict_def predict_realistic_def Let_def True launch_def h)
  next
    case False
    have p: "predicted speed w = (\<lambda>k. (predict_arcade_rk4 (0.02 * simSpeed w) ^^ k)
             (launch speed w))"
      by (rule ext) (simp add: predicted_def False)
    have h: "within_body False = arcade_hit" "beyond_escape False = arcade_escaped"
      "scene_position False = fst"
      by (rule ext, simp add: within_body_def beyond_escape_def scene_position_def)+
    show ?thesis
      unfolding False h p
      using predict_loop_contract [of "predict_arcade_rk4 (0.02 * simSpeed w)" arcade_hit
          arcade_escaped "launch speed w" fst]
      by (simp add: predict_def predict_arcade_def Let_def False launch_def h)
  qed
next
  have p: "app_predicted speed w = (\<lambda>k. (app_predict_euler (0.02 * simSpeed w) ^^ k)
             (launch speed w))"
    by (rule ext) (simp add: app_predicted_def)
  show "prediction_contract (app_predict speed w) (app_predicted speed w)
     arcade_hit arcade_escaped fst"
    unfolding p
    using predict_loop_contract [of "app_predict_euler (0.02 * simSpeed w)" arcade_hit
        arcade_escaped "launch speed w" fst]
    by (simp add: app_predict_def Let_def launch_def)
qed

text \<open>
  Witness for C2: in the scenario with the launch speed \<open>425\<close> the first step of either
  predictor lands within the body, at about \<open>z = 6.5\<close>; the call performs one step and
  returns that position.
\<close>

theorem predictor_contract_witness:
  "predict 425 scenario_world = (1, Some (fst (predicted 425 scenario_world 1))) \<and>
   arcade_hit (predicted 425 scenario_world 1) \<and>
   app_predict 425 scenario_world = (1, Some (fst (app_predicted 425 scenario_world 1))) \<and>
   arcade_hit (app_predicted 425 scenario_world 1) \<and>
   vz (fst (app_predicted 425 scenario_world 1)) < 6.5"
proof -
  have w: "realistic scenario_world = False" "simSpeed scenario_world = 1"
    by (simp_all add: scenario_world_def)
  have m: "predicted 425 scenario_world 1 =
      rk4 arcade_deriv (0.02 * 1) (Vec 0 0 15, Vec 0 0 (- 425))"
    by (simp add: predicted_def w launch_scenario predict_arcade_rk4_is_rk4)
  have a: "app_predicted 425 scenario_world 1 =
      semi_implicit_euler arcade_gravity (0.02 * 1) (Vec 0 0 15, Vec 0 0 (- 425))"
    by (simp add: app_predicted_def w launch_scenario app_predict_euler_is_semi_implicit)
  have hm: "arcade_hit (predicted 425 scenario_world 1)"
    unfolding m rk4_axis [of arcade_deriv, OF arcade_axis]
    by (simp add: Let_def arcade_hit_def length_v_axis gravityStrength_def earthRadius_def)
  have az: "fst (app_predicted 425 scenario_world 1) =
      Vec 0 0 (15 + (- 425 + (- 0.02 / 225) * 0.02) * 0.02)"
    unfolding a
    by (simp add: semi_implicit_euler_def arcade_gravity_def Let_def length_v_axis
        normalize_v_def divideScalar_def multiplyScalar_def add_def js_or_def
        gravityStrength_def)
  have ha: "arcade_hit (app_predicted 425 scenario_world 1)"
    unfolding arcade_hit_def az by (simp add: length_v_axis earthRadius_def)
  have z: "vz (fst (app_predicted 425 scenario_world 1)) < 6.5"
    unfolding az by simp
  have c: "prediction_contract (predict 425 scenario_world) (predicted 425 scenario_world)
       arcade_hit arcade_escaped fst"
    "prediction_contract (app_predict 425 scenario_world) (app_predicted 425 scenario_world)
       arcade_hit arcade_escaped fst"
    using predictor_contract [of 425 scenario_world] by (simp_all add: w arcade_selectors)
  show ?thesis
    using contract_first_step [OF c(1) hm] contract_first_step [OF c(2) ha] hm ha z
    by simp
qed

section \<open>Monotonic infall under the Arcade model\<close>

lemma length_v_multiplyScalar: "length_v (multiplyScalar p c) = \<bar>c\<bar> * length_v p"
proof -
  have "vx p * c * (vx p * c) + vy p * c * (vy p * c) + vz p * c * (vz p * c) =
      (c * c) * (vx p * vx p + vy p * vy p + vz p * vz p)"
    by (simp add: algebra_simps)
  then show ?thesis
    by (simp add: length_v_def real_sqrt_mult)
qed

lemma length_v_nonneg: "0 \<le> length_v p"
  by (simp add: length_v_def)

lemma dot_multiplyScalar: "dot p (multiplyScalar p c) = c * (length_v p * length_v p)"
proof -
  have "0 \<le> vx p * vx p + vy p * vy p + vz p * vz p" by simp
  then have "length_v p * length_v p = vx p * vx p + vy p * vy p + vz p * vz p"
    by (simp add: length_v_def)
  then show ?thesis
    by (simp add: dot_def algebra_simps)
qed

lemma arcade_euler_radial:
  fixes k :: real
  assumes ss: "0 < ss" and c: "0 < c" and L: "0 < length_v p0"
  defines "k' \<equiv> k + gravityStrength * ss
                     / (length_v p0 * ((c * length_v p0) * (c * length_v p0)))"
  shows "arcade_euler ss (multiplyScalar p0 c, multiplyScalar p0 (- k)) =
     (multiplyScalar p0 (c - k' * ss), multiplyScalar p0 (- k'))"
proof -
  have r: "length_v (multiplyScalar p0 c) = c * length_v p0"
    using c by (simp add: length_v_multiplyScalar)
  have r0: "c * length_v p0 \<noteq> 0" using c L by simp
  have n: "normalize_v (multiplyScalar p0 c) = multiplyScalar p0 (1 / length_v p0)"
    using c L by (simp add: normalize_v_def divideScalar_def r js_or_def vec_eq_iff)
  show ?thesis
    unfolding arcade_euler_def Let_def fst_conv snd_conv n r
    by (simp add: vec_eq_iff k'_def algebra_simps)
qed

lemma arcade_flight_euler:
  "(position (arcade_flight ss m i), velocity (arcade_flight ss m i)) =
     (arcade_euler ss ^^ i) (position m, velocity m)"
proof (induction i)
  case 0
  then show ?case by (simp add: arcade_flight_def)
next
  case (Suc i)
  have "arcade_flight ss m (Suc i) = arcade_step ss (arcade_flight ss m i)"
    by (simp add: arcade_flight_def)
  then show ?case
    using Suc by (simp add: arcade_step_def Let_def)
qed

lemma arcade_radial_invariant:
  assumes ss: "0 < ss"
    and side: "\<forall>j\<le>i. 0 < dot p0 (fst ((arcade_euler ss ^^ j) (p0, Vec 0 0 0)))"
  shows "\<exists>c k. 0 < c \<and> 0 \<le> k \<and>
     (arcade_euler ss ^^ i) (p0, Vec 0 0 0) = (multiplyScalar p0 c, multiplyScalar p0 (- k))"
  using side
proof (induction i)
  case 0
  have "(p0, Vec 0 0 0) = (multiplyScalar p0 1, multiplyScalar p0 (- 0))"
    by (simp add: vec_eq_iff)
  then show ?case
    by (intro exI [of _ 1] exI [of _ 0]) simp
next
  case (Suc i)
  from Suc.prems have "0 < dot p0 (fst ((arcade_euler ss ^^ 0) (p0, Vec 0 0 0)))" by blast
  then have "0 < dot p0 p0" by simp
  then have L: "0 < length_v p0"
    using dot_multiplyScalar [of p0 1] length_v_nonneg [of p0]
    by (cases "length_v p0 = 0") (simp_all add: multiplyScalar_def)
  from Suc.prems have "\<forall>j\<le>i. 0 < dot p0 (fst ((arcade_euler ss ^^ j) (p0, Vec 0 0 0)))"
    by simp
  with Suc.IH obtain c k where ck: "0 < c" "0 \<le> k"
    "(arcade_euler ss ^^ i) (p0, Vec 0 0 0) = (multiplyScalar p0 c, multiplyScalar p0 (- k))"
    by blast
  define k' where "k' = k + gravityStrength * ss
                     / (length_v p0 * ((c * length_v p0) * (c * length_v p0)))"
  have step: "(arcade_euler ss ^^ Suc i) (p0, Vec 0 0 0) =
      (multiplyScalar p0 (c - k' * ss), multiplyScalar p0 (- k'))"
    using arcade_euler_radial [OF ss ck(1) L, of k] by (simp add: ck(3) k'_def)
  have "0 \<le> gravityStrength * ss
                     / (length_v p0 * ((c * length_v p0) * (c * length_v p0)))"
    using ss ck(1) L by (simp add: gravityStrength_def)
  then have k': "0 \<le> k'" using ck(2) by (simp add: k'_def)
  from Suc.prems have "0 < dot p0 (fst ((arcade_euler ss ^^ Suc i) (p0, Vec 0 0 0)))"
    by blast
  then have "0 < (c - k' * ss) * (length_v p0 * length_v p0)"
    unfolding step fst_conv dot_multiplyScalar .
  then have "0 < c - k' * ss"
    using L by (simp add: zero_less_mult_iff)
  with k' step show ?case by blast
qed

lemma arcade_radial_decrease:
  assumes ss: "0 < ss"
    and side: "\<forall>j\<le>Suc n. 0 < dot p0 (fst ((arcade_euler ss ^^ j) (p0, Vec 0 0 0)))"
  shows "length_v (fst ((arcade_euler ss ^^ Suc n) (p0, Vec 0 0 0))) <
     length_v (fst ((arcade_euler ss ^^ n) (p0, Vec 0 0 0)))"
proof -
  from side have "0 < dot p0 (fst ((arcade_euler ss ^^ 0) (p0, Vec 0 0 0)))" by blast
  then have "0 < dot p0 p0" by simp
  then have L: "0 < length_v p0"
    using dot_multiplyScalar [of p0 1] length_v_nonneg [of p0]
    by (cases "length_v p0 = 0") (simp_all add: multiplyScalar_def)
  from side have "\<forall>j\<le>n. 0 < dot p0 (fst ((arcade_euler ss ^^ j) (p0, Vec 0 0 0)))"
    by simp
  from arcade_radial_invariant [OF ss this] obtain c k where ck: "0 < c" "0 \<le> k"
    "(arcade_euler ss ^^ n) (p0, Vec 0 0 0) = (multiplyScalar p0 c, multiplyScalar p0 (- k))"
    by blast
  define k' where "k' = k + gravityStrength * ss
                     / (length_v p0 * ((c * length_v p0) * (c * length_v p0)))"
  have step: "(arcade_euler ss ^^ Suc n) (p0, Vec 0 0 0) =
      (multiplyScalar p0 (c - k' * ss), multiplyScalar p0 (- k'))"
    using arcade_euler_radial [OF ss ck(1) L, of k] by (simp add: ck(3) k'_def)
  have "0 < gravityStrength * ss
                     / (length_v p0 * ((c * length_v p0) * (c * length_v p0)))"
    using ss ck(1) L by (simp add: gravityStrength_def)
  then have k': "0 < k'" using ck(2) by (simp add: k'_def)
  from side have "0 < dot p0 (fst ((arcade_euler ss ^^ Suc n) (p0, Vec 0 0 0)))"
    by blast
  then have "0 < (c - k' * ss) * (length_v p0 * length_v p0)"
    unfolding step fst_conv dot_multiplyScalar .
  then have pos: "0 < c - k' * ss"
    using L by (simp add: zero_less_mult_iff)
  have "c - k' * ss < c" using k' ss by simp
  then have "(c - k' * ss) * length_v p0 < c * length_v p0"
    using L by simp
  then show ?thesis
    unfolding step ck(3) fst_conv length_v_multiplyScalar using pos ck(1) by simp
qed

text \<open>
  C9, as stated, fails for a large simulation speed: the meteor at rest at
  \<open>(0, 0, 15)\<close> with \<open>simSpeed = 1000\<close> is carried by one Arcade tick through the body
  to \<open>z = 15 - 0.02 / 225 * 1000 * 1000\<close>, about \<open>-73.9\<close>. No impact is detected in that
  tick (the test reads the distance \<open>15\<close> of the start of the tick), the meteor stays
  active, and its distance to the centre has grown.
\<close>

theorem arcade_tunnel_counterexample:
  "snd (animate_meteor False 1000 still_meteor) = None \<and>
   active (fst (animate_meteor False 1000 still_meteor)) \<and>
   length_v (position still_meteor) <
     length_v (position (fst (animate_meteor False 1000 still_meteor)))"
  unfolding still_meteor_eq
  by (simp add: animate_meteor_def Let_def length_v_axis earthRadius_def arcade_step_def
      arcade_euler_def normalize_v_def divideScalar_def multiplyScalar_def add_def js_or_def
      gravityStrength_def)

text \<open>
  C9 (amended): for every projectile under the Arcade model with zero initial
  velocity and a positive simulation speed, the distance to the centre is strictly
  decreasing from one tick to the next for as long as the projectile is on the side
  of the centre where it started, that is, has not stepped past the centre. (Every
  tick of an active meteor, in both programs, moves it by the Arcade step.)
\<close>

theorem arcade_infall:
  "(0 < ss \<and> velocity m = Vec 0 0 0 \<and>
    (\<forall>j\<le>Suc n. 0 < dot (position m) (position (arcade_flight ss m j))) \<longrightarrow>
      length_v (position (arcade_flight ss m (Suc n))) <
        length_v (position (arcade_flight ss m n))) \<and>
   (active m \<longrightarrow>
      position (fst (animate_meteor False ss m)) = position (arcade_step ss m) \<and>
      velocity (fst (animate_meteor False ss m)) = velocity (arcade_step ss m) \<and>
      position (fst (app_animate_meteor False ss dt m)) = position (arcade_step ss m) \<and>
      velocity (fst (app_animate_meteor False ss dt m)) = velocity (arcade_step ss m))"
proof (intro conjI impI)
  assume a: "0 < ss \<and> velocity m = Vec 0 0 0 \<and>
    (\<forall>j\<le>Suc n. 0 < dot (position m) (position (arcade_flight ss m j)))"
  have p: "position (arcade_flight ss m i) =
      fst ((arcade_euler ss ^^ i) (position m, Vec 0 0 0))" for i
    using arcade_flight_euler [of ss m i, symmetric] a by simp
  from a show "length_v (position (arcade_flight ss m (Suc n))) <
        length_v (position (arcade_flight ss m n))"
    unfolding p by (intro arcade_radial_decrease) simp_all
next
  assume "active m"
  then show "position (fst (animate_meteor False ss m)) = position (arcade_step ss m)"
    "velocity (fst (animate_meteor False ss m)) = velocity (arcade_step ss m)"
    by (simp_all add: animate_meteor_def Let_def)
next
  have t: "position (arcade_step ss (tumble dt m)) = position (arcade_step ss m)"
    "velocity (arcade_step ss (tumble dt m)) = velocity (arcade_step ss m)"
    by (simp_all add: arcade_step_def Let_def tumble_fields)
  assume "active m"
  then show "position (fst (app_animate_meteor False ss dt m)) = position (arcade_step ss m)"
    "velocity (fst (app_animate_meteor False ss dt m)) = velocity (arcade_step ss m)"
    by (simp_all add: app_animate_meteor_def Let_def ttl_fade_fields t)
qed

text \<open>
  Witness for C9 (amended): the meteor at rest at \<open>(0, 0, 15)\<close> with \<open>simSpeed = 1\<close> is
  at \<open>z = 15 - 0.02 / 225\<close> after one tick.
\<close>

theorem arcade_infall_witness:
  "velocity still_meteor = Vec 0 0 0 \<and>
   0 < dot (position still_meteor) (position (arcade_flight 1 still_meteor 0)) \<and>
   0 < dot (position still_meteor) (position (arcade_flight 1 still_meteor 1)) \<and>
   length_v (position (arcade_flight 1 still_meteor 1)) <
     length_v (position (arcade_flight 1 still_meteor 0))"
proof -
  have f0: "arcade_flight 1 still_meteor 0 = still_meteor"
    by (simp add: arcade_flight_def)
  have f1: "position (arcade_flight 1 still_meteor 1) = Vec 0 0 (15 - 0.02 / 225)"
    unfolding still_meteor_eq arcade_flight_def
    by (simp add: arcade_step_def arcade_euler_def Let_def normalize_v_def divideScalar_def
        multiplyScalar_def add_def js_or_def gravityStrength_def length_v_axis)
  have p0: "position still_meteor = Vec 0 0 15" "velocity still_meteor = Vec 0 0 0"
    by (simp_all add: still_meteor_eq)
  have d: "0 < dot (position still_meteor) (position (arcade_flight 1 still_meteor 0))"
    "0 < dot (position still_meteor) (position (arcade_flight 1 still_meteor 1))"
    unfolding f0 f1 p0 by (simp_all add: dot_def)
  have "\<forall>j\<le>Suc 0. 0 < dot (position still_meteor) (position (arcade_flight 1 still_meteor j))"
    using d by (auto simp: le_Suc_eq)
  with arcade_infall [of 1 still_meteor 0] p0(2) d show ?thesis
    by simp
qed

section \<open>Time to live and fading\<close>

lemma fade_time_nonneg: "\<forall>t\<in>set ts. 0 \<le> tick_dt t \<Longrightarrow> 0 \<le> fade_time tau ts"
  by (induction ts arbitrary: tau) auto

lemma elapsed_nonneg: "\<forall>t\<in>set ts. 0 \<le> tick_dt t \<Longrightarrow> 0 \<le> elapsed ts"
  by (induction ts) (auto simp: elapsed_def)

lemma elapsed_Cons: "elapsed (t # ts) = tick_dt t + elapsed ts"
  by (simp add: elapsed_def)

lemma app_ticks_inactive: "\<not> active m \<Longrightarrow> app_ticks ts m = (m, [])"
  by (induction ts) (auto simp: app_animate_meteor_def)

lemma app_animate_meteor_far:
  assumes "active m" "earthRadius + 0.2 \<le> length_v (position m)"
  shows "app_animate_meteor rl ss dt m =
     (ttl_fade dt (if rl then app_realistic_step ss (tumble dt m)
                   else arcade_step ss (tumble dt m)), None)"
  using assms by (simp add: app_animate_meteor_def Let_def)

lemma ttl_fade_lifecycle:
  assumes "ttl m = Some tau" "0 < opacity m" "active m" "fading m \<longleftrightarrow> tau \<le> 0" "0 \<le> dt"
  shows "ttl (ttl_fade dt m) = Some (tau - dt)"
    and "fading (ttl_fade dt m) \<longleftrightarrow> tau - dt \<le> 0"
    and "opacity (ttl_fade dt m) =
           max 0 (opacity m - 0.5 * (if tau - dt \<le> 0 then dt else 0))"
    and "active (ttl_fade dt m) \<longleftrightarrow> 0 < opacity (ttl_fade dt m)"
  using assms by (auto simp: ttl_fade_def Let_def js_or_def max_def)

lemma app_ticks_lifecycle:
  assumes "ttl m = Some tau" "0 < opacity m" "active m" "fading m \<longleftrightarrow> tau \<le> 0"
    and "\<forall>t\<in>set ts. 0 \<le> tick_dt t"
    and "\<forall>k<length ts.
           earthRadius + 0.2 \<le> length_v (position (fst (app_ticks (take k ts) m)))"
  shows "snd (app_ticks ts m) = [] \<and>
     (fading (fst (app_ticks ts m)) \<longleftrightarrow> tau - elapsed ts \<le> 0) \<and>
     opacity (fst (app_ticks ts m)) = max 0 (opacity m - 0.5 * fade_time tau ts) \<and>
     (active (fst (app_ticks ts m)) \<longleftrightarrow> 0 < opacity (fst (app_ticks ts m))) \<and>
     (active (fst (app_ticks ts m)) \<longrightarrow> ttl (fst (app_ticks ts m)) = Some (tau - elapsed ts))"
  using assms
proof (induction ts arbitrary: m tau)
  case Nil
  then show ?case by (simp add: elapsed_def)
next
  case (Cons t ts)
  obtain rl ss dt where t: "t = (rl, ss, dt)" by (cases t)
  have dt: "0 \<le> dt" and dts: "\<forall>t\<in>set ts. 0 \<le> tick_dt t"
    using Cons.prems(5) by (simp_all add: t tick_dt_def)
  from Cons.prems(6) have "earthRadius + 0.2 \<le> length_v (position (fst (app_ticks (take 0 (t # ts)) m)))"
    by blast
  then have far: "earthRadius + 0.2 \<le> length_v (position m)" by simp
  define m0 where "m0 = (if rl then app_realistic_step ss (tumble dt m)
                         else arcade_step ss (tumble dt m))"
  define m1 where "m1 = ttl_fade dt m0"
  have tick: "app_animate_meteor rl ss dt m = (m1, None)"
    unfolding m1_def m0_def by (rule app_animate_meteor_far [OF Cons.prems(3) far])
  have run: "app_ticks (t # ts) m = app_ticks ts m1"
    by (simp add: t tick Let_def)
  have m0: "ttl m0 = Some tau" "0 < opacity m0" "active m0" "fading m0 \<longleftrightarrow> tau \<le> 0"
    using Cons.prems(1-4)
    by (simp_all add: m0_def app_realistic_step_fields arcade_step_fields tumble_fields)
  note lc = ttl_fade_lifecycle [OF m0 dt, folded m1_def]
  have o0: "opacity m0 = opacity m"
    by (simp add: m0_def app_realistic_step_fields arcade_step_fields tumble_fields)
  have el: "elapsed (t # ts) = dt + elapsed ts"
    by (simp add: elapsed_Cons t tick_dt_def)
  have ft: "fade_time tau (t # ts) = (if tau - dt \<le> 0 then dt else 0) + fade_time (tau - dt) ts"
    by (simp add: t tick_dt_def)
  show ?case
  proof (cases "active m1")
    case True
    then have op: "0 < opacity m1" using lc(4) by simp
    have far': "\<forall>k<length ts.
           earthRadius + 0.2 \<le> length_v (position (fst (app_ticks (take k ts) m1)))"
    proof (intro allI impI)
      fix k assume "k < length ts"
      then have "Suc k < length (t # ts)" by simp
      with Cons.prems(6) have "earthRadius + 0.2 \<le>
          length_v (position (fst (app_ticks (take (Suc k) (t # ts)) m)))" by blast
      then show "earthRadius + 0.2 \<le> length_v (position (fst (app_ticks (take k ts) m1)))"
        by (simp add: t tick Let_def)
    qed
    note ih = Cons.IH [OF lc(1) op True lc(2) dts far']
    have "opacity m1 = opacity m - 0.5 * (if tau - dt \<le> 0 then dt else 0)"
      using op lc(3) o0 by (simp add: max_def split: if_splits)
    with ih show ?thesis
      unfolding run el ft by (simp add: algebra_simps)
  next
    case False
    then have z: "opacity m1 \<le> 0" using lc(4) by simp
    then have tau: "tau - dt \<le> 0"
      using lc(3) o0 Cons.prems(2) by (simp add: max_def split: if_splits)
    from z lc(3) have o1: "opacity m1 = 0" "opacity m - 0.5 * dt \<le> 0"
      using tau o0 by (simp_all add: max_def split: if_splits)
    have "0 \<le> fade_time (tau - dt) ts" by (rule fade_time_nonneg [OF dts])
    moreover have "0 \<le> elapsed ts" by (rule elapsed_nonneg [OF dts])
    ultimately show ?thesis
      unfolding run el ft app_ticks_inactive [OF False]
      using False o1 tau lc(2) by (simp add: max_def)
  qed
qed

lemma fade_time_before_expiry:
  "\<forall>t\<in>set ts. 0 \<le> tick_dt t \<Longrightarrow> elapsed ts < tau \<Longrightarrow> fade_time tau ts = 0"
proof (induction ts arbitrary: tau)
  case Nil
  then show ?case by simp
next
  case (Cons t ts)
  from Cons.prems have "0 \<le> elapsed ts" by (intro elapsed_nonneg) simp
  with Cons.prems have "0 < tau - tick_dt t" "elapsed ts < tau - tick_dt t"
    by (simp_all add: elapsed_Cons)
  with Cons.IH [of "tau - tick_dt t"] Cons.prems(1) show ?case by simp
qed

lemma ttl_meteor_eq:
  "ttl_meteor = \<lparr>position = Vec 0 0 15, velocity = Vec 0 0 (- 0.03),
         physVelocity = Vec 0 0 (- 50000), active = True,
         mass = 62.5 * pi, area = pi / 16, size_m = 0.5, ttl = Some 1,
         fading = False, opacity = 1, angularVelocity = Some (Vec 0 0 0)\<rparr>"
  unfolding ttl_meteor_def app_shoot_scenario
  by (simp add: power2_eq_square power3_eq_cube)

lemma arcade_euler_axis:
  assumes "0 < z"
  shows "arcade_euler ss (Vec 0 0 z, Vec 0 0 w) =
     (Vec 0 0 (z + (w + - gravityStrength / (z * z) * ss) * ss),
      Vec 0 0 (w + - gravityStrength / (z * z) * ss))"
  using assms
  by (simp add: arcade_euler_def Let_def length_v_axis normalize_v_def
      divideScalar_def multiplyScalar_def add_def js_or_def)

lemma app_animate_meteor_arcade_motion:
  assumes "active m"
  shows "(position (fst (app_animate_meteor False ss dt m)),
          velocity (fst (app_animate_meteor False ss dt m))) =
         arcade_euler ss (position m, velocity m)"
  using assms
  by (simp add: app_animate_meteor_def Let_def ttl_fade_fields arcade_step_def tumble_fields)

lemma app_ticks_Cons_far:
  assumes "active m" "earthRadius + 0.2 \<le> length_v (position m)"
  shows "app_ticks ((False, ss, dt) # ts) m =
     app_ticks ts (fst (app_animate_meteor False ss dt m))"
  using app_animate_meteor_far [OF assms, of False ss dt] by (simp add: Let_def)

text \<open>
  C8: a meteor with the time to live \<open>1.0\<close> and the opacity \<open>1\<close>, whose position at the
  start of every tick is at least \<open>earthRadius + 0.2\<close> from the centre, run through
  ticks of non-negative simulated time: it never reports an impact; it is Flying
  with its opacity untouched as long as less than \<open>1.0\<close> simulated seconds have elapsed
  and is no longer Flying from the tick on that brings the elapsed time to \<open>1.0\<close>,
  when its time to live \<open>1 - elapsed\<close> reaches zero; its opacity falls by \<open>0.5\<close> per
  simulated second of fading, floored at \<open>0\<close>; and it is Removed exactly when the
  opacity has reached \<open>0\<close>.
\<close>

theorem ttl_expiry:
  assumes "ttl m = Some 1" "opacity m = 1" "active m" "\<not> fading m"
    and "\<forall>t\<in>set ts. 0 \<le> tick_dt t"
    and "\<forall>k<length ts.
           earthRadius + 0.2 \<le> length_v (position (fst (app_ticks (take k ts) m)))"
  shows "snd (app_ticks ts m) = [] \<and>
     (elapsed ts < 1 \<longrightarrow>
        lifecycleState (fst (app_ticks ts m)) = Flying \<and> opacity (fst (app_ticks ts m)) = 1) \<and>
     (1 \<le> elapsed ts \<longrightarrow> lifecycleState (fst (app_ticks ts m)) \<noteq> Flying) \<and>
     (lifecycleState (fst (app_ticks ts m)) \<noteq> Removed \<longrightarrow>
        ttl (fst (app_ticks ts m)) = Some (1 - elapsed ts)) \<and>
     opacity (fst (app_ticks ts m)) = max 0 (1 - 0.5 * fade_time 1 ts) \<and>
     (lifecycleState (fst (app_ticks ts m)) = Removed \<longleftrightarrow>
        opacity (fst (app_ticks ts m)) \<le> 0)"
proof -
  have "0 < opacity m" "fading m \<longleftrightarrow> (1::real) \<le> 0"
    using assms(2,4) by simp_all
  note lc = app_ticks_lifecycle [OF assms(1) this(1) assms(3) this(2) assms(5,6)]
  have "fade_time 1 ts = 0" if "elapsed ts < 1"
    using fade_time_before_expiry [OF assms(5) that] .
  with lc assms(2) show ?thesis
    by (auto simp: lifecycleState_def)
qed

text \<open>
  Witness for C8: after half a second the meteor is Flying, after a second Fading
  with the opacity \<open>0.75\<close>, after three seconds Removed, with no impact.
\<close>

theorem ttl_expiry_witness:
  "ttl ttl_meteor = Some 1 \<and> opacity ttl_meteor = 1 \<and> active ttl_meteor \<and>
   \<not> fading ttl_meteor \<and>
   lifecycleState (fst (app_ticks [half_tick] ttl_meteor)) = Flying \<and>
   lifecycleState (fst (app_ticks [half_tick, half_tick] ttl_meteor)) = Fading \<and>
   opacity (fst (app_ticks [half_tick, half_tick] ttl_meteor)) = 0.75 \<and>
   lifecycleState (fst (app_ticks [half_tick, half_tick, long_tick] ttl_meteor)) = Removed \<and>
   snd (app_ticks [half_tick, half_tick, long_tick] ttl_meteor) = []"
proof -
  have h: "ttl ttl_meteor = Some 1" "opacity ttl_meteor = 1" "active ttl_meteor"
    "\<not> fading ttl_meteor"
    by (simp_all add: ttl_meteor_eq)
  define m1 where "m1 = fst (app_animate_meteor False 1 0.5 ttl_meteor)"
  define m2 where "m2 = fst (app_animate_meteor False 1 0.5 m1)"
  have mv0: "position ttl_meteor = Vec 0 0 15" "velocity ttl_meteor = Vec 0 0 (- 0.03)"
    by (simp_all add: ttl_meteor_eq)
  have F0: "earthRadius + 0.2 \<le> length_v (position ttl_meteor)"
    unfolding mv0 by (simp add: length_v_axis earthRadius_def)
  have t1: "app_ticks (half_tick # ts) ttl_meteor = app_ticks ts m1" for ts
    unfolding half_tick_def m1_def by (rule app_ticks_Cons_far [OF h(3) F0])
  have mv1: "(position m1, velocity m1) = (Vec 0 0 (336823 / 22500), Vec 0 0 (- 677 / 22500))"
    unfolding m1_def app_animate_meteor_arcade_motion [OF h(3)] mv0
    by (simp add: arcade_euler_axis gravityStrength_def)
  have F1: "earthRadius + 0.2 \<le> length_v (position m1)"
    using mv1 by (simp add: length_v_axis earthRadius_def)
  have d: "0 \<le> tick_dt half_tick" "0 \<le> tick_dt long_tick"
    by (simp_all add: tick_dt_def half_tick_def long_tick_def)
  have far1: "\<forall>k<length [half_tick]. earthRadius + 0.2 \<le>
      length_v (position (fst (app_ticks (take k [half_tick]) ttl_meteor)))"
    using F0 by simp
  have e: "elapsed [half_tick] = 0.5" "elapsed [half_tick, half_tick] = 1"
    "elapsed [half_tick, half_tick, long_tick] = 3"
    "fade_time 1 [half_tick, half_tick] = 0.5"
    "fade_time 1 [half_tick, half_tick, long_tick] = 2.5"
    by (simp_all add: elapsed_def tick_dt_def half_tick_def long_tick_def)
  have c1: "lifecycleState (fst (app_ticks [half_tick] ttl_meteor)) = Flying"
    using ttl_expiry [OF h _ far1] d unfolding e by simp
  then have a1: "active m1"
    unfolding t1 by (simp add: lifecycleState_def split: if_splits)
  have t2: "app_ticks (half_tick # ts) m1 = app_ticks ts m2" for ts
    unfolding half_tick_def m2_def by (rule app_ticks_Cons_far [OF a1 F1])
  have mv2: "position m2 = Vec 0 0 (19067723123555017 / 1276309499951250)"
    using app_animate_meteor_arcade_motion [OF a1, of 1 "0.5", folded m2_def] mv1
    by (simp add: arcade_euler_axis gravityStrength_def)
  have F2: "earthRadius + 0.2 \<le> length_v (position m2)"
    unfolding mv2 by (simp add: length_v_axis earthRadius_def)
  have far2: "\<forall>k<length [half_tick, half_tick]. earthRadius + 0.2 \<le>
      length_v (position (fst (app_ticks (take k [half_tick, half_tick]) ttl_meteor)))"
  proof (intro allI impI)
    fix k assume "k < length [half_tick, half_tick]"
    then consider "k = 0" | "k = Suc 0" by (auto simp: less_Suc_eq)
    then show "earthRadius + 0.2 \<le>
      length_v (position (fst (app_ticks (take k [half_tick, half_tick]) ttl_meteor)))"
      using F0 F1 by cases (simp_all add: t1)
  qed
  have far3: "\<forall>k<length [half_tick, half_tick, long_tick]. earthRadius + 0.2 \<le>
      length_v (position (fst (app_ticks (take k [half_tick, half_tick, long_tick])
        ttl_meteor)))"
  proof (intro allI impI)
    fix k assume "k < length [half_tick, half_tick, long_tick]"
    then consider "k = 0" | "k = Suc 0" | "k = Suc (Suc 0)" by (auto simp: less_Suc_eq)
    then show "earthRadius + 0.2 \<le>
      length_v (position (fst (app_ticks (take k [half_tick, half_tick, long_tick])
        ttl_meteor)))"
      using F0 F1 F2 by cases (simp_all add: t1 t2)
  qed
  have c2: "lifecycleState (fst (app_ticks [half_tick, half_tick] ttl_meteor)) = Fading \<and>
      opacity (fst (app_ticks [half_tick, half_tick] ttl_meteor)) = 0.75"
    using ttl_expiry [OF h _ far2] d unfolding e
    by (cases "lifecycleState (fst (app_ticks [half_tick, half_tick] ttl_meteor))") auto
  have c3: "lifecycleState (fst (app_ticks [half_tick, half_tick, long_tick] ttl_meteor))
        = Removed \<and>
      snd (app_ticks [half_tick, half_tick, long_tick] ttl_meteor) = []"
    using ttl_expiry [OF h _ far3] d unfolding e by simp
  from h c1 c2 c3 show ?thesis by simp
qed

section \<open>The predictor writes no projectile and keeps no state\<close>

lemma clone_scaled_eq:
  "clone_scaled a c h =
     (fresh h, \<lparr>cells = (cells h)(fresh h := multiplyScalar (cells h a) c),
                fresh = Suc (fresh h)\<rparr>)"
  by (simp add: clone_scaled_def v3_clone_def v3_multiplyScalar_def)

lemma accel_store_ok: "acc_ok accel_store accel_pred"
  by (simp add: acc_ok_def accel_store_def clone_scaled_eq v3_length_def v3_add_def
      accel_pred_def Let_def)

lemma arcade_accel_store_ok: "acc_ok arcade_accel_store (\<lambda>p v. arcade_gravity p)"
  by (simp add: acc_ok_def arcade_accel_store_def v3_clone_def v3_normalize_def
      v3_multiplyScalar_def v3_length_def arcade_gravity_def Let_def)

lemma acc_okD:
  assumes "acc_ok acc f" "p < fresh h" "v < fresh h" "acc p v h = (g, h')"
  shows "fresh h \<le> g" "g < fresh h'" "cells h' g = f (cells h p) (cells h v)"
    "\<forall>a<fresh h. cells h' a = cells h a"
  using assms unfolding acc_ok_def by (metis fst_conv snd_conv)+

lemma rk4_first_spec:
  assumes ok: "acc_ok acc f" and p: "p < fresh h" and v: "v < fresh h"
  shows "produces h (rk4_first acc dt p v h)
     (multiplyScalar (cells h v) dt) (multiplyScalar (f (cells h p) (cells h v)) dt)"
proof -
  obtain a1 h1 where a: "acc p v h = (a1, h1)" by (cases "acc p v h")
  note a1 = acc_okD [OF ok p v a]
  have r: "rk4_first acc dt p v h =
     ((Suc (fresh h1), fresh h1),
      \<lparr>cells = (cells h1)(fresh h1 := multiplyScalar (cells h1 a1) dt,
                          Suc (fresh h1) := multiplyScalar (cells h1 v) dt),
       fresh = Suc (Suc (fresh h1))\<rparr>)"
    using a1 v by (simp add: rk4_first_def a clone_scaled_eq)
  show ?thesis
    unfolding r produces_def using a1 v by simp
qed

lemma produces_frame:
  assumes "produces h' r x y" "fresh h \<le> fresh h'" "\<forall>a<fresh h. cells h' a = cells h a"
  shows "produces h r x y"
  using assms unfolding produces_def by auto

lemma clone_plus_scaled_eq:
  assumes "p < fresh h" "k < fresh h"
  shows "clone_plus_scaled p k c h =
     (fresh h,
      \<lparr>cells = (cells h)
         (Suc (fresh h) := multiplyScalar (cells h k) c,
          fresh h := add (cells h p) (multiplyScalar (cells h k) c)),
       fresh = Suc (Suc (fresh h))\<rparr>)"
  using assms by (simp add: clone_plus_scaled_def clone_scaled_eq v3_clone_def v3_add_def)

lemma clone_plus_eq:
  assumes "p < fresh h" "k < fresh h"
  shows "clone_plus p k h =
     (fresh h,
      \<lparr>cells = (cells h)(fresh h := add (cells h p) (cells h k)), fresh = Suc (fresh h)\<rparr>)"
  using assms by (simp add: clone_plus_def v3_clone_def v3_add_def)

lemma rk4_half_spec:
  assumes ok: "acc_ok acc f" and p: "p < fresh h" and v: "v < fresh h"
    and k: "fst k < fresh h" "snd k < fresh h"
  shows "produces h (rk4_half acc dt p v k h)
     (multiplyScalar (add (cells h v) (multiplyScalar (cells h (snd k)) 0.5)) dt)
     (multiplyScalar
        (f (add (cells h p) (multiplyScalar (cells h (fst k)) 0.5))
           (add (cells h v) (multiplyScalar (cells h (snd k)) 0.5))) dt)"
proof -
  define h1 where "h1 = snd (clone_plus_scaled p (fst k) 0.5 h)"
  define h2 where "h2 = snd (clone_plus_scaled v (snd k) 0.5 h1)"
  have c1: "fresh h1 = Suc (Suc (fresh h))"
    "cells h1 (fresh h) = add (cells h p) (multiplyScalar (cells h (fst k)) 0.5)"
    "\<forall>a<fresh h. cells h1 a = cells h a"
    by (simp_all add: h1_def clone_plus_scaled_eq [OF p k(1)])
  have v1: "v < fresh h1" "snd k < fresh h1" using v k c1(1) by simp_all
  have c2: "fresh h2 = Suc (Suc (Suc (Suc (fresh h))))"
    "cells h2 (fresh h) = add (cells h p) (multiplyScalar (cells h (fst k)) 0.5)"
    "cells h2 (Suc (Suc (fresh h))) = add (cells h v) (multiplyScalar (cells h (snd k)) 0.5)"
    "\<forall>a<fresh h. cells h2 a = cells h a"
    using c1 v k by (simp_all add: h2_def clone_plus_scaled_eq [OF v1])
  have e1: "clone_plus_scaled p (fst k) 0.5 h = (fresh h, h1)"
    unfolding h1_def clone_plus_scaled_eq [OF p k(1)] by simp
  have e2: "clone_plus_scaled v (snd k) 0.5 h1 = (Suc (Suc (fresh h)), h2)"
    unfolding h2_def clone_plus_scaled_eq [OF v1] c1(1) by simp
  have r: "rk4_half acc dt p v k h = rk4_first acc dt (fresh h) (Suc (Suc (fresh h))) h2"
    unfolding rk4_half_def Let_def e1 prod.case e2 by simp
  have "fresh h < fresh h2" "Suc (Suc (fresh h)) < fresh h2" by (simp_all add: c2)
  from rk4_first_spec [OF ok this, of dt] show ?thesis
    unfolding r c2 by (rule produces_frame) (simp_all add: c2)
qed

lemma rk4_full_spec:
  assumes ok: "acc_ok acc f" and p: "p < fresh h" and v: "v < fresh h"
    and k: "fst k < fresh h" "snd k < fresh h"
  shows "produces h (rk4_full acc dt p v k h)
     (multiplyScalar (add (cells h v) (cells h (snd k))) dt)
     (multiplyScalar
        (f (add (cells h p) (cells h (fst k))) (add (cells h v) (cells h (snd k)))) dt)"
proof -
  define h1 where "h1 = snd (clone_plus p (fst k) h)"
  define h2 where "h2 = snd (clone_plus v (snd k) h1)"
  have c1: "fresh h1 = Suc (fresh h)"
    "cells h1 (fresh h) = add (cells h p) (cells h (fst k))"
    "\<forall>a<fresh h. cells h1 a = cells h a"
    by (simp_all add: h1_def clone_plus_eq [OF p k(1)])
  have v1: "v < fresh h1" "snd k < fresh h1" using v k c1(1) by simp_all
  have c2: "fresh h2 = Suc (Suc (fresh h))"
    "cells h2 (fresh h) = add (cells h p) (cells h (fst k))"
    "cells h2 (Suc (fresh h)) = add (cells h v) (cells h (snd k))"
    "\<forall>a<fresh h. cells h2 a = cells h a"
    using c1 v k by (simp_all add: h2_def clone_plus_eq [OF v1])
  have e1: "clone_plus p (fst k) h = (fresh h, h1)"
    unfolding h1_def clone_plus_eq [OF p k(1)] by simp
  have e2: "clone_plus v (snd k) h1 = (Suc (fresh h), h2)"
    unfolding h2_def clone_plus_eq [OF v1] c1(1) by simp
  have r: "rk4_full acc dt p v k h = rk4_first acc dt (fresh h) (Suc (fresh h)) h2"
    unfolding rk4_full_def Let_def e1 prod.case e2 by simp
  have "fresh h < fresh h2" "Suc (fresh h) < fresh h2" by (simp_all add: c2)
  from rk4_first_spec [OF ok this, of dt] show ?thesis
    unfolding r c2 by (rule produces_frame) (simp_all add: c2)
qed

lemma rk4_combine_eq:
  assumes "k1 < fresh h" "k2 < fresh h" "k3 < fresh h" "k4 < fresh h"
  shows "fst (rk4_combine k1 k2 k3 k4 h) = fresh h"
    and "fresh (snd (rk4_combine k1 k2 k3 k4 h)) = Suc (Suc (Suc (fresh h)))"
    and "cells (snd (rk4_combine k1 k2 k3 k4 h)) (fresh h) =
       multiplyScalar
         (add (add (add (cells h k1) (multiplyScalar (cells h k2) 2))
            (multiplyScalar (cells h k3) 2)) (cells h k4)) (1 / 6)"
    and "\<forall>a<fresh h. cells (snd (rk4_combine k1 k2 k3 k4 h)) a = cells h a"
  using assms
  by (simp_all add: rk4_combine_def clone_scaled_eq v3_clone_def v3_add_def
      v3_multiplyScalar_def)

lemma predict_rk4_values: "predict_rk4 dt = rk4_values accel_pred dt"
  by (rule ext) (simp add: predict_rk4_def rk4_values_def)

lemma predict_arcade_rk4_values: "predict_arcade_rk4 dt = rk4_values (\<lambda>p v. arcade_gravity p) dt"
  by (rule ext) (simp add: predict_arcade_rk4_def rk4_values_def)

lemma producesD:
  assumes "produces h (k, h') x y"
  shows "fresh h \<le> fst k" "fst k < fresh h'" "fresh h \<le> snd k" "snd k < fresh h'"
    "cells h' (fst k) = x" "cells h' (snd k) = y" "\<And>a. a < fresh h \<Longrightarrow> cells h' a = cells h a"
    "fresh h \<le> fresh h'"
  using assms unfolding produces_def by auto

lemma rk4_body_spec:
  assumes ok: "acc_ok acc f" and p: "p < fresh h" and v: "v < fresh h" and pv: "p \<noteq> v"
  shows "fresh h \<le> fresh (rk4_body acc dt p v h)"
    and "(cells (rk4_body acc dt p v h) p, cells (rk4_body acc dt p v h) v) =
       rk4_values f dt (cells h p, cells h v)"
    and "\<forall>a<fresh h. a \<noteq> p \<longrightarrow> a \<noteq> v \<longrightarrow> cells (rk4_body acc dt p v h) a = cells h a"
proof -
  obtain k1 h1 where s1: "rk4_first acc dt p v h = (k1, h1)"
    by (cases "rk4_first acc dt p v h")
  note d1 = producesD [OF rk4_first_spec [OF ok p v, of dt, unfolded s1]]
  have b1: "p < fresh h1" "v < fresh h1" using d1(8) p v by simp_all
  have e1: "cells h1 p = cells h p" "cells h1 v = cells h v" using d1(7) p v by simp_all
  obtain k2 h2 where s2: "rk4_half acc dt p v k1 h1 = (k2, h2)"
    by (cases "rk4_half acc dt p v k1 h1")
  note d2 = producesD [OF rk4_half_spec [OF ok b1 d1(2) d1(4), of dt,
        unfolded s2 e1 d1(5) d1(6)]]
  have b2: "p < fresh h2" "v < fresh h2" "fst k1 < fresh h2" "snd k1 < fresh h2"
    using d2(8) b1 d1(2) d1(4) by simp_all
  have e2: "cells h2 p = cells h p" "cells h2 v = cells h v"
    "cells h2 (fst k1) = cells h1 (fst k1)" "cells h2 (snd k1) = cells h1 (snd k1)"
    using d2(7) b1 d1(2) d1(4) e1 by simp_all
  obtain k3 h3 where s3: "rk4_half acc dt p v k2 h2 = (k3, h3)"
    by (cases "rk4_half acc dt p v k2 h2")
  note d3 = producesD [OF rk4_half_spec [OF ok b2(1,2) d2(2) d2(4), of dt,
        unfolded s3 e2 d2(5) d2(6)]]
  have b3: "p < fresh h3" "v < fresh h3" "fst k1 < fresh h3" "snd k1 < fresh h3"
    "fst k2 < fresh h3" "snd k2 < fresh h3"
    using d3(8) b2 d2(2) d2(4) by simp_all
  have e3: "cells h3 p = cells h p" "cells h3 v = cells h v"
    "cells h3 (fst k1) = cells h1 (fst k1)" "cells h3 (snd k1) = cells h1 (snd k1)"
    "cells h3 (fst k2) = cells h2 (fst k2)" "cells h3 (snd k2) = cells h2 (snd k2)"
    using d3(7) b2 d2(2) d2(4) e2 by simp_all
  obtain k4 h4 where s4: "rk4_full acc dt p v k3 h3 = (k4, h4)"
    by (cases "rk4_full acc dt p v k3 h3")
  note d4 = producesD [OF rk4_full_spec [OF ok b3(1,2) d3(2) d3(4), of dt,
        unfolded s4 e3 d3(5) d3(6)]]
  have b4: "p < fresh h4" "v < fresh h4" "fst k1 < fresh h4" "snd k1 < fresh h4"
    "fst k2 < fresh h4" "snd k2 < fresh h4" "fst k3 < fresh h4" "snd k3 < fresh h4"
    using d4(8) b3 d3(2) d3(4) by simp_all
  have e4: "cells h4 p = cells h p" "cells h4 v = cells h v"
    "cells h4 (fst k1) = cells h1 (fst k1)" "cells h4 (snd k1) = cells h1 (snd k1)"
    "cells h4 (fst k2) = cells h2 (fst k2)" "cells h4 (snd k2) = cells h2 (snd k2)"
    "cells h4 (fst k3) = cells h3 (fst k3)" "cells h4 (snd k3) = cells h3 (snd k3)"
    using d4(7) b3 d3(2) d3(4) e3 by simp_all
  define h5 where "h5 = snd (rk4_combine (fst k1) (fst k2) (fst k3) (fst k4) h4)"
  note c5 = rk4_combine_eq [OF b4(3) b4(5) b4(7) d4(2), folded h5_def]
  have s5: "rk4_combine (fst k1) (fst k2) (fst k3) (fst k4) h4 = (fresh h4, h5)"
    using c5(1) by (simp add: h5_def prod_eq_iff)
  have b5: "snd k1 < fresh h5" "snd k2 < fresh h5" "snd k3 < fresh h5" "snd k4 < fresh h5"
    using b4 d4(4) c5(2) by simp_all
  define h6 where "h6 = snd (rk4_combine (snd k1) (snd k2) (snd k3) (snd k4) h5)"
  note c6 = rk4_combine_eq [OF b5, folded h6_def]
  have s6: "rk4_combine (snd k1) (snd k2) (snd k3) (snd k4) h5 = (fresh h5, h6)"
    using c6(1) by (simp add: h6_def prod_eq_iff)
  have r: "rk4_body acc dt p v h = v3_add v (fresh h5) (v3_add p (fresh h4) h6)"
    unfolding rk4_body_def Let_def s1 prod.case s2 s3 s4 s5 s6 by simp
  have lt: "fresh h \<le> fresh h4" "fresh h4 < fresh h5" "fresh h5 < fresh h6"
    using d1(8) d2(8) d3(8) d4(8) c5(2) c6(2) by simp_all
  show "fresh h \<le> fresh (rk4_body acc dt p v h)"
    unfolding r using lt by (simp add: v3_add_def)
  have low: "cells h6 a = cells h a" if "a < fresh h" for a
  proof -
    have "cells h6 a = cells h5 a" using c6(4) that lt by simp
    also have "\<dots> = cells h4 a" using c5(4) that lt by simp
    also have "\<dots> = cells h3 a" using d4(7) [of a] that d1(8) d2(8) d3(8) by simp
    also have "\<dots> = cells h2 a" using d3(7) [of a] that d1(8) d2(8) by simp
    also have "\<dots> = cells h1 a" using d2(7) [of a] that d1(8) by simp
    also have "\<dots> = cells h a" using d1(7) [of a] that by simp
    finally show ?thesis .
  qed
  show "\<forall>a<fresh h. a \<noteq> p \<longrightarrow> a \<noteq> v \<longrightarrow> cells (rk4_body acc dt p v h) a = cells h a"
    unfolding r using low by (simp add: v3_add_def)
  have x: "cells h6 (fresh h4) = cells h5 (fresh h4)" using c6(4) lt by simp
  have ne: "fresh h4 \<noteq> p" "fresh h4 \<noteq> v" "fresh h5 \<noteq> p" "fresh h5 \<noteq> v"
    using p v lt by simp_all
  have "cells (rk4_body acc dt p v h) p = add (cells h p) (cells h5 (fresh h4))"
    unfolding r using pv ne low [OF p] x by (simp add: v3_add_def)
  moreover have "cells (rk4_body acc dt p v h) v = add (cells h v) (cells h6 (fresh h5))"
    unfolding r using pv ne low [OF v] by (simp add: v3_add_def)
  ultimately show "(cells (rk4_body acc dt p v h) p, cells (rk4_body acc dt p v h) v) =
       rk4_values f dt (cells h p, cells h v)"
    unfolding rk4_values_def Let_def fst_conv snd_conv c5(3) c6(3) c5(4) [rule_format, OF b4(4)]
      c5(4) [rule_format, OF b4(6)] c5(4) [rule_format, OF b4(8)] c5(4) [rule_format, OF d4(4)]
      e4 e3 e2 d1(5) d1(6) d2(5) d2(6) d3(5) d3(6) d4(5) d4(6)
    by simp
qed

lemma app_predict_body_spec:
  assumes "pos < fresh h" "v < fresh h" "pos \<noteq> v"
  shows "fresh h \<le> fresh (app_predict_body dt pos v h)"
    and "(cells (app_predict_body dt pos v h) pos, cells (app_predict_body dt pos v h) v) =
       app_predict_euler dt (cells h pos, cells h v)"
    and "\<forall>a<fresh h. a \<noteq> pos \<longrightarrow> a \<noteq> v \<longrightarrow> cells (app_predict_body dt pos v h) a = cells h a"
  using assms
  by (simp_all add: app_predict_body_def app_predict_euler_def clone_scaled_eq v3_clone_def
      v3_normalize_def v3_multiplyScalar_def v3_add_def v3_length_def Let_def)

lemma predict_loop_store_spec:
  assumes body: "\<And>h. p < fresh h \<Longrightarrow> v < fresh h \<Longrightarrow>
      fresh h \<le> fresh (body h) \<and>
      (cells (body h) p, cells (body h) v) = step (cells h p, cells h v) \<and>
      (\<forall>a<fresh h. a \<noteq> p \<longrightarrow> a \<noteq> v \<longrightarrow> cells (body h) a = cells h a)"
    and hit: "\<And>h. hit h = hitp (cells h p, cells h v)"
    and esc: "\<And>h. esc h = escp (cells h p, cells h v)"
    and mk: "\<And>h. p < fresh h \<Longrightarrow>
      fst (mk h) = fresh h \<and> fresh (snd (mk h)) = Suc (fresh h) \<and>
      cells (snd (mk h)) (fresh h) = g (cells h p, cells h v) \<and>
      (\<forall>a<fresh h. cells (snd (mk h)) a = cells h a)"
    and p: "p < fresh h" and v: "v < fresh h"
  shows "fresh h \<le> fresh (snd (predict_loop_store body hit esc mk n h)) \<and>
    (\<forall>a<fresh h. a \<noteq> p \<longrightarrow> a \<noteq> v \<longrightarrow>
       cells (snd (predict_loop_store body hit esc mk n h)) a = cells h a) \<and>
    map_option (cells (snd (predict_loop_store body hit esc mk n h)))
      (fst (predict_loop_store body hit esc mk n h)) =
    map_option g (snd (predict_loop step hitp escp n (cells h p, cells h v)))"
  using p v
proof (induction n arbitrary: h)
  case 0
  show ?case by simp
next
  case (Suc n)
  define h' where "h' = body h"
  note b = body [OF Suc.prems, folded h'_def]
  have pv': "p < fresh h'" "v < fresh h'" using b Suc.prems by simp_all
  have st: "step (cells h p, cells h v) = (cells h' p, cells h' v)" using b by simp
  show ?case
  proof (cases "hit h'")
    case True
    note m = mk [OF pv'(1)]
    have l: "predict_loop_store body hit esc mk (Suc n) h = (Some (fresh h'), snd (mk h'))"
      using True m by (simp add: h'_def [symmetric] split_def)
    have r: "snd (predict_loop step hitp escp (Suc n) (cells h p, cells h v)) =
        Some (cells h' p, cells h' v)"
      using True by (simp add: st hit [symmetric])
    show ?thesis unfolding l r using m b by simp
  next
    case False
    note nh = this
    show ?thesis
    proof (cases "esc h'")
      case True
      have l: "predict_loop_store body hit esc mk (Suc n) h = (None, h')"
        using True nh by (simp add: h'_def [symmetric])
      have r: "snd (predict_loop step hitp escp (Suc n) (cells h p, cells h v)) = None"
        using True nh by (simp add: st hit [symmetric] esc [symmetric])
      show ?thesis unfolding l r using b by simp
    next
      case False
      have l: "predict_loop_store body hit esc mk (Suc n) h =
          predict_loop_store body hit esc mk n h'"
        using False nh by (simp add: h'_def [symmetric])
      have r: "snd (predict_loop step hitp escp (Suc n) (cells h p, cells h v)) =
          snd (predict_loop step hitp escp n (cells h' p, cells h' v))"
        using False nh by (simp add: st hit [symmetric] esc [symmetric] split_def Let_def)
      note ih = Suc.IH [OF pv']
      show ?thesis unfolding l r using ih b by simp
    qed
  qed
qed

lemma predict_realistic_store_spec:
  assumes o: "origin < fresh h" and v: "v < fresh h"
  shows "fresh h \<le> fresh (snd (predict_realistic_store ss origin v h)) \<and>
    (\<forall>a<fresh h. cells (snd (predict_realistic_store ss origin v h)) a = cells h a) \<and>
    map_option (cells (snd (predict_realistic_store ss origin v h)))
      (fst (predict_realistic_store ss origin v h)) =
    snd (predict_realistic ss (cells h origin) (cells h v))"
proof -
  define n where "n = fresh h"
  define h4 where "h4 =
     \<lparr>cells = (cells h)
        (n := multiplyScalar (cells h origin) SCENE_SCALE,
         Suc n := multiplyScalar (cells h v) SCENE_SCALE,
         Suc (Suc n) := multiplyScalar (cells h origin) SCENE_SCALE,
         Suc (Suc (Suc n)) := multiplyScalar (cells h v) SCENE_SCALE),
      fresh = Suc (Suc (Suc (Suc n)))\<rparr>"
  define pM where "pM = Suc (Suc n)"
  define vM where "vM = Suc (Suc (Suc n))"
  define dt where "dt = 0.02 * ss"
  have e: "predict_realistic_store ss origin v h =
      predict_loop_store (rk4_body accel_store dt pM vM)
        (\<lambda>h. v3_length pM h / SCENE_SCALE < earthRadius + 0.2)
        (\<lambda>h. v3_length pM h / SCENE_SCALE > 10 ^ 6)
        (clone_scaled pM (1 / SCENE_SCALE)) 2000 h4"
    using o v unfolding predict_realistic_store_def clone_scaled_eq v3_clone_def Let_def prod.case
      h4_def pM_def vM_def dt_def n_def
    by simp
  have f4: "fresh h4 = Suc (Suc (Suc (Suc n)))" "pM < fresh h4" "vM < fresh h4" "pM \<noteq> vM"
    "cells h4 pM = multiplyScalar (cells h origin) SCENE_SCALE"
    "cells h4 vM = multiplyScalar (cells h v) SCENE_SCALE"
    "\<forall>a<fresh h. cells h4 a = cells h a" "fresh h \<le> pM" "fresh h \<le> vM"
    by (simp_all add: h4_def pM_def vM_def n_def)
  have l: "fresh h4 \<le> fresh (snd (predict_loop_store (rk4_body accel_store dt pM vM)
        (\<lambda>h. v3_length pM h / SCENE_SCALE < earthRadius + 0.2)
        (\<lambda>h. v3_length pM h / SCENE_SCALE > 10 ^ 6)
        (clone_scaled pM (1 / SCENE_SCALE)) 2000 h4)) \<and>
    (\<forall>a<fresh h4. a \<noteq> pM \<longrightarrow> a \<noteq> vM \<longrightarrow>
       cells (snd (predict_loop_store (rk4_body accel_store dt pM vM)
        (\<lambda>h. v3_length pM h / SCENE_SCALE < earthRadius + 0.2)
        (\<lambda>h. v3_length pM h / SCENE_SCALE > 10 ^ 6)
        (clone_scaled pM (1 / SCENE_SCALE)) 2000 h4)) a = cells h4 a) \<and>
    map_option (cells (snd (predict_loop_store (rk4_body accel_store dt pM vM)
        (\<lambda>h. v3_length pM h / SCENE_SCALE < earthRadius + 0.2)
        (\<lambda>h. v3_length pM h / SCENE_SCALE > 10 ^ 6)
        (clone_scaled pM (1 / SCENE_SCALE)) 2000 h4)))
      (fst (predict_loop_store (rk4_body accel_store dt pM vM)
        (\<lambda>h. v3_length pM h / SCENE_SCALE < earthRadius + 0.2)
        (\<lambda>h. v3_length pM h / SCENE_SCALE > 10 ^ 6)
        (clone_scaled pM (1 / SCENE_SCALE)) 2000 h4)) =
    map_option (\<lambda>s. multiplyScalar (fst s) (1 / SCENE_SCALE))
      (snd (predict_loop (predict_rk4 dt) realistic_hit realistic_escaped 2000
         (cells h4 pM, cells h4 vM)))"
  proof (rule predict_loop_store_spec [OF _ _ _ _ f4(2) f4(3)])
    fix k :: store assume "pM < fresh k" "vM < fresh k"
    from rk4_body_spec [OF accel_store_ok this f4(4), of dt]
    show "fresh k \<le> fresh (rk4_body accel_store dt pM vM k) \<and>
      (cells (rk4_body accel_store dt pM vM k) pM, cells (rk4_body accel_store dt pM vM k) vM) =
        predict_rk4 dt (cells k pM, cells k vM) \<and>
      (\<forall>a<fresh k. a \<noteq> pM \<longrightarrow> a \<noteq> vM \<longrightarrow> cells (rk4_body accel_store dt pM vM k) a = cells k a)"
      unfolding predict_rk4_values by blast
  next
    fix k :: store show "(v3_length pM k / SCENE_SCALE < earthRadius + 0.2) =
        realistic_hit (cells k pM, cells k vM)"
      by (simp add: v3_length_def realistic_hit_def)
  next
    fix k :: store show "(v3_length pM k / SCENE_SCALE > 10 ^ 6) =
        realistic_escaped (cells k pM, cells k vM)"
      by (simp add: v3_length_def realistic_escaped_def)
  next
    fix k :: store assume "pM < fresh k"
    then show "fst (clone_scaled pM (1 / SCENE_SCALE) k) = fresh k \<and>
       fresh (snd (clone_scaled pM (1 / SCENE_SCALE) k)) = Suc (fresh k) \<and>
       cells (snd (clone_scaled pM (1 / SCENE_SCALE) k)) (fresh k) =
         multiplyScalar (fst (cells k pM, cells k vM)) (1 / SCENE_SCALE) \<and>
       (\<forall>a<fresh k. cells (snd (clone_scaled pM (1 / SCENE_SCALE) k)) a = cells k a)"
      unfolding clone_scaled_eq by simp
  qed
  have r: "snd (predict_realistic ss (cells h origin) (cells h v)) =
      map_option (\<lambda>s. multiplyScalar (fst s) (1 / SCENE_SCALE))
        (snd (predict_loop (predict_rk4 dt) realistic_hit realistic_escaped 2000
           (cells h4 pM, cells h4 vM)))"
    unfolding predict_realistic_def Let_def dt_def f4(5) f4(6) by simp
  show ?thesis
    unfolding e r using l f4 by auto
qed

lemma scene_loop_spec:
  assumes body: "\<And>h. pos < fresh h \<Longrightarrow> v < fresh h \<Longrightarrow>
      fresh h \<le> fresh (body h) \<and>
      (cells (body h) pos, cells (body h) v) = step (cells h pos, cells h v) \<and>
      (\<forall>a<fresh h. a \<noteq> pos \<longrightarrow> a \<noteq> v \<longrightarrow> cells (body h) a = cells h a)"
    and p: "pos < fresh h" and v: "v < fresh h"
  shows "fresh h \<le> fresh (snd (predict_loop_store body
        (\<lambda>h. v3_length pos h < earthRadius + 0.2) (\<lambda>h. v3_length pos h > 10 ^ 4)
        (v3_clone pos) n h)) \<and>
    (\<forall>a<fresh h. a \<noteq> pos \<longrightarrow> a \<noteq> v \<longrightarrow>
       cells (snd (predict_loop_store body
        (\<lambda>h. v3_length pos h < earthRadius + 0.2) (\<lambda>h. v3_length pos h > 10 ^ 4)
        (v3_clone pos) n h)) a = cells h a) \<and>
    map_option (cells (snd (predict_loop_store body
        (\<lambda>h. v3_length pos h < earthRadius + 0.2) (\<lambda>h. v3_length pos h > 10 ^ 4)
        (v3_clone pos) n h)))
      (fst (predict_loop_store body
        (\<lambda>h. v3_length pos h < earthRadius + 0.2) (\<lambda>h. v3_length pos h > 10 ^ 4)
        (v3_clone pos) n h)) =
    map_option fst (snd (predict_loop step arcade_hit arcade_escaped n (cells h pos, cells h v)))"
proof (rule predict_loop_store_spec [OF _ _ _ _ p v])
  fix k :: store assume "pos < fresh k" "v < fresh k"
  then show "fresh k \<le> fresh (body k) \<and>
      (cells (body k) pos, cells (body k) v) = step (cells k pos, cells k v) \<and>
      (\<forall>a<fresh k. a \<noteq> pos \<longrightarrow> a \<noteq> v \<longrightarrow> cells (body k) a = cells k a)"
    by (rule body)
next
  fix k :: store show "(v3_length pos k < earthRadius + 0.2) = arcade_hit (cells k pos, cells k v)"
    by (simp add: v3_length_def arcade_hit_def)
next
  fix k :: store show "(v3_length pos k > 10 ^ 4) = arcade_escaped (cells k pos, cells k v)"
    by (simp add: v3_length_def arcade_escaped_def)
next
  fix k :: store assume "pos < fresh k"
  then show "fst (v3_clone pos k) = fresh k \<and> fresh (snd (v3_clone pos k)) = Suc (fresh k) \<and>
       cells (snd (v3_clone pos k)) (fresh k) = fst (cells k pos, cells k v) \<and>
       (\<forall>a<fresh k. cells (snd (v3_clone pos k)) a = cells k a)"
    by (simp add: v3_clone_def)
qed

lemma predict_arcade_store_spec:
  assumes p: "pos < fresh h" and v: "v < fresh h" and pv: "pos \<noteq> v"
  shows "fresh h \<le> fresh (snd (predict_arcade_store ss pos v h)) \<and>
    (\<forall>a<fresh h. a \<noteq> pos \<longrightarrow> a \<noteq> v \<longrightarrow> cells (snd (predict_arcade_store ss pos v h)) a = cells h a) \<and>
    map_option (cells (snd (predict_arcade_store ss pos v h)))
      (fst (predict_arcade_store ss pos v h)) =
    snd (predict_arcade ss (cells h pos) (cells h v))"
proof -
  have body: "fresh k \<le> fresh (rk4_body arcade_accel_store (0.02 * ss) pos v k) \<and>
      (cells (rk4_body arcade_accel_store (0.02 * ss) pos v k) pos,
       cells (rk4_body arcade_accel_store (0.02 * ss) pos v k) v) =
        predict_arcade_rk4 (0.02 * ss) (cells k pos, cells k v) \<and>
      (\<forall>a<fresh k. a \<noteq> pos \<longrightarrow> a \<noteq> v \<longrightarrow>
         cells (rk4_body arcade_accel_store (0.02 * ss) pos v k) a = cells k a)"
    if "pos < fresh k" "v < fresh k" for k :: store
    using rk4_body_spec [OF arcade_accel_store_ok that pv, of "0.02 * ss"]
    unfolding predict_arcade_rk4_values by blast
  show ?thesis
    unfolding predict_arcade_store_def predict_arcade_def Let_def snd_conv
    by (rule scene_loop_spec [OF body p v])
qed

lemma predict_store_spec:
  assumes cam: "camera_ref sc < fresh (heap sc)" and cur: "cursor_ref sc < fresh (heap sc)"
  shows "fresh (heap sc) \<le> fresh (snd (predict_store speed sc)) \<and>
    (\<forall>a<fresh (heap sc). cells (snd (predict_store speed sc)) a = cells (heap sc) a) \<and>
    map_option (cells (snd (predict_store speed sc))) (fst (predict_store speed sc)) =
    snd (predict speed (world_of sc))"
proof -
  define n where "n = fresh (heap sc)"
  define C where "C = cells (heap sc) (camera_ref sc)"
  define V where "V =
     multiplyScalar (normalize_v (sub (cells (heap sc) (cursor_ref sc)) C)) speed"
  define h7 where "h7 =
     \<lparr>cells = (cells (heap sc))
        (n := C, Suc n := V, Suc (Suc n) := C, Suc (Suc (Suc n)) := V),
      fresh = Suc (Suc (Suc (Suc n)))\<rparr>"
  have e: "predict_store speed sc =
      (if is_realistic sc then predict_realistic_store (sim_speed sc) n (Suc (Suc (Suc n))) h7
       else predict_arcade_store (sim_speed sc) (Suc (Suc n)) (Suc (Suc (Suc n))) h7)"
    using cam cur
    by (simp add: predict_store_def v3_clone_def v3_sub_def v3_normalize_def
        v3_multiplyScalar_def h7_def n_def C_def V_def)
  have f7: "fresh h7 = Suc (Suc (Suc (Suc n)))" "cells h7 n = C" "cells h7 (Suc (Suc n)) = C"
    "cells h7 (Suc (Suc (Suc n))) = V" "\<forall>a<n. cells h7 a = cells (heap sc) a"
    by (simp_all add: h7_def)
  have b: "n < fresh h7" "Suc (Suc n) < fresh h7" "Suc (Suc (Suc n)) < fresh h7"
    "Suc (Suc n) \<noteq> Suc (Suc (Suc n))"
    by (simp_all add: f7)
  have w: "predict speed (world_of sc) =
      (if is_realistic sc then predict_realistic (sim_speed sc) C V
       else predict_arcade (sim_speed sc) C V)"
    by (simp add: predict_def world_of_def C_def V_def Let_def)
  show ?thesis
  proof (cases "is_realistic sc")
    case True
    from predict_realistic_store_spec [OF b(1) b(3), of "sim_speed sc"] True f7 show ?thesis
      unfolding e w n_def [symmetric] by auto
  next
    case False
    from predict_arcade_store_spec [OF b(2) b(3) b(4), of "sim_speed sc"] False f7 show ?thesis
      unfolding e w n_def [symmetric] by auto
  qed
qed

lemma app_predict_store_spec:
  assumes cam: "camera_ref sc < fresh (heap sc)" and cur: "cursor_ref sc < fresh (heap sc)"
  shows "fresh (heap sc) \<le> fresh (snd (app_predict_store speed sc)) \<and>
    (\<forall>a<fresh (heap sc). cells (snd (app_predict_store speed sc)) a = cells (heap sc) a) \<and>
    map_option (cells (snd (app_predict_store speed sc))) (fst (app_predict_store speed sc)) =
    snd (app_predict speed (world_of sc))"
proof -
  define n where "n = fresh (heap sc)"
  define C where "C = cells (heap sc) (camera_ref sc)"
  define V where "V =
     multiplyScalar (normalize_v (sub (cells (heap sc) (cursor_ref sc)) C)) speed"
  define h6 where "h6 =
     \<lparr>cells = (cells (heap sc))(n := C, Suc n := V, Suc (Suc n) := C),
      fresh = Suc (Suc (Suc n))\<rparr>"
  define dt where "dt = 0.02 * sim_speed sc"
  have e: "app_predict_store speed sc =
      predict_loop_store (app_predict_body dt (Suc (Suc n)) (Suc n))
        (\<lambda>h. v3_length (Suc (Suc n)) h < earthRadius + 0.2)
        (\<lambda>h. v3_length (Suc (Suc n)) h > 10 ^ 4)
        (v3_clone (Suc (Suc n))) 2000 h6"
    using cam cur
    unfolding app_predict_store_def v3_clone_def v3_sub_def v3_normalize_def
      v3_multiplyScalar_def h6_def n_def C_def V_def dt_def Let_def prod.case
    by (simp add: fun_upd_twist)
  have f6: "fresh h6 = Suc (Suc (Suc n))" "cells h6 (Suc n) = V" "cells h6 (Suc (Suc n)) = C"
    "\<forall>a<n. cells h6 a = cells (heap sc) a"
    by (simp_all add: h6_def)
  have b: "Suc (Suc n) < fresh h6" "Suc n < fresh h6" "Suc (Suc n) \<noteq> Suc n"
    by (simp_all add: f6)
  have w: "snd (app_predict speed (world_of sc)) =
      map_option fst (snd (predict_loop (app_predict_euler dt) arcade_hit arcade_escaped 2000
        (C, V)))"
    unfolding app_predict_def world_of_def C_def V_def dt_def Let_def by simp
  have body: "fresh k \<le> fresh (app_predict_body dt (Suc (Suc n)) (Suc n) k) \<and>
      (cells (app_predict_body dt (Suc (Suc n)) (Suc n) k) (Suc (Suc n)),
       cells (app_predict_body dt (Suc (Suc n)) (Suc n) k) (Suc n)) =
        app_predict_euler dt (cells k (Suc (Suc n)), cells k (Suc n)) \<and>
      (\<forall>a<fresh k. a \<noteq> Suc (Suc n) \<longrightarrow> a \<noteq> Suc n \<longrightarrow>
         cells (app_predict_body dt (Suc (Suc n)) (Suc n) k) a = cells k a)"
    if "Suc (Suc n) < fresh k" "Suc n < fresh k" for k :: store
    using app_predict_body_spec [OF that b(3), of dt] by blast
  from scene_loop_spec [OF body b(1) b(2), of 2000] f6 show ?thesis
    unfolding e w n_def [symmetric] by auto
qed

lemma write_marker_spec:
  assumes "fresh (heap sc) \<le> fresh (snd r) \<and>
    (\<forall>a<fresh (heap sc). cells (snd r) a = cells (heap sc) a) \<and>
    map_option (cells (snd r)) (fst r) = res"
  shows "live (write_marker r sc) = live sc"
    and "\<forall>a<fresh (heap sc). a \<noteq> marker_ref sc \<longrightarrow>
       cells (heap (write_marker r sc)) a = cells (heap sc) a"
    and "prediction_result (write_marker r sc) = res"
proof -
  obtain x h where r: "r = (x, h)" by (cases r)
  show "live (write_marker r sc) = live sc"
    by (cases x) (simp_all add: r write_marker_def)
  show "\<forall>a<fresh (heap sc). a \<noteq> marker_ref sc \<longrightarrow>
       cells (heap (write_marker r sc)) a = cells (heap sc) a"
    using assms by (cases x) (simp_all add: r write_marker_def v3_copy_def)
  show "prediction_result (write_marker r sc) = res"
    using assms by (cases x) (auto simp: r write_marker_def v3_copy_def prediction_result_def)
qed

lemma meteor_of_frame:
  assumes "\<forall>a<n. a \<noteq> k \<longrightarrow> cells h' a = cells h a"
    and "\<forall>a\<in>meteor_refs m. a < n \<and> a \<noteq> k"
  shows "meteor_of h' m = meteor_of h m"
  using assms by (cases "angularVelocity_ref m") (simp_all add: meteor_of_def meteor_refs_def)

lemma predict_same_inputs:
  assumes "same_inputs sc sc'"
  shows "predict speed (world_of sc') = predict speed (world_of sc)"
    and "app_predict speed (world_of sc') = app_predict speed (world_of sc)"
proof -
  from assms have c: "cells (heap sc) (camera_ref sc) = cells (heap sc') (camera_ref sc')"
    and d: "aim_direction sc = aim_direction sc'"
    and r: "is_realistic sc = is_realistic sc'" and s: "sim_speed sc = sim_speed sc'"
    by (simp_all add: same_inputs_def)
  note d' = d [unfolded aim_direction_def c]
  show "predict speed (world_of sc') = predict speed (world_of sc)"
    by (simp add: predict_def world_of_def Let_def c d' r s)
  show "app_predict speed (world_of sc') = app_predict speed (world_of sc)"
    by (simp add: app_predict_def world_of_def Let_def c d' r s)
qed

text \<open>
  C3: in a scene whose camera and cursor positions are allocated vectors, running
  \<open>updatePredictedImpact\<close> of either file leaves the list of meteors as it was, and
  leaves every field of every meteor as it was, provided the vectors of the meteor
  are allocated and none of them is the position vector of the marker, the one
  vector the function writes besides those it allocates itself. The PredictionResult
  it leaves in the marker is the value the function \<open>predict\<close> (\<open>app_predict\<close>) computes
  from the camera position, the cursor position, the launch speed, the model and the
  simulation speed. So two scenes with the same origin, aim direction, model and
  simulation speed get the same PredictionResult at the same launch speed, whatever
  else differs between them: the meteors, the marker, the layout of the store.
\<close>

theorem predictor_isolated:
  assumes "camera_ref sc < fresh (heap sc)" and "cursor_ref sc < fresh (heap sc)"
    and "camera_ref sc' < fresh (heap sc')" and "cursor_ref sc' < fresh (heap sc')"
  shows "live (updatePredictedImpact_store speed sc) = live sc \<and>
    live (app_updatePredictedImpact_store speed sc) = live sc \<and>
    (\<forall>m\<in>set (live sc). (\<forall>a\<in>meteor_refs m. a < fresh (heap sc) \<and> a \<noteq> marker_ref sc) \<longrightarrow>
       meteor_of (heap (updatePredictedImpact_store speed sc)) m = meteor_of (heap sc) m \<and>
       meteor_of (heap (app_updatePredictedImpact_store speed sc)) m = meteor_of (heap sc) m) \<and>
    prediction_result (updatePredictedImpact_store speed sc) = snd (predict speed (world_of sc)) \<and>
    prediction_result (app_updatePredictedImpact_store speed sc) =
      snd (app_predict speed (world_of sc)) \<and>
    (same_inputs sc sc' \<longrightarrow>
       prediction_result (updatePredictedImpact_store speed sc') =
         prediction_result (updatePredictedImpact_store speed sc) \<and>
       prediction_result (app_updatePredictedImpact_store speed sc') =
         prediction_result (app_updatePredictedImpact_store speed sc))"
proof -
  note m = write_marker_spec [OF predict_store_spec [OF assms(1,2), of speed],
      folded updatePredictedImpact_store_def]
  note a = write_marker_spec [OF app_predict_store_spec [OF assms(1,2), of speed],
      folded app_updatePredictedImpact_store_def]
  note m' = write_marker_spec [OF predict_store_spec [OF assms(3,4), of speed],
      folded updatePredictedImpact_store_def]
  note a' = write_marker_spec [OF app_predict_store_spec [OF assms(3,4), of speed],
      folded app_updatePredictedImpact_store_def]
  have f: "meteor_of (heap (updatePredictedImpact_store speed sc)) m = meteor_of (heap sc) m"
    "meteor_of (heap (app_updatePredictedImpact_store speed sc)) m = meteor_of (heap sc) m"
    if "\<forall>a\<in>meteor_refs m. a < fresh (heap sc) \<and> a \<noteq> marker_ref sc" for m
    using meteor_of_frame [OF m(2) that] meteor_of_frame [OF a(2) that] by simp_all
  show ?thesis
    using m(1,3) a(1,3) m'(3) a'(3) f predict_same_inputs [of sc sc' speed] by simp
qed

text \<open>
  The two scenes of the scenario satisfy every hypothesis: the meteor of the one is
  as it was after a prediction, and the other gets the same PredictionResult.
\<close>

theorem predictor_isolated_witness:
  "camera_ref rock_scene < fresh (heap rock_scene) \<and>
   cursor_ref rock_scene < fresh (heap rock_scene) \<and>
   camera_ref empty_scene < fresh (heap empty_scene) \<and>
   cursor_ref empty_scene < fresh (heap empty_scene) \<and>
   rock_obj \<in> set (live rock_scene) \<and>
   meteor_refs rock_obj = {3, 4, 5} \<and> fresh (heap rock_scene) = 6 \<and>
   marker_ref rock_scene = 2 \<and>
   same_inputs rock_scene empty_scene \<and>
   meteor_of (heap (updatePredictedImpact_store 0.05 rock_scene)) rock_obj =
     meteor_of (heap rock_scene) rock_obj \<and>
   meteor_of (heap (app_updatePredictedImpact_store 0.05 rock_scene)) rock_obj =
     meteor_of (heap rock_scene) rock_obj \<and>
   prediction_result (updatePredictedImpact_store 0.05 empty_scene) =
     prediction_result (updatePredictedImpact_store 0.05 rock_scene) \<and>
   prediction_result (app_updatePredictedImpact_store 0.05 empty_scene) =
     prediction_result (app_updatePredictedImpact_store 0.05 rock_scene)"
proof -
  have h: "camera_ref rock_scene < fresh (heap rock_scene)"
    "cursor_ref rock_scene < fresh (heap rock_scene)"
    "camera_ref empty_scene < fresh (heap empty_scene)"
    "cursor_ref empty_scene < fresh (heap empty_scene)"
    by (simp_all add: rock_scene_def empty_scene_def)
  have l: "rock_obj \<in> set (live rock_scene)"
    by (simp add: rock_scene_def)
  have r: "\<forall>a\<in>meteor_refs rock_obj. a < fresh (heap rock_scene) \<and> a \<noteq> marker_ref rock_scene"
    by (simp add: meteor_refs_def rock_obj_def rock_scene_def)
  have s: "same_inputs rock_scene empty_scene"
    by (simp add: same_inputs_def aim_direction_def rock_scene_def empty_scene_def
        normalize_v_def divideScalar_def multiplyScalar_def sub_def js_or_def length_v_axis)
  have e: "meteor_refs rock_obj = {3, 4, 5}" "fresh (heap rock_scene) = 6"
    "marker_ref rock_scene = 2"
    by (auto simp: meteor_refs_def rock_obj_def rock_scene_def)
  show ?thesis
    using predictor_isolated [OF h, of "0.05"] h l r s e by blast
qed

end
